theory Spec2Isabelle
  imports Complex_Main "HOL-Library.AList"
begin

section \<open>Port allocator (src/lib/port-manager.ts)\<close>

text \<open>
  The allocator keeps a set \<open>usedPorts\<close> of numbers. Ports are modelled as integers; the
  range constants are those of the source.
\<close>

definition BASE_PORT :: int where
  "BASE_PORT = 8000"

definition MAX_PORT :: int where
  "MAX_PORT = 8100"

text \<open>The exceptions thrown by the manager classes, as values.\<close>

datatype exn =
    NoAvailablePorts
  | ProcessNotFound string
  | CannotRemoveRunning
  | SpawnError string

text \<open>
  \<open>allocate\<close>: the \<open>for\<close> loop from \<open>BASE_PORT\<close> up to \<open>MAX_PORT\<close>; the first port that is
  not in the set is added and returned, and the \<open>throw\<close> after the loop is the \<open>Inl\<close> branch.
\<close>

function allocate_loop :: "int \<Rightarrow> int set \<Rightarrow> exn + (int \<times> int set)" where
  "allocate_loop port usedPorts =
     (if port \<le> MAX_PORT then
        (if port \<notin> usedPorts then Inr (port, insert port usedPorts)
         else allocate_loop (port + 1) usedPorts)
      else Inl NoAvailablePorts)"
  by pat_completeness auto
termination
  by (relation "measure (\<lambda>(port, usedPorts). nat (MAX_PORT + 1 - port))") auto

definition allocate :: "int set \<Rightarrow> exn + (int \<times> int set)" where
  "allocate usedPorts = allocate_loop BASE_PORT usedPorts"

definition release :: "int \<Rightarrow> int set \<Rightarrow> int set" where
  "release port usedPorts = usedPorts - {port}"

definition isAvailable :: "int \<Rightarrow> int set \<Rightarrow> bool" where
  "isAvailable port usedPorts \<longleftrightarrow> port \<notin> usedPorts \<and> port \<ge> BASE_PORT \<and> port \<le> MAX_PORT"

definition reserve :: "int \<Rightarrow> int set \<Rightarrow> bool \<times> int set" where
  "reserve port usedPorts =
     (if isAvailable port usedPorts then (True, insert port usedPorts)
      else (False, usedPorts))"

text \<open>
  A client of the allocator: a sequence of \<open>allocate\<close> and \<open>release\<close> calls. Beside the
  allocator's own set the run keeps the list of live allocations, that is the ports
  returned by \<open>allocate\<close> and not released since.
\<close>

datatype port_op = Allocate | Release int

fun run_op :: "int set \<times> int list \<Rightarrow> port_op \<Rightarrow> int set \<times> int list" where
  "run_op (usedPorts, live) Allocate =
     (case allocate usedPorts of
        Inl e \<Rightarrow> (usedPorts, live)
      | Inr (port, usedPorts') \<Rightarrow> (usedPorts', port # live))"
| "run_op (usedPorts, live) (Release port) = (release port usedPorts, removeAll port live)"

definition run_ops :: "port_op list \<Rightarrow> int set \<times> int list" where
  "run_ops ops = foldl run_op ({}, []) ops"

section \<open>Launch configuration (src/lib/vllm-config.ts, src/types/process.ts)\<close>

text \<open>
  JavaScript numbers are modelled as reals, optional fields as \<open>option\<close>. The record
  keeps the field names of \<open>VLLMConfig\<close>.
\<close>

datatype TokenizerMode = TmAuto | TmSlow

datatype Dtype = DtAuto | DtFloat16 | DtBfloat16 | DtFloat32

datatype LoadFormat = LfAuto | LfGguf | LfSafetensors

fun tokenizerMode_str :: "TokenizerMode \<Rightarrow> string" where
  "tokenizerMode_str TmAuto = ''auto''"
| "tokenizerMode_str TmSlow = ''slow''"

fun dtype_str :: "Dtype \<Rightarrow> string" where
  "dtype_str DtAuto = ''auto''"
| "dtype_str DtFloat16 = ''float16''"
| "dtype_str DtBfloat16 = ''bfloat16''"
| "dtype_str DtFloat32 = ''float32''"

fun loadFormat_str :: "LoadFormat \<Rightarrow> string" where
  "loadFormat_str LfAuto = ''auto''"
| "loadFormat_str LfGguf = ''gguf''"
| "loadFormat_str LfSafetensors = ''safetensors''"

record VLLMConfig =
  port :: int
  host :: string
  tokenizer :: "string option"
  tokenizerMode :: "TokenizerMode option"
  tensorParallelSize :: "real option"
  pipelineParallelSize :: "real option"
  dtype :: "Dtype option"
  maxModelLen :: "real option"
  gpuMemoryUtilization :: "real option"
  quantization :: "string option"
  loadFormat :: "LoadFormat option"
  apiKey :: "string option"
  servedModelName :: "string option"
  enforceEager :: "bool option"
  maxNumSeqs :: "real option"
  trustRemoteCode :: "bool option"

text \<open>
  Truthiness of an optional string, number or boolean in a JavaScript condition:
  \<open>undefined\<close>, the empty string, \<open>0\<close> and \<open>false\<close> are falsy.
\<close>

fun truthy_str :: "string option \<Rightarrow> bool" where
  "truthy_str None = False"
| "truthy_str (Some s) = (s \<noteq> [])"

fun truthy_num :: "real option \<Rightarrow> bool" where
  "truthy_num None = False"
| "truthy_num (Some x) = (x \<noteq> 0)"

fun truthy_bool :: "bool option \<Rightarrow> bool" where
  "truthy_bool None = False"
| "truthy_bool (Some b) = b"

text \<open>
  \<open>buildVLLMArgs\<close>. \<open>Number.prototype.toString\<close> is a parameter \<open>toStr\<close>. Each \<open>if\<close> of
  the source is one segment of the argument list, in the source's order.
\<close>

definition buildVLLMArgs :: "(real \<Rightarrow> string) \<Rightarrow> string \<Rightarrow> VLLMConfig \<Rightarrow> string list" where
  "buildVLLMArgs toStr modelPath config =
     [''serve'', modelPath]
     @ [''--port'', toStr (of_int (port config))]
     @ [''--host'', host config]
     @ (if truthy_str (tokenizer config) then [''--tokenizer'', the (tokenizer config)] else [])
     @ (case tokenizerMode config of
          Some m \<Rightarrow> [''--tokenizer-mode'', tokenizerMode_str m] | None \<Rightarrow> [])
     @ (if truthy_num (tensorParallelSize config) \<and> the (tensorParallelSize config) > 1
        then [''--tensor-parallel-size'', toStr (the (tensorParallelSize config))] else [])
     @ (if truthy_num (pipelineParallelSize config) \<and> the (pipelineParallelSize config) > 1
        then [''--pipeline-parallel-size'', toStr (the (pipelineParallelSize config))] else [])
     @ (case dtype config of
          Some d \<Rightarrow> (if d \<noteq> DtAuto then [''--dtype'', dtype_str d] else []) | None \<Rightarrow> [])
     @ (if truthy_num (maxModelLen config)
        then [''--max-model-len'', toStr (the (maxModelLen config))] else [])
     @ (if truthy_num (gpuMemoryUtilization config) \<and> the (gpuMemoryUtilization config) > 0
            \<and> the (gpuMemoryUtilization config) \<le> 1
        then [''--gpu-memory-utilization'', toStr (the (gpuMemoryUtilization config))] else [])
     @ (if truthy_str (quantization config) then [''--quantization'', the (quantization config)] else [])
     @ (case loadFormat config of
          Some f \<Rightarrow> (if f \<noteq> LfAuto then [''--load-format'', loadFormat_str f] else []) | None \<Rightarrow> [])
     @ (if truthy_str (apiKey config) then [''--api-key'', the (apiKey config)] else [])
     @ (if truthy_str (servedModelName config)
        then [''--served-model-name'', the (servedModelName config)] else [])
     @ (if truthy_bool (enforceEager config) then [''--enforce-eager''] else [])
     @ (if truthy_num (maxNumSeqs config)
        then [''--max-num-seqs'', toStr (the (maxNumSeqs config))] else [])
     @ (if truthy_bool (trustRemoteCode config) then [''--trust-remote-code''] else [])"

definition getDefaultConfig :: "int \<Rightarrow> VLLMConfig" where
  "getDefaultConfig p =
     \<lparr> port = p, host = ''127.0.0.1'', tokenizer = None, tokenizerMode = None,
       tensorParallelSize = None, pipelineParallelSize = None, dtype = Some DtAuto,
       maxModelLen = None, gpuMemoryUtilization = Some (9 / 10), quantization = None,
       loadFormat = None, apiKey = None, servedModelName = None, enforceEager = Some False,
       maxNumSeqs = None, trustRemoteCode = Some False \<rparr>"

text \<open>
  The user configuration of \<open>spawn\<close> is a \<open>Partial<Omit<VLLMConfig, "port" | "host">>\<close>:
  each key is absent (\<open>None\<close>), or present with a value (\<open>Some (Some v)\<close>) or with
  \<open>undefined\<close> or \<open>null\<close> (\<open>Some None\<close>).
\<close>

record UserConfig =
  u_tokenizer :: "string option option"
  u_tokenizerMode :: "TokenizerMode option option"
  u_tensorParallelSize :: "real option option"
  u_pipelineParallelSize :: "real option option"
  u_dtype :: "Dtype option option"
  u_maxModelLen :: "real option option"
  u_gpuMemoryUtilization :: "real option option"
  u_quantization :: "string option option"
  u_loadFormat :: "LoadFormat option option"
  u_apiKey :: "string option option"
  u_servedModelName :: "string option option"
  u_enforceEager :: "bool option option"
  u_maxNumSeqs :: "real option option"
  u_trustRemoteCode :: "bool option option"

text \<open>
  The object spread of \<open>spawn\<close>, \<open>{...getDefaultConfig(port), ...userConfig, port, host}\<close>:
  a key present in \<open>userConfig\<close> replaces the default, also when what it holds is
  \<open>undefined\<close>, and \<open>port\<close> and \<open>host\<close> are set last.
\<close>

definition override :: "'a option \<Rightarrow> 'a option option \<Rightarrow> 'a option" where
  "override d u = (case u of None \<Rightarrow> d | Some v \<Rightarrow> v)"

definition mergeConfig :: "int \<Rightarrow> UserConfig option \<Rightarrow> VLLMConfig" where
  "mergeConfig p userConfig =
     (case userConfig of
        None \<Rightarrow> (getDefaultConfig p) \<lparr> port := p, host := ''127.0.0.1'' \<rparr>
      | Some u \<Rightarrow>
          (let d = getDefaultConfig p in
           \<lparr> port = p, host = ''127.0.0.1'',
             tokenizer = override (tokenizer d) (u_tokenizer u),
             tokenizerMode = override (tokenizerMode d) (u_tokenizerMode u),
             tensorParallelSize = override (tensorParallelSize d) (u_tensorParallelSize u),
             pipelineParallelSize = override (pipelineParallelSize d) (u_pipelineParallelSize u),
             dtype = override (dtype d) (u_dtype u),
             maxModelLen = override (maxModelLen d) (u_maxModelLen u),
             gpuMemoryUtilization = override (gpuMemoryUtilization d) (u_gpuMemoryUtilization u),
             quantization = override (quantization d) (u_quantization u),
             loadFormat = override (loadFormat d) (u_loadFormat u),
             apiKey = override (apiKey d) (u_apiKey u),
             servedModelName = override (servedModelName d) (u_servedModelName u),
             enforceEager = override (enforceEager d) (u_enforceEager u),
             maxNumSeqs = override (maxNumSeqs d) (u_maxNumSeqs u),
             trustRemoteCode = override (trustRemoteCode d) (u_trustRemoteCode u) \<rparr>))"

section \<open>Process supervisor (src/lib/process-manager.ts)\<close>

text \<open>
  A timestamp is the text \<open>new Date().toISOString()\<close> returns; each operation takes the
  current one as its argument \<open>now\<close>. The record \<open>VLLMProcess\<close> has the fields of the
  source; \<open>id\<close>, \<open>port\<close> and \<open>error\<close> are written \<open>p_id\<close>, \<open>p_port\<close> and \<open>p_error\<close>.
\<close>

type_synonym timestamp = string

datatype ProcessStatus = Starting | Running | Stopping | Stopped | Error

record VLLMProcess =
  p_id :: string
  modelId :: string
  modelName :: string
  modelPath :: string
  p_port :: int
  status :: ProcessStatus
  pid :: "nat option"
  startedAt :: "timestamp option"
  stoppedAt :: "timestamp option"
  config :: VLLMConfig
  p_error :: "string option"

datatype Signal = SIGTERM | SIGKILL

datatype Stream = Stdout | Stderr

fun stream_str :: "Stream \<Rightarrow> string" where
  "stream_str Stdout = ''stdout''"
| "stream_str Stderr = ''stderr''"

datatype ChildProcess = ChildProcess (child_pid: "nat option")

record ManagedProcess =
  info :: VLLMProcess
  process :: "ChildProcess option"
  logs :: "string list"

datatype ProcessEvent =
    StatusEvent string timestamp ProcessStatus
  | LogEvent string timestamp string Stream

text \<open>
  The state of the module. A \<open>ManagedProcess\<close> is a mutable object that the handlers
  attached by \<open>spawn\<close> keep reaching after the map entry is deleted, so the objects live in
  a store \<open>objects\<close> indexed by process id, and \<open>processes\<close> is the list of keys of the
  \<open>Map\<close>, in insertion order. \<open>portManager\<close> is the used set of the allocator singleton,
  \<open>stateFile\<close> the content of \<open>processes.json\<close> (\<open>None\<close> when the file does not exist),
  \<open>events\<close> what was emitted, \<open>launched\<close> the argument vectors handed to the operating
  system and \<open>signals\<close> the signals sent to children.
\<close>

record pm_state =
  objects :: "string \<Rightarrow> ManagedProcess option"
  processes :: "string list"
  portManager :: "int set"
  stateFile :: "VLLMProcess list option"
  events :: "ProcessEvent list"
  launched :: "string list list"
  signals :: "(string \<times> Signal) list"

definition pm_init :: pm_state where
  "pm_init = \<lparr> objects = (\<lambda>k. None), processes = [], portManager = {}, stateFile = None,
               events = [], launched = [], signals = [] \<rparr>"

definition mapGet :: "pm_state \<Rightarrow> string \<Rightarrow> ManagedProcess option" where
  "mapGet s k = (if k \<in> set (processes s) then objects s k else None)"

definition setObject :: "string \<Rightarrow> ManagedProcess \<Rightarrow> pm_state \<Rightarrow> pm_state" where
  "setObject k m s = s \<lparr> objects := (objects s)(k \<mapsto> m) \<rparr>"

definition mapSet :: "string \<Rightarrow> ManagedProcess \<Rightarrow> pm_state \<Rightarrow> pm_state" where
  "mapSet k m s =
     s \<lparr> objects := (objects s)(k \<mapsto> m),
         processes := (if k \<in> set (processes s) then processes s else processes s @ [k]) \<rparr>"

definition mapDelete :: "string \<Rightarrow> pm_state \<Rightarrow> pm_state" where
  "mapDelete k s = s \<lparr> processes := removeAll k (processes s) \<rparr>"

definition mapValues :: "pm_state \<Rightarrow> ManagedProcess list" where
  "mapValues s = List.map_filter (objects s) (processes s)"

definition getAllProcesses :: "pm_state \<Rightarrow> VLLMProcess list" where
  "getAllProcesses s = map info (mapValues s)"

text \<open>\<open>saveState\<close> overwrites the file with the \<open>info\<close> of every entry of the map.\<close>

definition saveState :: "pm_state \<Rightarrow> pm_state" where
  "saveState s = s \<lparr> stateFile := Some (map info (mapValues s)) \<rparr>"

definition emitEvent :: "ProcessEvent \<Rightarrow> pm_state \<Rightarrow> pm_state" where
  "emitEvent e s = s \<lparr> events := events s @ [e] \<rparr>"

definition maxLogLines :: nat where
  "maxLogLines = 1000"

definition addLog :: "timestamp \<Rightarrow> string \<Rightarrow> string \<Rightarrow> Stream \<Rightarrow> pm_state \<Rightarrow> pm_state" where
  "addLog now processId message stream s =
     (case mapGet s processId of
        None \<Rightarrow> s
      | Some managed \<Rightarrow>
          (let logLine = ''['' @ now @ ''] ['' @ stream_str stream @ ''] '' @ message;
               pushed = logs managed @ [logLine];
               trimmed = (if length pushed > maxLogLines
                          then drop (length pushed - maxLogLines) pushed else pushed)
           in emitEvent (LogEvent processId now logLine stream)
                (setObject processId (managed \<lparr> logs := trimmed \<rparr>) s)))"

text \<open>
  \<open>updateStatus\<close>: returns at once for an id that is not in the map; otherwise writes the
  status it is given, the error text when that is truthy, and for \<open>stopped\<close> and \<open>error\<close>
  the stop time and the release of the port; then \<open>saveState\<close> and the status event.
\<close>

definition updateStatus ::
  "timestamp \<Rightarrow> string \<Rightarrow> ProcessStatus \<Rightarrow> string option \<Rightarrow> pm_state \<Rightarrow> pm_state" where
  "updateStatus now processId st err s =
     (case mapGet s processId of
        None \<Rightarrow> s
      | Some managed \<Rightarrow>
          (let i1 = (info managed) \<lparr> status := st \<rparr>;
               i2 = (if truthy_str err then i1 \<lparr> p_error := err \<rparr> else i1);
               i3 = (if st = Stopped \<or> st = Error then i2 \<lparr> stoppedAt := Some now \<rparr> else i2);
               s1 = setObject processId (managed \<lparr> info := i3 \<rparr>) s;
               s2 = (if st = Stopped \<or> st = Error
                     then s1 \<lparr> portManager := release (p_port i3) (portManager s1) \<rparr> else s1)
           in emitEvent (StatusEvent processId now st) (saveState s2)))"

text \<open>
  \<open>spawn\<close> up to its \<open>await\<close>. The new id is the result of \<open>uuidv4\<close>, and \<open>child\<close> is what
  \<open>child_process.spawn\<close> does: it returns a handle or throws (\<open>Inl\<close> with the message). A
  throw of \<open>allocate\<close> leaves \<open>spawn\<close> before anything is written. \<open>Inr ()\<close> says that
  \<open>spawn\<close> has reached its wait.
\<close>

definition spawn_catch :: "timestamp \<Rightarrow> string \<Rightarrow> int \<Rightarrow> string \<Rightarrow> pm_state \<Rightarrow> pm_state" where
  "spawn_catch now processId p message s =
     updateStatus now processId Error (Some message)
       (s \<lparr> portManager := release p (portManager s) \<rparr>)"

definition spawn_begin ::
  "(real \<Rightarrow> string) \<Rightarrow> timestamp \<Rightarrow> string \<Rightarrow> string \<Rightarrow> string \<Rightarrow> string \<Rightarrow>
   UserConfig option \<Rightarrow> string + ChildProcess \<Rightarrow> pm_state \<Rightarrow> (exn + unit) \<times> pm_state" where
  "spawn_begin toStr now processId mId mName mPath userConfig child s =
     (case allocate (portManager s) of
        Inl e \<Rightarrow> (Inl e, s)
      | Inr (p, ports) \<Rightarrow>
          (let cfg = mergeConfig p userConfig;
               processInfo = \<lparr> p_id = processId, modelId = mId, modelName = mName,
                               modelPath = mPath, p_port = p, status = Starting, pid = None,
                               startedAt = Some now, stoppedAt = None, config = cfg,
                               p_error = None \<rparr>;
               managed = \<lparr> info = processInfo, process = None, logs = [] \<rparr>;
               s1 = saveState (mapSet processId managed (s \<lparr> portManager := ports \<rparr>));
               args = buildVLLMArgs toStr mPath cfg
           in case child of
                Inl message \<Rightarrow> (Inl (SpawnError message), spawn_catch now processId p message s1)
              | Inr childProcess \<Rightarrow>
                  (let i = processInfo \<lparr> pid := child_pid childProcess \<rparr>;
                       s2 = setObject processId
                              (managed \<lparr> process := Some childProcess, info := i \<rparr>)
                              (s1 \<lparr> launched := launched s1 @ [args] \<rparr>)
                   in (Inr (), s2))))"

text \<open>The rest of \<open>spawn\<close>, after the wait of two seconds.\<close>

definition spawn_end :: "timestamp \<Rightarrow> string \<Rightarrow> pm_state \<Rightarrow> (exn + VLLMProcess) \<times> pm_state" where
  "spawn_end now processId s =
     (case objects s processId of
        None \<Rightarrow> (Inl (ProcessNotFound processId), s)
      | Some managed \<Rightarrow>
          (if status (info managed) = Error then
             (let message = (if truthy_str (p_error (info managed))
                             then the (p_error (info managed)) else ''Process failed to start'')
              in (Inl (SpawnError message),
                  spawn_catch now processId (p_port (info managed)) message s))
           else (Inr (info managed), s)))"

text \<open>The handlers \<open>spawn\<close> attaches to the child: output, \<open>error\<close> and \<open>exit\<close>.\<close>

fun str_includes :: "string \<Rightarrow> string \<Rightarrow> bool" where
  "str_includes [] sub = (sub = [])"
| "str_includes (c # cs) sub = (take (length sub) (c # cs) = sub \<or> str_includes cs sub)"

definition onStdoutLine :: "timestamp \<Rightarrow> string \<Rightarrow> string \<Rightarrow> pm_state \<Rightarrow> pm_state" where
  "onStdoutLine now processId line s =
     (let s1 = addLog now processId line Stdout s
      in if str_includes line ''Uvicorn running'' \<or> str_includes line ''Application startup complete''
         then updateStatus now processId Running None s1 else s1)"

definition onStdoutData :: "timestamp \<Rightarrow> string \<Rightarrow> string list \<Rightarrow> pm_state \<Rightarrow> pm_state" where
  "onStdoutData now processId lines s =
     foldl (\<lambda>s' line. onStdoutLine now processId line s') s (filter (\<lambda>l. l \<noteq> []) lines)"

definition onStderrData :: "timestamp \<Rightarrow> string \<Rightarrow> string list \<Rightarrow> pm_state \<Rightarrow> pm_state" where
  "onStderrData now processId lines s =
     foldl (\<lambda>s' line. addLog now processId line Stderr s') s (filter (\<lambda>l. l \<noteq> []) lines)"

definition onError :: "timestamp \<Rightarrow> string \<Rightarrow> string \<Rightarrow> pm_state \<Rightarrow> pm_state" where
  "onError now processId message s = updateStatus now processId Error (Some message) s"

definition digit_char :: "nat \<Rightarrow> char" where
  "digit_char n = ''0123456789'' ! n"

function show_nat :: "nat \<Rightarrow> string" where
  "show_nat n = (if n < 10 then [digit_char n] else show_nat (n div 10) @ [digit_char (n mod 10)])"
  by pat_completeness auto
termination
  by (relation "measure (\<lambda>n. n)") auto

definition show_code :: "int option \<Rightarrow> string" where
  "show_code code =
     (case code of
        None \<Rightarrow> ''null''
      | Some c \<Rightarrow> (if c < 0 then CHR ''-'' # show_nat (nat (- c)) else show_nat (nat c)))"

definition onExit :: "timestamp \<Rightarrow> string \<Rightarrow> int option \<Rightarrow> pm_state \<Rightarrow> pm_state" where
  "onExit now processId code s =
     (case objects s processId of
        None \<Rightarrow> s
      | Some managed \<Rightarrow>
          (let st = status (info managed);
               s1 = (if st \<noteq> Stopping \<and> st \<noteq> Stopped
                     then updateStatus now processId
                            (if code = Some 0 then Stopped else Error)
                            (if code \<noteq> Some 0
                             then Some (''Process exited with code '' @ show_code code) else None) s
                     else updateStatus now processId Stopped None s)
           in case objects s1 processId of
                None \<Rightarrow> s1
              | Some m \<Rightarrow> setObject processId (m \<lparr> process := None \<rparr>) s1))"

text \<open>
  \<open>kill\<close> up to the promise it returns: the status update and the first signal. The timer
  of the promise is the event \<open>killTimeout\<close>.
\<close>

definition sendSignal :: "string \<Rightarrow> Signal \<Rightarrow> pm_state \<Rightarrow> pm_state" where
  "sendSignal processId sig s = s \<lparr> signals := signals s @ [(processId, sig)] \<rparr>"

definition kill :: "timestamp \<Rightarrow> string \<Rightarrow> bool \<Rightarrow> pm_state \<Rightarrow> (exn + unit) \<times> pm_state" where
  "kill now processId force s =
     (case mapGet s processId of
        None \<Rightarrow> (Inl (ProcessNotFound processId), s)
      | Some managed \<Rightarrow>
          (if process managed = None then (Inr (), updateStatus now processId Stopped None s)
           else (Inr (), sendSignal processId (if force then SIGKILL else SIGTERM)
                           (updateStatus now processId Stopping None s))))"

definition killTimeout :: "string \<Rightarrow> pm_state \<Rightarrow> pm_state" where
  "killTimeout processId s =
     (case objects s processId of
        None \<Rightarrow> s
      | Some managed \<Rightarrow> (if process managed \<noteq> None then sendSignal processId SIGKILL s else s))"

definition removeProcess :: "string \<Rightarrow> pm_state \<Rightarrow> (exn + bool) \<times> pm_state" where
  "removeProcess processId s =
     (case mapGet s processId of
        None \<Rightarrow> (Inr False, s)
      | Some managed \<Rightarrow>
          (if status (info managed) = Running \<or> status (info managed) = Starting
           then (Inl CannotRemoveRunning, s)
           else (Inr True, saveState (mapDelete processId s))))"

text \<open>
  \<open>restoreState\<close>: the loop over the records of the state file, in the order of the file.
\<close>

definition restoreOne :: "timestamp \<Rightarrow> pm_state \<Rightarrow> VLLMProcess \<Rightarrow> pm_state" where
  "restoreOne now s processInfo =
     (let i = (if status processInfo = Running \<or> status processInfo = Starting
               then processInfo \<lparr> status := Stopped, stoppedAt := Some now \<rparr> else processInfo);
          s1 = mapSet (p_id i) \<lparr> info = i, process = None, logs = [] \<rparr> s
      in if status i \<noteq> Stopped
         then s1 \<lparr> portManager := snd (reserve (p_port i) (portManager s1)) \<rparr> else s1)"

definition restoreState :: "timestamp \<Rightarrow> pm_state \<Rightarrow> pm_state" where
  "restoreState now s =
     (case stateFile s of
        None \<Rightarrow> s
      | Some data \<Rightarrow> foldl (restoreOne now) s data)"

section \<open>Download coordinator (src/lib/download-manager.ts)\<close>

text \<open>
  Times are the milliseconds \<open>Date.now()\<close> returns; the timestamps of records and events
  are the same instants (the source renders them as ISO text). \<open>id\<close>, \<open>name\<close>, \<open>status\<close>,
  \<open>startedAt\<close> and \<open>error\<close> of \<open>Download\<close> carry the prefix \<open>d_\<close>. Byte counts, percentages,
  speeds and remaining times are reals where the source computes with doubles.
\<close>

datatype DownloadStatus =
  DlPending | DlDownloading | DlPaused | DlCompleted | DlError | DlCancelled

record DownloadProgress =
  downloaded :: real
  total :: real
  percent :: real
  speed :: "real option"
  eta :: "real option"

datatype DownloadSource =
    UrlSource string
  | S3Source string string
  | HuggingFaceSource string string "string option"

record Download =
  d_id :: string
  d_name :: string
  filename :: string
  source :: DownloadSource
  d_status :: DownloadStatus
  progress :: DownloadProgress
  d_startedAt :: int
  completedAt :: "int option"
  d_error :: "string option"

text \<open>
  \<open>abortController\<close> holds whether the controller's signal is aborted, \<open>childProcess\<close>
  the signals sent to the handle.
\<close>

record ManagedDownload =
  d_info :: Download
  abortController :: "bool option"
  childProcess :: "Signal list option"
  startTime :: int
  lastUpdate :: int

datatype DownloadEvent =
    DlProgressEvent string int DownloadProgress
  | DlStatusEvent string int DownloadStatus "string option"
  | DlCompleteEvent string int string

record JsError =
  err_name :: string
  err_message :: string

datatype dl_exn = InvalidUrl | AwsCredentialsNotConfigured | RepoAndFilenameRequired

text \<open>
  The state: the store of \<open>ManagedDownload\<close> objects and the keys of the \<open>Map\<close> as for the
  processes, the events emitted, the file system (\<open>files\<close> are the paths that exist, and
  \<open>unlinkSync\<close> throws on the paths in \<open>locked\<close>), the variable \<open>lastProgressUpdate\<close> of each
  \<open>performHuggingFaceDownload\<close> call, and the calls of \<open>modelRegistry.register\<close>.
\<close>

record dm_state =
  d_objects :: "string \<Rightarrow> ManagedDownload option"
  downloads :: "string list"
  d_events :: "DownloadEvent list"
  files :: "string set"
  locked :: "string set"
  lastProgressUpdate :: "string \<Rightarrow> int"
  registered :: "(string \<times> string \<times> real \<times> DownloadSource) list"

definition dm_init :: dm_state where
  "dm_init = \<lparr> d_objects = (\<lambda>k. None), downloads = [], d_events = [], files = {},
               locked = {}, lastProgressUpdate = (\<lambda>k. 0), registered = [] \<rparr>"

definition dlGet :: "dm_state \<Rightarrow> string \<Rightarrow> ManagedDownload option" where
  "dlGet s k = (if k \<in> set (downloads s) then d_objects s k else None)"

definition dlSetObject :: "string \<Rightarrow> ManagedDownload \<Rightarrow> dm_state \<Rightarrow> dm_state" where
  "dlSetObject k m s = s \<lparr> d_objects := (d_objects s)(k \<mapsto> m) \<rparr>"

definition dlSet :: "string \<Rightarrow> ManagedDownload \<Rightarrow> dm_state \<Rightarrow> dm_state" where
  "dlSet k m s =
     s \<lparr> d_objects := (d_objects s)(k \<mapsto> m),
         downloads := (if k \<in> set (downloads s) then downloads s else downloads s @ [k]) \<rparr>"

definition dlDelete :: "string \<Rightarrow> dm_state \<Rightarrow> dm_state" where
  "dlDelete k s = s \<lparr> downloads := removeAll k (downloads s) \<rparr>"

definition getAllDownloads :: "dm_state \<Rightarrow> Download list" where
  "getAllDownloads s = map d_info (List.map_filter (d_objects s) (downloads s))"

definition dl_emitEvent :: "DownloadEvent \<Rightarrow> dm_state \<Rightarrow> dm_state" where
  "dl_emitEvent e s = s \<lparr> d_events := d_events s @ [e] \<rparr>"

definition updateProgress :: "int \<Rightarrow> string \<Rightarrow> real \<Rightarrow> real \<Rightarrow> dm_state \<Rightarrow> dm_state" where
  "updateProgress now downloadId dl tot s =
     (case dlGet s downloadId of
        None \<Rightarrow> s
      | Some managed \<Rightarrow>
          (let elapsed = (of_int now - of_int (startTime managed)) / 1000;
               spd = (if elapsed > 0 then dl / elapsed else 0);
               remaining = tot - dl;
               e = (if spd > 0 then remaining / spd else 0);
               prog = \<lparr> downloaded = dl, total = tot,
                        percent = (if tot > 0 then (dl / tot) * 100 else 0),
                        speed = Some spd, eta = Some e \<rparr>;
               m1 = managed \<lparr> d_info := (d_info managed) \<lparr> progress := prog \<rparr> \<rparr>
           in if now - lastUpdate managed \<ge> 100
              then dl_emitEvent (DlProgressEvent downloadId now prog)
                     (dlSetObject downloadId (m1 \<lparr> lastUpdate := now \<rparr>) s)
              else dlSetObject downloadId m1 s))"

definition dl_updateStatus ::
  "int \<Rightarrow> string \<Rightarrow> DownloadStatus \<Rightarrow> string option \<Rightarrow> dm_state \<Rightarrow> dm_state" where
  "dl_updateStatus now downloadId st err s =
     (case dlGet s downloadId of
        None \<Rightarrow> s
      | Some managed \<Rightarrow>
          (let i1 = (d_info managed) \<lparr> d_status := st \<rparr>;
               i2 = (if truthy_str err then i1 \<lparr> d_error := err \<rparr> else i1);
               i3 = (if st = DlCompleted \<or> st = DlError \<or> st = DlCancelled
                     then i2 \<lparr> completedAt := Some now \<rparr> else i2)
           in dl_emitEvent (DlStatusEvent downloadId now st err)
                (dlSetObject downloadId (managed \<lparr> d_info := i3 \<rparr>) s)))"

text \<open>
  The three entry points up to the start of the transfer. What the platform computes is an
  argument: the protocol of the parsed URL (\<open>None\<close> when \<open>new URL\<close> throws), the file name
  derived from the path, the presence of the credentials, the size \<open>HeadObject\<close> reports.
\<close>

definition newDownload :: "int \<Rightarrow> string \<Rightarrow> string \<Rightarrow> string \<Rightarrow> DownloadSource \<Rightarrow> real \<Rightarrow> Download" where
  "newDownload now downloadId name fname src tot =
     \<lparr> d_id = downloadId, d_name = name, filename = fname, source = src, d_status = DlPending,
       progress = \<lparr> downloaded = 0, total = tot, percent = 0, speed = None, eta = None \<rparr>,
       d_startedAt = now, completedAt = None, d_error = None \<rparr>"

text \<open>
  Each entry point returns the object \<open>download\<close>, which is the \<open>info\<close> of the managed
  object and so already carries what \<open>updateStatus\<close> wrote.
\<close>

definition returnedInfo :: "dm_state \<Rightarrow> string \<Rightarrow> Download \<Rightarrow> Download" where
  "returnedInfo s downloadId download =
     (case d_objects s downloadId of None \<Rightarrow> download | Some m \<Rightarrow> d_info m)"

definition downloadFromUrl ::
  "int \<Rightarrow> string \<Rightarrow> string \<Rightarrow> string \<Rightarrow> string option \<Rightarrow> string \<Rightarrow> dm_state \<Rightarrow> (dl_exn + Download) \<times> dm_state" where
  "downloadFromUrl now downloadId name url protocol fname s =
     (if protocol \<noteq> Some ''http:'' \<and> protocol \<noteq> Some ''https:'' then (Inl InvalidUrl, s)
      else
        (let download = newDownload now downloadId name fname (UrlSource url) 0;
             managed = \<lparr> d_info = download, abortController = Some False, childProcess = None,
                         startTime = now, lastUpdate = now \<rparr>;
             s1 = dl_updateStatus now downloadId DlDownloading None (dlSet downloadId managed s)
         in (Inr (returnedInfo s1 downloadId download), s1)))"

definition downloadFromS3 ::
  "int \<Rightarrow> string \<Rightarrow> string \<Rightarrow> string \<Rightarrow> string \<Rightarrow> bool \<Rightarrow> real \<Rightarrow> string \<Rightarrow> dm_state \<Rightarrow> (dl_exn + Download) \<times> dm_state" where
  "downloadFromS3 now downloadId name bucket key credentials contentLength fname s =
     (if \<not> credentials then (Inl AwsCredentialsNotConfigured, s)
      else
        (let download = newDownload now downloadId name fname (S3Source bucket key) contentLength;
             managed = \<lparr> d_info = download, abortController = Some False, childProcess = None,
                         startTime = now, lastUpdate = now \<rparr>;
             s1 = dl_updateStatus now downloadId DlDownloading None (dlSet downloadId managed s)
         in (Inr (returnedInfo s1 downloadId download), s1)))"

text \<open>
  \<open>downloadFromHuggingFace\<close> runs the body of \<open>performHuggingFaceDownload\<close> before it
  returns: the \<open>hf\<close> process is started, its handle stored and \<open>lastProgressUpdate\<close> set.
\<close>

definition downloadFromHuggingFace ::
  "int \<Rightarrow> string \<Rightarrow> string \<Rightarrow> string \<Rightarrow> string \<Rightarrow> string option \<Rightarrow> string \<Rightarrow> dm_state \<Rightarrow> (dl_exn + Download) \<times> dm_state" where
  "downloadFromHuggingFace now downloadId name repoId hfFilename revision localFilename s =
     (if repoId = [] \<or> hfFilename = [] then (Inl RepoAndFilenameRequired, s)
      else
        (let download = newDownload now downloadId name localFilename
                          (HuggingFaceSource repoId hfFilename revision) 0;
             managed = \<lparr> d_info = download, abortController = None, childProcess = None,
                         startTime = now, lastUpdate = now \<rparr>;
             s1 = dl_updateStatus now downloadId DlDownloading None (dlSet downloadId managed s);
             s2 = (case dlGet s1 downloadId of
                     None \<Rightarrow> s1
                   | Some m \<Rightarrow> dlSetObject downloadId (m \<lparr> childProcess := Some [] \<rparr>) s1)
         in (Inr (returnedInfo s2 downloadId download),
             s2 \<lparr> lastProgressUpdate := (lastProgressUpdate s2)(downloadId := now) \<rparr>)))"

text \<open>
  The read loop of \<open>performUrlDownload\<close> and \<open>performS3Download\<close>: each chunk, arriving at
  time \<open>now\<close> with \<open>len\<close> bytes, adds to the counter and calls \<open>updateProgress\<close>.
\<close>

fun readChunks :: "string \<Rightarrow> real \<Rightarrow> real \<Rightarrow> (int \<times> real) list \<Rightarrow> dm_state \<Rightarrow> dm_state" where
  "readChunks downloadId contentLength dl [] s = s"
| "readChunks downloadId contentLength dl ((now, len) # rest) s =
     readChunks downloadId contentLength (dl + len) rest
       (updateProgress now downloadId (dl + len) contentLength s)"

text \<open>
  \<open>performUrlDownload\<close> up to the start of the transfer. \<open>fetched\<close> is what \<open>fetch\<close> settles
  with: its rejection, or the response with \<open>ok\<close>, \<open>status\<close>, \<open>statusText\<close>, the number
  \<open>parseInt\<close> reads from the \<open>content-length\<close> header (from \<open>"0"\<close> without the header) and
  whether there is a body. With a body the total of the record's progress is set to that
  number and \<open>createWriteStream\<close> creates the destination file. The result is the error
  thrown or \<open>contentLength\<close>.
\<close>

record Response =
  r_ok :: bool
  r_status :: nat
  r_statusText :: string
  r_contentLength :: real
  r_body :: bool

definition performUrlDownload_start ::
  "string \<Rightarrow> string \<Rightarrow> JsError + Response \<Rightarrow> dm_state \<Rightarrow> (JsError + real) \<times> dm_state" where
  "performUrlDownload_start downloadId destPath fetched s =
     (case fetched of
        Inl e \<Rightarrow> (Inl e, s)
      | Inr response \<Rightarrow>
          (if \<not> r_ok response then
             (Inl \<lparr> err_name = ''Error'',
                    err_message = ''HTTP '' @ show_nat (r_status response) @ '': ''
                                    @ r_statusText response \<rparr>, s)
           else if \<not> r_body response then
             (Inl \<lparr> err_name = ''Error'', err_message = ''No response body'' \<rparr>, s)
           else
             (let s1 = (case dlGet s downloadId of
                          None \<Rightarrow> s
                        | Some managed \<Rightarrow>
                            dlSetObject downloadId
                              (managed \<lparr> d_info := (d_info managed)
                                 \<lparr> progress := (progress (d_info managed))
                                      \<lparr> total := r_contentLength response \<rparr> \<rparr> \<rparr>) s)
              in (Inr (r_contentLength response), s1 \<lparr> files := insert destPath (files s1) \<rparr>))))"

text \<open>
  The whole of \<open>performUrlDownload\<close> when nothing else runs in between: the start, the
  chunks read, and what \<open>pipeline\<close> settles with (\<open>None\<close> when it resolves, its rejection
  otherwise).
\<close>

definition performUrlDownload ::
  "string \<Rightarrow> string \<Rightarrow> JsError + Response \<Rightarrow> (int \<times> real) list \<Rightarrow> JsError option \<Rightarrow> dm_state
     \<Rightarrow> (JsError + unit) \<times> dm_state" where
  "performUrlDownload downloadId destPath fetched chunks piped s =
     (case performUrlDownload_start downloadId destPath fetched s of
        (Inl e, s1) \<Rightarrow> (Inl e, s1)
      | (Inr contentLength, s1) \<Rightarrow>
          ((case piped of None \<Rightarrow> Inr () | Some e \<Rightarrow> Inl e),
           readChunks downloadId contentLength 0 chunks s1))"

text \<open>
  \<open>performS3Download\<close> likewise; \<open>sent\<close> is the rejection of \<open>s3Client.send\<close> or whether the
  response has a body, and \<open>contentLength\<close> is the size the entry point was given.
\<close>

definition performS3Download_start ::
  "string \<Rightarrow> string \<Rightarrow> JsError + bool \<Rightarrow> dm_state \<Rightarrow> (JsError + unit) \<times> dm_state" where
  "performS3Download_start downloadId destPath sent s =
     (case sent of
        Inl e \<Rightarrow> (Inl e, s)
      | Inr body \<Rightarrow>
          (if \<not> body then
             (Inl \<lparr> err_name = ''Error'', err_message = ''No response body from S3'' \<rparr>, s)
           else (Inr (), s \<lparr> files := insert destPath (files s) \<rparr>)))"

definition performS3Download ::
  "string \<Rightarrow> string \<Rightarrow> real \<Rightarrow> JsError + bool \<Rightarrow> (int \<times> real) list \<Rightarrow> JsError option \<Rightarrow> dm_state
     \<Rightarrow> (JsError + unit) \<times> dm_state" where
  "performS3Download downloadId destPath contentLength sent chunks piped s =
     (case performS3Download_start downloadId destPath sent s of
        (Inl e, s1) \<Rightarrow> (Inl e, s1)
      | (Inr u, s1) \<Rightarrow>
          ((case piped of None \<Rightarrow> Inr () | Some e \<Rightarrow> Inl e),
           readChunks downloadId contentLength 0 chunks s1))"

text \<open>
  The output handlers of the \<open>hf\<close> process (the ones of \<open>stdout\<close> and \<open>stderr\<close> do the same
  with the progress). \<open>m\<close> is the result of the pattern match on the chunk: the percentage
  and the two sizes, or \<open>None\<close> when the text does not match.
\<close>

definition hfOnData :: "int \<Rightarrow> string \<Rightarrow> (real \<times> real \<times> real) option \<Rightarrow> dm_state \<Rightarrow> dm_state" where
  "hfOnData now downloadId m s =
     (case d_objects s downloadId of
        None \<Rightarrow> s
      | Some managed \<Rightarrow>
          (case m of
             None \<Rightarrow> s
           | Some (pct, dl, tot) \<Rightarrow>
               (if now - lastProgressUpdate s downloadId \<ge> 100 then
                  (let prog = \<lparr> downloaded = dl, total = tot, percent = pct,
                                speed = None, eta = None \<rparr>
                   in dl_emitEvent (DlProgressEvent downloadId now prog)
                        (dlSetObject downloadId
                           (managed \<lparr> d_info := (d_info managed) \<lparr> progress := prog \<rparr> \<rparr>)
                           (s \<lparr> lastProgressUpdate := (lastProgressUpdate s)(downloadId := now) \<rparr>)))
                else s)))"

fun hfChunks :: "string \<Rightarrow> (int \<times> (real \<times> real \<times> real) option) list \<Rightarrow> dm_state \<Rightarrow> dm_state" where
  "hfChunks downloadId [] s = s"
| "hfChunks downloadId ((now, m) # rest) s = hfChunks downloadId rest (hfOnData now downloadId m s)"

text \<open>
  The end of a transfer. \<open>cleanupPartial\<close> is the \<open>try\<close> block of the three \<open>catch\<close>
  handlers: the file is unlinked when it exists, and a throw of \<open>unlinkSync\<close> is dropped.
\<close>

definition cleanupPartial :: "string \<Rightarrow> dm_state \<Rightarrow> dm_state" where
  "cleanupPartial destPath s =
     (if destPath \<in> files s \<and> destPath \<notin> locked s then s \<lparr> files := files s - {destPath} \<rparr>
      else s)"

definition downloadFromUrl_catch :: "int \<Rightarrow> string \<Rightarrow> string \<Rightarrow> JsError \<Rightarrow> dm_state \<Rightarrow> dm_state" where
  "downloadFromUrl_catch now downloadId destPath e s =
     (let s1 = cleanupPartial destPath s
      in if err_name e = ''AbortError'' then dl_updateStatus now downloadId DlCancelled None s1
         else dl_updateStatus now downloadId DlError (Some (err_message e)) s1)"

definition downloadFromS3_catch :: "int \<Rightarrow> string \<Rightarrow> string \<Rightarrow> JsError \<Rightarrow> dm_state \<Rightarrow> dm_state" where
  "downloadFromS3_catch now downloadId destPath e s =
     (let s1 = cleanupPartial destPath s
      in if err_name e = ''AbortError'' then dl_updateStatus now downloadId DlCancelled None s1
         else dl_updateStatus now downloadId DlError (Some (err_message e)) s1)"

definition downloadFromHuggingFace_catch :: "int \<Rightarrow> string \<Rightarrow> string \<Rightarrow> JsError \<Rightarrow> dm_state \<Rightarrow> dm_state" where
  "downloadFromHuggingFace_catch now downloadId destPath e s =
     (let s1 = cleanupPartial destPath s
      in if err_message e = ''Download cancelled'' then dl_updateStatus now downloadId DlCancelled None s1
         else dl_updateStatus now downloadId DlError (Some (err_message e)) s1)"

text \<open>
  The \<open>then\<close> handlers differ in the size and source they register; \<open>newModelId\<close> is the
  id the registry gives the new model.
\<close>

definition download_then ::
  "int \<Rightarrow> string \<Rightarrow> string \<Rightarrow> string \<Rightarrow> real \<Rightarrow> DownloadSource \<Rightarrow> string \<Rightarrow> dm_state \<Rightarrow> dm_state" where
  "download_then now downloadId name fname sz src newModelId s =
     dl_emitEvent (DlCompleteEvent downloadId now newModelId)
       (dl_updateStatus now downloadId DlCompleted None
          (s \<lparr> registered := registered s @ [(name, fname, sz, src)] \<rparr>))"

text \<open>
  The \<open>close\<close> handler of the \<open>hf\<close> process settles the promise: \<open>Inr\<close> the size of the
  file, \<open>Inl\<close> the error. \<open>downloadedPath\<close> is the path the tool wrote to and \<open>fileSize\<close>
  what \<open>statSync\<close> reports.
\<close>

definition hfOnClose ::
  "string \<Rightarrow> int option \<Rightarrow> string \<Rightarrow> string \<Rightarrow> real \<Rightarrow> string \<Rightarrow> dm_state \<Rightarrow> (JsError + real) \<times> dm_state" where
  "hfOnClose downloadId code destPath downloadedPath fileSize stderr s =
     (let s1 = (case d_objects s downloadId of
                  None \<Rightarrow> s
                | Some m \<Rightarrow> dlSetObject downloadId (m \<lparr> childProcess := None \<rparr>) s)
      in if code = Some 0 then
           (let s2 = (if downloadedPath \<noteq> destPath \<and> downloadedPath \<in> files s1
                      then s1 \<lparr> files := insert destPath (files s1 - {downloadedPath}) \<rparr> else s1)
            in if destPath \<in> files s2 then (Inr fileSize, s2)
               else (Inl \<lparr> err_name = ''Error'', err_message = ''Downloaded file not found'' \<rparr>, s2))
         else if code = None then
           (Inl \<lparr> err_name = ''Error'', err_message = ''Download cancelled'' \<rparr>, s1)
         else
           (Inl \<lparr> err_name = ''Error'',
                  err_message = ''hf download failed with code '' @ show_code code @ '': '' @ stderr \<rparr>,
            s1))"

text \<open>The \<open>error\<close> handler of the \<open>hf\<close> process rejects the promise as well.\<close>

definition hfOnError :: "string \<Rightarrow> string \<Rightarrow> dm_state \<Rightarrow> JsError \<times> dm_state" where
  "hfOnError downloadId message s =
     (\<lparr> err_name = ''Error'', err_message = ''Failed to spawn hf process: '' @ message \<rparr>,
      (case d_objects s downloadId of
         None \<Rightarrow> s
       | Some m \<Rightarrow> dlSetObject downloadId (m \<lparr> childProcess := None \<rparr>) s))"

definition cancel :: "string \<Rightarrow> dm_state \<Rightarrow> bool \<times> dm_state" where
  "cancel downloadId s =
     (case dlGet s downloadId of
        None \<Rightarrow> (False, s)
      | Some managed \<Rightarrow>
          (if d_status (d_info managed) \<noteq> DlDownloading then (False, s)
           else (True,
                 dlSetObject downloadId
                   (managed \<lparr> abortController := map_option (\<lambda>a. True) (abortController managed),
                              childProcess := map_option (\<lambda>sigs. sigs @ [SIGTERM]) (childProcess managed) \<rparr>)
                   s)))"

definition removeDownload :: "string \<Rightarrow> dm_state \<Rightarrow> bool \<times> dm_state" where
  "removeDownload downloadId s =
     (case dlGet s downloadId of
        None \<Rightarrow> (False, s)
      | Some managed \<Rightarrow>
          (let s1 = (if d_status (d_info managed) = DlDownloading then snd (cancel downloadId s) else s)
           in (True, dlDelete downloadId s1)))"

section \<open>Notions used to state the properties\<close>

text \<open>
  The strings of an argument vector that come from the caller and not from a flag name:
  the model path, the host, the free texts of the configuration and its numbers as
  \<open>toStr\<close> prints them.
\<close>

definition argNumbers :: "VLLMConfig \<Rightarrow> real set" where
  "argNumbers cfg =
     {of_int (port cfg)} \<union> set_option (tensorParallelSize cfg)
     \<union> set_option (pipelineParallelSize cfg) \<union> set_option (maxModelLen cfg)
     \<union> set_option (gpuMemoryUtilization cfg) \<union> set_option (maxNumSeqs cfg)"

definition argValues :: "(real \<Rightarrow> string) \<Rightarrow> string \<Rightarrow> VLLMConfig \<Rightarrow> string set" where
  "argValues toStr mPath cfg =
     {mPath, host cfg} \<union> set_option (tokenizer cfg) \<union> set_option (quantization cfg)
     \<union> set_option (apiKey cfg) \<union> set_option (servedModelName cfg) \<union> toStr ` argNumbers cfg"

text \<open>
  The merge in the words of the specification: a fully populated configuration from the
  defaults (\<open>dtype\<close> \<open>auto\<close>, memory fraction 0.9, both switches off, everything else unset)
  and a sparse user configuration, each key of which replaces the default when it is
  present, with \<open>port\<close> and \<open>host\<close> always forced.
\<close>

definition supplied :: "'a option \<Rightarrow> UserConfig option \<Rightarrow> (UserConfig \<Rightarrow> 'a option option) \<Rightarrow> 'a option" where
  "supplied dflt userConfig key =
     (case userConfig of
        None \<Rightarrow> dflt
      | Some u \<Rightarrow> (case key u of None \<Rightarrow> dflt | Some v \<Rightarrow> v))"

definition mergeConfig_spec :: "int \<Rightarrow> UserConfig option \<Rightarrow> VLLMConfig" where
  "mergeConfig_spec p userConfig =
     \<lparr> port = p, host = ''127.0.0.1'',
       tokenizer = supplied None userConfig u_tokenizer,
       tokenizerMode = supplied None userConfig u_tokenizerMode,
       tensorParallelSize = supplied None userConfig u_tensorParallelSize,
       pipelineParallelSize = supplied None userConfig u_pipelineParallelSize,
       dtype = supplied (Some DtAuto) userConfig u_dtype,
       maxModelLen = supplied None userConfig u_maxModelLen,
       gpuMemoryUtilization = supplied (Some (9 / 10)) userConfig u_gpuMemoryUtilization,
       quantization = supplied None userConfig u_quantization,
       loadFormat = supplied None userConfig u_loadFormat,
       apiKey = supplied None userConfig u_apiKey,
       servedModelName = supplied None userConfig u_servedModelName,
       enforceEager = supplied (Some False) userConfig u_enforceEager,
       maxNumSeqs = supplied None userConfig u_maxNumSeqs,
       trustRemoteCode = supplied (Some False) userConfig u_trustRemoteCode \<rparr>"

text \<open>
  Inputs on which the properties are evaluated. \<open>ex_toStr\<close> prints the numbers of the
  examples as \<open>Number.toString\<close> does: an integer in decimal, and 0.9, 0.5 and 1.5.
\<close>

definition ex_toStr :: "real \<Rightarrow> string" where
  "ex_toStr x =
     (if x = 9 / 10 then ''0.9'' else if x = 1 / 2 then ''0.5'' else if x = 3 / 2 then ''1.5''
      else show_code (Some \<lfloor>x\<rfloor>))"

definition ex_userConfig :: UserConfig where
  "ex_userConfig =
     \<lparr> u_tokenizer = None, u_tokenizerMode = None,
       u_tensorParallelSize = Some (Some 1), u_pipelineParallelSize = None,
       u_dtype = Some (Some DtAuto), u_maxModelLen = Some (Some 4096),
       u_gpuMemoryUtilization = Some (Some (3 / 2)), u_quantization = None,
       u_loadFormat = None, u_apiKey = None, u_servedModelName = Some (Some ''m''),
       u_enforceEager = None, u_maxNumSeqs = None, u_trustRemoteCode = Some (Some True) \<rparr>"

definition ex_userConfig2 :: UserConfig where
  "ex_userConfig2 =
     \<lparr> u_tokenizer = None, u_tokenizerMode = None,
       u_tensorParallelSize = Some (Some 2), u_pipelineParallelSize = None,
       u_dtype = Some (Some DtFloat16), u_maxModelLen = None,
       u_gpuMemoryUtilization = Some (Some (1 / 2)), u_quantization = None,
       u_loadFormat = None, u_apiKey = None, u_servedModelName = None,
       u_enforceEager = None, u_maxNumSeqs = None, u_trustRemoteCode = None \<rparr>"

text \<open>
  \<open>statusOf s k\<close> is the status of the record object with id \<open>k\<close>.

  A run of the supervisor from its initial state: a process is spawned on port 8000, its
  child exits with code 1, and \<open>kill\<close> is called on the record. In a second run \<open>kill\<close>
  reaches the live child, and the record is removed before the child exits.
\<close>

definition statusOf :: "pm_state \<Rightarrow> string \<Rightarrow> ProcessStatus option" where
  "statusOf s k = map_option (\<lambda>m. status (info m)) (objects s k)"

definition ex_spawned :: pm_state where
  "ex_spawned = snd (spawn_begin ex_toStr ''t0'' ''p1'' ''m1'' ''m'' ''/models/m.gguf'' None
                       (Inr (ChildProcess (Some 4242))) pm_init)"

definition ex_exited :: pm_state where
  "ex_exited = onExit ''t1'' ''p1'' (Some 1) ex_spawned"

definition ex_killed :: pm_state where
  "ex_killed = snd (kill ''t2'' ''p1'' False ex_exited)"

definition ex_stopping :: pm_state where
  "ex_stopping = snd (kill ''t1'' ''p1'' False ex_spawned)"

definition ex_removed :: pm_state where
  "ex_removed = snd (removeProcess ''p1'' ex_stopping)"

text \<open>
  A restart of the supervisor on the state file as it is right after the spawn, and one on
  the state file the first run left.
\<close>

definition ex_reloaded :: pm_state where
  "ex_reloaded = restoreState ''t9'' (pm_init \<lparr> stateFile := stateFile ex_spawned \<rparr>)"

definition ex_restarted :: pm_state where
  "ex_restarted = restoreState ''t9'' (pm_init \<lparr> stateFile := stateFile ex_exited \<rparr>)"

text \<open>
  \<open>dl_statusOf\<close>, \<open>dl_errorOf\<close> and \<open>progressOf\<close> read the status, the error text and the
  progress of the download object with id \<open>k\<close>. \<open>progressTimes k evs\<close> are the times of the progress events of download \<open>k\<close>
  in \<open>evs\<close>, in order, and \<open>spaced t ts\<close> says that the times \<open>ts\<close> start at least 100 ms
  after \<open>t\<close> and follow each other at least 100 ms apart.
\<close>

definition dl_statusOf :: "dm_state \<Rightarrow> string \<Rightarrow> DownloadStatus option" where
  "dl_statusOf s k = map_option (\<lambda>m. d_status (d_info m)) (d_objects s k)"

definition dl_errorOf :: "dm_state \<Rightarrow> string \<Rightarrow> string option" where
  "dl_errorOf s k = Option.bind (d_objects s k) (\<lambda>m. d_error (d_info m))"

definition progressOf :: "dm_state \<Rightarrow> string \<Rightarrow> DownloadProgress option" where
  "progressOf s k = map_option (\<lambda>m. progress (d_info m)) (d_objects s k)"

fun progressTimes :: "string \<Rightarrow> DownloadEvent list \<Rightarrow> int list" where
  "progressTimes k [] = []"
| "progressTimes k (DlProgressEvent i t p # evs) =
     (if i = k then t # progressTimes k evs else progressTimes k evs)"
| "progressTimes k (DlStatusEvent i t st err # evs) = progressTimes k evs"
| "progressTimes k (DlCompleteEvent i t mid # evs) = progressTimes k evs"

fun spaced :: "int \<Rightarrow> int list \<Rightarrow> bool" where
  "spaced t [] = True"
| "spaced t (u # us) = (u - t \<ge> 100 \<and> spaced u us)"

text \<open>
  Two downloads started at time 1000 on a fresh coordinator, one from a URL and one from a
  repository; the second is cancelled, after which its \<open>hf\<close> process closes with exit code
  1 and the rejection reaches the \<open>catch\<close> handler at time 2000.
\<close>

definition ex_url :: dm_state where
  "ex_url = snd (downloadFromUrl 1000 ''d1'' ''m'' ''https://h/x.gguf'' (Some ''https:'')
                   ''x.gguf'' dm_init)"

definition ex_hf :: dm_state where
  "ex_hf = snd (downloadFromHuggingFace 1000 ''d2'' ''m'' ''org/repo'' ''m.gguf'' None
                  ''m.gguf'' dm_init)"

definition ex_hf_cancelled :: dm_state where
  "ex_hf_cancelled = snd (cancel ''d2'' ex_hf)"

definition ex_hf_settled :: dm_state where
  "ex_hf_settled =
     (case hfOnClose ''d2'' (Some 1) ''models/m.gguf'' ''models/m.gguf'' 0 ''Terminated''
             ex_hf_cancelled of
        (Inl e, s) \<Rightarrow> downloadFromHuggingFace_catch 2000 ''d2'' ''models/m.gguf'' e s
      | (Inr sz, s) \<Rightarrow>
          download_then 2000 ''d2'' ''m'' ''m.gguf'' sz
            (HuggingFaceSource ''org/repo'' ''m.gguf'' None) ''model-1'' s)"

text \<open>The repository download with a partial file at its destination.\<close>

definition ex_hf_partial :: dm_state where
  "ex_hf_partial = ex_hf \<lparr> files := {''models/m.gguf''} \<rparr>"

text \<open>
  The URL download gets a response of 100 bytes and reads a first chunk of 10 bytes 50 ms
  after it started; it is then cancelled, and \<open>pipeline\<close> rejects with the error of a
  stream destroyed before its end, which reaches the \<open>catch\<close> handler at time 2000.
\<close>

definition ex_response :: Response where
  "ex_response = \<lparr> r_ok = True, r_status = 200, r_statusText = ''OK'',
                    r_contentLength = 100, r_body = True \<rparr>"

definition ex_url_started :: dm_state where
  "ex_url_started = snd (performUrlDownload_start ''d1'' ''models/x.gguf'' (Inr ex_response) ex_url)"

definition ex_url_read :: dm_state where
  "ex_url_read = readChunks ''d1'' 100 0 [(1050, 10)] ex_url_started"

definition ex_url_cancelled :: dm_state where
  "ex_url_cancelled =
     downloadFromUrl_catch 2000 ''d1'' ''models/x.gguf''
       \<lparr> err_name = ''Error'', err_message = ''Premature close'' \<rparr>
       (snd (cancel ''d1'' ex_url_read))"

text \<open>
  The repository download reports 99 percent 200 ms after it started and 100 percent 50 ms
  later; the \<open>hf\<close> process then closes with exit code 0, the file of 200 bytes in place.
\<close>

definition ex_hf_read :: dm_state where
  "ex_hf_read =
     hfChunks ''d2'' [(1200, Some (99, 198, 200)), (1250, Some (100, 200, 200))] ex_hf"

definition ex_hf_completed :: dm_state where
  "ex_hf_completed =
     (case hfOnClose ''d2'' (Some 0) ''models/m.gguf'' ''models/m.gguf'' 200 []
             (ex_hf_read \<lparr> files := {''models/m.gguf''} \<rparr>) of
        (Inl e, s) \<Rightarrow> downloadFromHuggingFace_catch 2000 ''d2'' ''models/m.gguf'' e s
      | (Inr sz, s) \<Rightarrow>
          download_then 2000 ''d2'' ''m'' ''m.gguf'' sz
            (HuggingFaceSource ''org/repo'' ''m.gguf'' None) ''model-1'' s)"

section \<open>Properties of the port allocator\<close>

lemma allocate_loop_Inr:
  "allocate_loop p0 usedPorts = Inr (p, used') \<Longrightarrow>
     p0 \<le> p \<and> p \<le> MAX_PORT \<and> p \<notin> usedPorts \<and> used' = insert p usedPorts \<and>
     (\<forall>q. p0 \<le> q \<and> q < p \<longrightarrow> q \<in> usedPorts)"
proof (induction p0 usedPorts rule: allocate_loop.induct)
  case (1 p0 usedPorts)
  show ?case
  proof (cases "p0 \<le> MAX_PORT \<and> p0 \<in> usedPorts")
    case True
    with "1.prems" have rec: "allocate_loop (p0 + 1) usedPorts = Inr (p, used')"
      by (simp add: allocate_loop.simps [of p0])
    from "1.IH" [OF _ _ rec] True
    have ih: "p0 + 1 \<le> p \<and> p \<le> MAX_PORT \<and> p \<notin> usedPorts \<and> used' = insert p usedPorts \<and>
        (\<forall>q. p0 + 1 \<le> q \<and> q < p \<longrightarrow> q \<in> usedPorts)"
      by simp
    have "\<forall>q. p0 \<le> q \<and> q < p \<longrightarrow> q \<in> usedPorts"
    proof (intro allI impI)
      fix q assume "p0 \<le> q \<and> q < p"
      then have "q = p0 \<or> (p0 + 1 \<le> q \<and> q < p)" by arith
      with ih True show "q \<in> usedPorts" by blast
    qed
    with ih show ?thesis by simp
  next
    case False
    with "1.prems" show ?thesis
      by (auto simp: allocate_loop.simps [of p0] split: if_splits)
  qed
qed

lemma allocate_loop_Inl:
  "allocate_loop p0 usedPorts = Inl e \<Longrightarrow>
     e = NoAvailablePorts \<and> (\<forall>q. p0 \<le> q \<and> q \<le> MAX_PORT \<longrightarrow> q \<in> usedPorts)"
proof (induction p0 usedPorts rule: allocate_loop.induct)
  case (1 p0 usedPorts)
  show ?case
  proof (cases "p0 \<le> MAX_PORT")
    case True
    with "1.prems" have mem: "p0 \<in> usedPorts"
      by (auto simp: allocate_loop.simps [of p0] split: if_splits)
    with True "1.prems" have rec: "allocate_loop (p0 + 1) usedPorts = Inl e"
      by (simp add: allocate_loop.simps [of p0])
    from "1.IH" [OF True _ rec] mem
    have ih: "e = NoAvailablePorts \<and> (\<forall>q. p0 + 1 \<le> q \<and> q \<le> MAX_PORT \<longrightarrow> q \<in> usedPorts)"
      by simp
    have "\<forall>q. p0 \<le> q \<and> q \<le> MAX_PORT \<longrightarrow> q \<in> usedPorts"
    proof (intro allI impI)
      fix q assume "p0 \<le> q \<and> q \<le> MAX_PORT"
      then have "q = p0 \<or> (p0 + 1 \<le> q \<and> q \<le> MAX_PORT)" by arith
      with ih mem show "q \<in> usedPorts" by blast
    qed
    with ih show ?thesis by simp
  next
    case False
    with "1.prems" show ?thesis
      by (auto simp: allocate_loop.simps [of p0])
  qed
qed

lemma run_op_inv:
  assumes inv: "distinct live \<and> set live = usedPorts"
    and step: "run_op (usedPorts, live) x = (usedPorts', live')"
  shows "distinct live' \<and> set live' = usedPorts'"
proof (cases x)
  case Allocate
  show ?thesis
  proof (cases "allocate usedPorts")
    case (Inl e)
    with Allocate step inv show ?thesis by simp
  next
    case (Inr r)
    obtain p u where r: "r = (p, u)" by (cases r)
    with Inr have "allocate_loop BASE_PORT usedPorts = Inr (p, u)" by (simp add: allocate_def)
    from allocate_loop_Inr [OF this] have "p \<notin> usedPorts" "u = insert p usedPorts" by simp_all
    with Allocate step inv Inr r show ?thesis by auto
  qed
next
  case (Release p)
  with inv step show ?thesis by (auto simp: release_def distinct_removeAll)
qed

lemma foldl_run_op_inv:
  "distinct (snd s) \<and> set (snd s) = fst s \<Longrightarrow>
     distinct (snd (foldl run_op s ops)) \<and> set (snd (foldl run_op s ops)) = fst (foldl run_op s ops)"
proof (induction ops arbitrary: s)
  case Nil
  then show ?case by simp
next
  case (Cons x ops)
  obtain u l where s: "s = (u, l)" by (cases s)
  obtain u' l' where s': "run_op (u, l) x = (u', l')" by (cases "run_op (u, l) x")
  from Cons.prems s have "distinct l \<and> set l = u" by simp
  from run_op_inv [OF this s'] have "distinct (snd (u', l')) \<and> set (snd (u', l')) = fst (u', l')" by simp
  from Cons.IH [OF this] s s' show ?case by simp
qed

text \<open>
  C3. After any sequence of \<open>allocate\<close> and \<open>release\<close> calls on a fresh allocator the live
  allocations are pairwise distinct and are exactly the used set; the next \<open>allocate\<close>
  returns a port of the range that is not used and not live, every lower port of the range
  being used, and adds it to the set; it fails only when every port from \<open>BASE_PORT\<close> to
  \<open>MAX_PORT\<close> is used.
\<close>

theorem allocate_lowest_free_distinct:
  "distinct (snd (run_ops ops)) \<and> set (snd (run_ops ops)) = fst (run_ops ops) \<and>
   (case allocate (fst (run_ops ops)) of
      Inr (p, usedPorts') \<Rightarrow>
        BASE_PORT \<le> p \<and> p \<le> MAX_PORT \<and> p \<notin> fst (run_ops ops) \<and>
        p \<notin> set (snd (run_ops ops)) \<and>
        (\<forall>q. BASE_PORT \<le> q \<and> q < p \<longrightarrow> q \<in> fst (run_ops ops)) \<and>
        usedPorts' = insert p (fst (run_ops ops))
    | Inl e \<Rightarrow>
        e = NoAvailablePorts \<and> (\<forall>q. BASE_PORT \<le> q \<and> q \<le> MAX_PORT \<longrightarrow> q \<in> fst (run_ops ops)))"
proof -
  have inv: "distinct (snd (run_ops ops)) \<and> set (snd (run_ops ops)) = fst (run_ops ops)"
    unfolding run_ops_def by (rule foldl_run_op_inv) simp
  show ?thesis
  proof (cases "allocate (fst (run_ops ops))")
    case (Inl e)
    then have "allocate_loop BASE_PORT (fst (run_ops ops)) = Inl e" by (simp add: allocate_def)
    from allocate_loop_Inl [OF this] inv Inl show ?thesis by simp
  next
    case (Inr r)
    obtain p u where r: "r = (p, u)" by (cases r)
    with Inr have "allocate_loop BASE_PORT (fst (run_ops ops)) = Inr (p, u)" by (simp add: allocate_def)
    from allocate_loop_Inr [OF this] inv Inr r show ?thesis by simp
  qed
qed

lemma run_ops_example:
  "run_ops [Allocate, Allocate, Allocate, Release 8001] = ({8000, 8002}, [8002, 8000])"
  by code_simp

lemma allocate_example: "allocate {8000, 8002} = Inr (8001, {8000, 8001, 8002})"
  by code_simp

lemma allocate_full: "allocate (set [8000 .. 8100]) = Inl NoAvailablePorts"
  by code_simp

theorem allocate_lowest_free_distinct_witness:
  "run_ops [Allocate, Allocate, Allocate, Release 8001] = ({8000, 8002}, [8002, 8000]) \<and>
   allocate {8000, 8002} = Inr (8001, {8000, 8001, 8002}) \<and>
   distinct [8002, 8000 :: int] \<and>
   BASE_PORT \<le> 8000 \<and> (8000 :: int) < 8001 \<and> (8000 :: int) \<in> {8000, 8002} \<and>
   (8001 :: int) \<notin> set [8002, 8000]"
  using allocate_lowest_free_distinct [of "[Allocate, Allocate, Allocate, Release 8001]"]
    run_ops_example allocate_example
  by (simp add: BASE_PORT_def)

text \<open>
  C9. \<open>release\<close> has no error branch; releasing a port twice gives the state a single
  release gives, and releasing a port that is not used changes nothing.
\<close>

theorem release_idempotent:
  "release p (release p usedPorts) = release p usedPorts \<and>
   (p \<notin> usedPorts \<longrightarrow> release p usedPorts = usedPorts)"
  by (auto simp: release_def)

theorem release_idempotent_witness:
  "(8005 :: int) \<notin> {8000} \<and> release 8005 {8000} = {8000} \<and>
   release 8000 (release 8000 {8000, 8001}) = release 8000 {8000, 8001}"
  using release_idempotent [of 8005 "{8000}"] release_idempotent [of 8000 "{8000, 8001}"]
  by simp

section \<open>Properties of the argument builder\<close>

lemma notin_flag_seg: "F \<notin> set (if c then [f, v] else []) \<longleftrightarrow> (c \<longrightarrow> F \<noteq> f \<and> F \<noteq> v)"
  by simp

lemma notin_switch_seg: "F \<notin> set (if c then [f] else []) \<longleftrightarrow> (c \<longrightarrow> F \<noteq> f)"
  by auto

lemma notin_case_seg:
  "F \<notin> set (case v of Some m \<Rightarrow> g m | None \<Rightarrow> []) \<longleftrightarrow> (\<forall>m. v = Some m \<longrightarrow> F \<notin> set (g m))"
  by (cases v) simp_all

lemma truthy_str_the: "truthy_str v \<Longrightarrow> v = Some (the v)"
  by (cases v) simp_all

lemma truthy_num_the: "truthy_num v \<Longrightarrow> the v \<in> set_option v"
  by (cases v) simp_all

lemma buildVLLMArgs_notin:
  assumes vals: "F \<notin> argValues toStr mPath cfg"
    and enums: "F \<notin> range tokenizerMode_str \<union> range dtype_str \<union> range loadFormat_str"
    and fixed: "F \<notin> {''serve'', ''--port'', ''--host'', ''--tokenizer'', ''--tokenizer-mode'',
           ''--pipeline-parallel-size'', ''--max-model-len'', ''--quantization'',
           ''--load-format'', ''--api-key'', ''--served-model-name'', ''--enforce-eager'',
           ''--max-num-seqs'', ''--trust-remote-code''}"
    and tp: "F = ''--tensor-parallel-size'' \<Longrightarrow>
           \<not> (truthy_num (tensorParallelSize cfg) \<and> the (tensorParallelSize cfg) > 1)"
    and dt: "F = ''--dtype'' \<Longrightarrow> dtype cfg = None \<or> dtype cfg = Some DtAuto"
    and gpu: "F = ''--gpu-memory-utilization'' \<Longrightarrow>
           \<not> (truthy_num (gpuMemoryUtilization cfg) \<and> the (gpuMemoryUtilization cfg) > 0
              \<and> the (gpuMemoryUtilization cfg) \<le> 1)"
  shows "F \<notin> set (buildVLLMArgs toStr mPath cfg)"
proof -
  from vals have v1: "F \<noteq> mPath" "F \<noteq> host cfg"
    and v2: "\<And>x. x \<in> argNumbers cfg \<Longrightarrow> F \<noteq> toStr x"
    and v3: "tokenizer cfg \<noteq> Some F" "quantization cfg \<noteq> Some F" "apiKey cfg \<noteq> Some F"
      "servedModelName cfg \<noteq> Some F"
    by (auto simp: argValues_def)
  have n: "of_int (port cfg) \<in> argNumbers cfg"
      "truthy_num (tensorParallelSize cfg) \<Longrightarrow> the (tensorParallelSize cfg) \<in> argNumbers cfg"
      "truthy_num (pipelineParallelSize cfg) \<Longrightarrow> the (pipelineParallelSize cfg) \<in> argNumbers cfg"
      "truthy_num (maxModelLen cfg) \<Longrightarrow> the (maxModelLen cfg) \<in> argNumbers cfg"
      "truthy_num (gpuMemoryUtilization cfg) \<Longrightarrow> the (gpuMemoryUtilization cfg) \<in> argNumbers cfg"
      "truthy_num (maxNumSeqs cfg) \<Longrightarrow> the (maxNumSeqs cfg) \<in> argNumbers cfg"
    using truthy_num_the by (simp_all add: argNumbers_def)
  from enums have e: "\<And>m. F \<noteq> tokenizerMode_str m" "\<And>d. F \<noteq> dtype_str d"
      "\<And>f. F \<noteq> loadFormat_str f"
    by auto
  from fixed have f: "F \<noteq> ''serve''" "F \<noteq> ''--port''" "F \<noteq> ''--host''" "F \<noteq> ''--tokenizer''"
      "F \<noteq> ''--tokenizer-mode''" "F \<noteq> ''--pipeline-parallel-size''" "F \<noteq> ''--max-model-len''"
      "F \<noteq> ''--quantization''" "F \<noteq> ''--load-format''" "F \<noteq> ''--api-key''"
      "F \<noteq> ''--served-model-name''" "F \<noteq> ''--enforce-eager''" "F \<noteq> ''--max-num-seqs''"
      "F \<noteq> ''--trust-remote-code''"
    by simp_all
  have s0: "F \<notin> set [''serve'', mPath]" "F \<notin> set [''--port'', toStr (of_int (port cfg))]"
      "F \<notin> set [''--host'', host cfg]"
    using v1 v2 [OF n(1)] f by simp_all
  have s1: "truthy_str (tokenizer cfg) \<longrightarrow> F \<noteq> ''--tokenizer'' \<and> F \<noteq> the (tokenizer cfg)"
    using v3(1) f truthy_str_the [of "tokenizer cfg"] by auto
  have s2: "\<forall>m. tokenizerMode cfg = Some m \<longrightarrow> F \<notin> set [''--tokenizer-mode'', tokenizerMode_str m]"
    using e f by simp
  have s3: "truthy_num (tensorParallelSize cfg) \<and> the (tensorParallelSize cfg) > 1 \<longrightarrow>
      F \<noteq> ''--tensor-parallel-size'' \<and> F \<noteq> toStr (the (tensorParallelSize cfg))"
    using tp v2 n(2) by blast
  have s4: "truthy_num (pipelineParallelSize cfg) \<and> the (pipelineParallelSize cfg) > 1 \<longrightarrow>
      F \<noteq> ''--pipeline-parallel-size'' \<and> F \<noteq> toStr (the (pipelineParallelSize cfg))"
    using f v2 n(3) by blast
  have s5: "\<forall>d. dtype cfg = Some d \<longrightarrow> d \<noteq> DtAuto \<longrightarrow> F \<noteq> ''--dtype'' \<and> F \<noteq> dtype_str d"
    using dt e by auto
  have s6: "truthy_num (maxModelLen cfg) \<longrightarrow> F \<noteq> ''--max-model-len'' \<and> F \<noteq> toStr (the (maxModelLen cfg))"
    using f v2 n(4) by blast
  have s7: "truthy_num (gpuMemoryUtilization cfg) \<and> the (gpuMemoryUtilization cfg) > 0
        \<and> the (gpuMemoryUtilization cfg) \<le> 1 \<longrightarrow>
      F \<noteq> ''--gpu-memory-utilization'' \<and> F \<noteq> toStr (the (gpuMemoryUtilization cfg))"
    using gpu v2 n(5) by blast
  have s8: "truthy_str (quantization cfg) \<longrightarrow> F \<noteq> ''--quantization'' \<and> F \<noteq> the (quantization cfg)"
    using v3(2) f truthy_str_the [of "quantization cfg"] by auto
  have s9: "\<forall>l. loadFormat cfg = Some l \<longrightarrow>
      l \<noteq> LfAuto \<longrightarrow> F \<noteq> ''--load-format'' \<and> F \<noteq> loadFormat_str l"
    using e f by simp
  have s10: "truthy_str (apiKey cfg) \<longrightarrow> F \<noteq> ''--api-key'' \<and> F \<noteq> the (apiKey cfg)"
    using v3(3) f truthy_str_the [of "apiKey cfg"] by auto
  have s11: "truthy_str (servedModelName cfg) \<longrightarrow>
      F \<noteq> ''--served-model-name'' \<and> F \<noteq> the (servedModelName cfg)"
    using v3(4) f truthy_str_the [of "servedModelName cfg"] by auto
  have s12: "truthy_bool (enforceEager cfg) \<longrightarrow> F \<noteq> ''--enforce-eager''"
    using f by simp
  have s13: "truthy_num (maxNumSeqs cfg) \<longrightarrow> F \<noteq> ''--max-num-seqs'' \<and> F \<noteq> toStr (the (maxNumSeqs cfg))"
    using f v2 n(6) by blast
  have s14: "truthy_bool (trustRemoteCode cfg) \<longrightarrow> F \<noteq> ''--trust-remote-code''"
    using f by simp
  show ?thesis
    unfolding buildVLLMArgs_def set_append Un_iff de_Morgan_disj
      notin_flag_seg notin_switch_seg notin_case_seg
    by (intro conjI s0 s1 s2 s3 s4 s5 s6 s7 s8 s9 s10 s11 s12 s13 s14)
qed

lemma enum_strs_no_flag:
  "''--tensor-parallel-size'' \<notin> range tokenizerMode_str \<union> range dtype_str \<union> range loadFormat_str"
  "''--dtype'' \<notin> range tokenizerMode_str \<union> range dtype_str \<union> range loadFormat_str"
  "''--gpu-memory-utilization'' \<notin> range tokenizerMode_str \<union> range dtype_str \<union> range loadFormat_str"
proof -
  have "\<And>F. (\<And>m. F \<noteq> tokenizerMode_str m) \<Longrightarrow> (\<And>d. F \<noteq> dtype_str d) \<Longrightarrow>
      (\<And>f. F \<noteq> loadFormat_str f) \<Longrightarrow>
      F \<notin> range tokenizerMode_str \<union> range dtype_str \<union> range loadFormat_str"
    by auto
  moreover have "\<And>m. ''--tensor-parallel-size'' \<noteq> tokenizerMode_str m \<and> ''--dtype'' \<noteq> tokenizerMode_str m
      \<and> ''--gpu-memory-utilization'' \<noteq> tokenizerMode_str m"
    by (case_tac m) simp_all
  moreover have "\<And>d. ''--tensor-parallel-size'' \<noteq> dtype_str d \<and> ''--dtype'' \<noteq> dtype_str d
      \<and> ''--gpu-memory-utilization'' \<noteq> dtype_str d"
    by (case_tac d) simp_all
  moreover have "\<And>f. ''--tensor-parallel-size'' \<noteq> loadFormat_str f \<and> ''--dtype'' \<noteq> loadFormat_str f
      \<and> ''--gpu-memory-utilization'' \<noteq> loadFormat_str f"
    by (case_tac f) simp_all
  ultimately show
    "''--tensor-parallel-size'' \<notin> range tokenizerMode_str \<union> range dtype_str \<union> range loadFormat_str"
    "''--dtype'' \<notin> range tokenizerMode_str \<union> range dtype_str \<union> range loadFormat_str"
    "''--gpu-memory-utilization'' \<notin> range tokenizerMode_str \<union> range dtype_str \<union> range loadFormat_str"
    by blast+
qed

lemma spawn_begin_launched:
  assumes "spawn_begin toStr now processId mId mName mPath userConfig (Inr child) s = (Inr (), s')"
  shows "\<exists>p ports. allocate (portManager s) = Inr (p, ports) \<and>
           launched s' = launched s @ [buildVLLMArgs toStr mPath (mergeConfig p userConfig)]"
proof (cases "allocate (portManager s)")
  case (Inl e)
  with assms show ?thesis by (simp add: spawn_begin_def)
next
  case (Inr r)
  obtain p ports where r: "r = (p, ports)" by (cases r)
  from assms Inr r
  have "launched s' = launched (saveState (mapSet processId
          \<lparr> info = \<lparr> p_id = processId, modelId = mId, modelName = mName,
                               modelPath = mPath, p_port = p, status = Starting, pid = None,
                               startedAt = Some now, stoppedAt = None, config = mergeConfig p userConfig,
                               p_error = None \<rparr>, process = None, logs = [] \<rparr>
          (s \<lparr> portManager := ports \<rparr>))) @ [buildVLLMArgs toStr mPath (mergeConfig p userConfig)]"
    by (auto simp: spawn_begin_def Let_def setObject_def)
  then have "launched s' = launched s @ [buildVLLMArgs toStr mPath (mergeConfig p userConfig)]"
    by (simp add: saveState_def mapSet_def)
  with Inr r show ?thesis by simp
qed

lemma buildVLLMArgs_default:
  "buildVLLMArgs toStr mPath (mergeConfig p None) =
     [''serve'', mPath, ''--port'', toStr (of_int p), ''--host'', ''127.0.0.1'',
      ''--gpu-memory-utilization'', toStr (9 / 10)]"
  by (simp add: buildVLLMArgs_def mergeConfig_def getDefaultConfig_def)

lemma getDefaultConfig_fields:
  "tokenizer (getDefaultConfig p) = None" "tokenizerMode (getDefaultConfig p) = None"
  "tensorParallelSize (getDefaultConfig p) = None"
  "pipelineParallelSize (getDefaultConfig p) = None"
  "dtype (getDefaultConfig p) = Some DtAuto" "maxModelLen (getDefaultConfig p) = None"
  "gpuMemoryUtilization (getDefaultConfig p) = Some (9 / 10)"
  "quantization (getDefaultConfig p) = None" "loadFormat (getDefaultConfig p) = None"
  "apiKey (getDefaultConfig p) = None" "servedModelName (getDefaultConfig p) = None"
  "enforceEager (getDefaultConfig p) = Some False" "maxNumSeqs (getDefaultConfig p) = None"
  "trustRemoteCode (getDefaultConfig p) = Some False"
  by (simp_all add: getDefaultConfig_def)

lemma mergeConfig_refines: "mergeConfig p userConfig = mergeConfig_spec p userConfig"
proof (cases userConfig)
  case None
  then show ?thesis
    by (simp add: mergeConfig_def mergeConfig_spec_def supplied_def getDefaultConfig_def)
next
  case (Some u)
  have o: "\<And>d key. override d (key u) = supplied d (Some u) key"
    by (simp add: override_def supplied_def)
  from Some show ?thesis
    by (simp add: mergeConfig_def mergeConfig_spec_def Let_def getDefaultConfig_fields o)
qed

lemma seg_later:
  "\<exists>xs ys. r = xs @ seg @ ys \<Longrightarrow> \<exists>xs ys. a @ r = xs @ seg @ ys"
proof -
  assume "\<exists>xs ys. r = xs @ seg @ ys"
  then obtain xs ys where "r = xs @ seg @ ys" by blast
  then have "a @ r = (a @ xs) @ seg @ ys" by simp
  then show ?thesis by blast
qed

lemma seg_here: "\<exists>xs ys. seg @ r = xs @ seg @ ys"
  by (rule exI [of _ "[]"], rule exI [of _ r]) simp

lemma buildVLLMArgs_has_tensor_parallel:
  assumes "tensorParallelSize cfg = Some n" "1 < n"
  shows "\<exists>xs ys. buildVLLMArgs toStr mPath cfg = xs @ [''--tensor-parallel-size'', toStr n] @ ys"
proof -
  have seg: "(if truthy_num (tensorParallelSize cfg) \<and> the (tensorParallelSize cfg) > 1
        then [''--tensor-parallel-size'', toStr (the (tensorParallelSize cfg))] else []) =
      [''--tensor-parallel-size'', toStr n]"
    using assms by simp
  show ?thesis
    unfolding buildVLLMArgs_def seg
    by (rule seg_later, rule seg_later, rule seg_later, rule seg_later, rule seg_later,
        rule seg_here)
qed

lemma buildVLLMArgs_has_dtype:
  assumes "dtype cfg = Some d" "d \<noteq> DtAuto"
  shows "\<exists>xs ys. buildVLLMArgs toStr mPath cfg = xs @ [''--dtype'', dtype_str d] @ ys"
proof -
  have seg: "(case dtype cfg of
          Some d \<Rightarrow> (if d \<noteq> DtAuto then [''--dtype'', dtype_str d] else []) | None \<Rightarrow> []) =
      [''--dtype'', dtype_str d]"
    using assms by simp
  show ?thesis
    unfolding buildVLLMArgs_def seg
    by (rule seg_later, rule seg_later, rule seg_later, rule seg_later, rule seg_later,
        rule seg_later, rule seg_later, rule seg_here)
qed

lemma buildVLLMArgs_has_gpu:
  assumes "gpuMemoryUtilization cfg = Some g" "0 < g" "g \<le> 1"
  shows "\<exists>xs ys. buildVLLMArgs toStr mPath cfg = xs @ [''--gpu-memory-utilization'', toStr g] @ ys"
proof -
  have seg: "(if truthy_num (gpuMemoryUtilization cfg) \<and> the (gpuMemoryUtilization cfg) > 0
            \<and> the (gpuMemoryUtilization cfg) \<le> 1
        then [''--gpu-memory-utilization'', toStr (the (gpuMemoryUtilization cfg))] else []) =
      [''--gpu-memory-utilization'', toStr g]"
    using assms by simp
  show ?thesis
    unfolding buildVLLMArgs_def seg
    by (rule seg_later, rule seg_later, rule seg_later, rule seg_later, rule seg_later,
        rule seg_later, rule seg_later, rule seg_later, rule seg_later, rule seg_here)
qed

lemma buildVLLMArgs_head:
  "take 6 (buildVLLMArgs toStr mPath cfg) =
     [''serve'', mPath, ''--port'', toStr (of_int (port cfg)), ''--host'', host cfg]"
  by (simp add: buildVLLMArgs_def)

lemma in_middle: "args = xs @ [f, v] @ ys \<Longrightarrow> f \<in> set args"
  by simp

text \<open>
  C7, as the code has it. The vector \<open>spawn\<close> launches is \<open>buildVLLMArgs\<close> of the merged
  configuration: the defaults, replaced by the keys present in the user configuration,
  with \<open>port\<close> and \<open>host\<close> forced. It begins with \<open>serve\<close>, the model path, \<open>--port\<close> and
  \<open>--host\<close>. Provided the texts and numbers the caller supplies are not themselves one of
  the three flag names, it contains \<open>--tensor-parallel-size\<close> exactly when
  \<open>tensorParallelSize\<close> is set and above 1, \<open>--dtype\<close> exactly when \<open>dtype\<close> is set and not
  \<open>auto\<close>, and \<open>--gpu-memory-utilization\<close> exactly when \<open>gpuMemoryUtilization\<close> is set, above
  0 and at most 1, each followed by its value. So a memory fraction outside that interval
  is left out, and one inside it is passed on, the default 0.9 included.
\<close>

theorem buildVLLMArgs_emits_exactly:
  assumes "{''--tensor-parallel-size'', ''--dtype'', ''--gpu-memory-utilization''}
             \<inter> argValues toStr mPath cfg = {}"
  shows "take 6 (buildVLLMArgs toStr mPath cfg) =
           [''serve'', mPath, ''--port'', toStr (of_int (port cfg)), ''--host'', host cfg]
       \<and> (''--tensor-parallel-size'' \<in> set (buildVLLMArgs toStr mPath cfg) \<longleftrightarrow>
            (\<exists>n. tensorParallelSize cfg = Some n \<and> 1 < n))
       \<and> (\<forall>n. tensorParallelSize cfg = Some n \<and> 1 < n \<longrightarrow>
            (\<exists>xs ys. buildVLLMArgs toStr mPath cfg =
                       xs @ [''--tensor-parallel-size'', toStr n] @ ys))
       \<and> (''--dtype'' \<in> set (buildVLLMArgs toStr mPath cfg) \<longleftrightarrow>
            (\<exists>d. dtype cfg = Some d \<and> d \<noteq> DtAuto))
       \<and> (\<forall>d. dtype cfg = Some d \<and> d \<noteq> DtAuto \<longrightarrow>
            (\<exists>xs ys. buildVLLMArgs toStr mPath cfg = xs @ [''--dtype'', dtype_str d] @ ys))
       \<and> (''--gpu-memory-utilization'' \<in> set (buildVLLMArgs toStr mPath cfg) \<longleftrightarrow>
            (\<exists>g. gpuMemoryUtilization cfg = Some g \<and> 0 < g \<and> g \<le> 1))
       \<and> (\<forall>g. gpuMemoryUtilization cfg = Some g \<and> 0 < g \<and> g \<le> 1 \<longrightarrow>
            (\<exists>xs ys. buildVLLMArgs toStr mPath cfg =
                       xs @ [''--gpu-memory-utilization'', toStr g] @ ys))
       \<and> (spawn_begin toStr now processId mId mName mPath userConfig (Inr child) s = (Inr (), s') \<longrightarrow>
            (\<exists>p ports. allocate (portManager s) = Inr (p, ports) \<and>
               launched s' = launched s @ [buildVLLMArgs toStr mPath (mergeConfig_spec p userConfig)]))"
proof -
  from assms have v: "''--tensor-parallel-size'' \<notin> argValues toStr mPath cfg"
      "''--dtype'' \<notin> argValues toStr mPath cfg"
      "''--gpu-memory-utilization'' \<notin> argValues toStr mPath cfg"
    by auto
  have a1: "''--tensor-parallel-size'' \<in> set (buildVLLMArgs toStr mPath cfg) \<longleftrightarrow>
            (\<exists>n. tensorParallelSize cfg = Some n \<and> 1 < n)"
  proof
    assume m: "''--tensor-parallel-size'' \<in> set (buildVLLMArgs toStr mPath cfg)"
    show "\<exists>n. tensorParallelSize cfg = Some n \<and> 1 < n"
    proof (rule ccontr)
      assume "\<not> (\<exists>n. tensorParallelSize cfg = Some n \<and> 1 < n)"
      then have "\<not> (truthy_num (tensorParallelSize cfg) \<and> the (tensorParallelSize cfg) > 1)"
        by (cases "tensorParallelSize cfg") auto
      then have "''--tensor-parallel-size'' \<notin> set (buildVLLMArgs toStr mPath cfg)"
        by (intro buildVLLMArgs_notin [OF v(1) enum_strs_no_flag(1)]) simp_all
      with m show False by simp
    qed
  next
    assume "\<exists>n. tensorParallelSize cfg = Some n \<and> 1 < n"
    then obtain n where "tensorParallelSize cfg = Some n" "1 < n" by blast
    from buildVLLMArgs_has_tensor_parallel [OF this, of toStr mPath]
    obtain xs ys where "buildVLLMArgs toStr mPath cfg = xs @ [''--tensor-parallel-size'', toStr n] @ ys"
      by blast
    then show "''--tensor-parallel-size'' \<in> set (buildVLLMArgs toStr mPath cfg)"
      by (rule in_middle)
  qed
  have a2: "\<forall>n. tensorParallelSize cfg = Some n \<and> 1 < n \<longrightarrow>
            (\<exists>xs ys. buildVLLMArgs toStr mPath cfg =
                       xs @ [''--tensor-parallel-size'', toStr n] @ ys)"
    by (intro allI impI, elim conjE) (rule buildVLLMArgs_has_tensor_parallel)
  have b1: "''--dtype'' \<in> set (buildVLLMArgs toStr mPath cfg) \<longleftrightarrow>
            (\<exists>d. dtype cfg = Some d \<and> d \<noteq> DtAuto)"
  proof
    assume m: "''--dtype'' \<in> set (buildVLLMArgs toStr mPath cfg)"
    show "\<exists>d. dtype cfg = Some d \<and> d \<noteq> DtAuto"
    proof (rule ccontr)
      assume "\<not> (\<exists>d. dtype cfg = Some d \<and> d \<noteq> DtAuto)"
      then have "dtype cfg = None \<or> dtype cfg = Some DtAuto"
        by (cases "dtype cfg") auto
      then have "''--dtype'' \<notin> set (buildVLLMArgs toStr mPath cfg)"
        by (intro buildVLLMArgs_notin [OF v(2) enum_strs_no_flag(2)]) simp_all
      with m show False by simp
    qed
  next
    assume "\<exists>d. dtype cfg = Some d \<and> d \<noteq> DtAuto"
    then obtain d where "dtype cfg = Some d" "d \<noteq> DtAuto" by blast
    from buildVLLMArgs_has_dtype [OF this, of toStr mPath]
    obtain xs ys where "buildVLLMArgs toStr mPath cfg = xs @ [''--dtype'', dtype_str d] @ ys"
      by blast
    then show "''--dtype'' \<in> set (buildVLLMArgs toStr mPath cfg)"
      by (rule in_middle)
  qed
  have b2: "\<forall>d. dtype cfg = Some d \<and> d \<noteq> DtAuto \<longrightarrow>
            (\<exists>xs ys. buildVLLMArgs toStr mPath cfg = xs @ [''--dtype'', dtype_str d] @ ys)"
    by (intro allI impI, elim conjE) (rule buildVLLMArgs_has_dtype)
  have c1: "''--gpu-memory-utilization'' \<in> set (buildVLLMArgs toStr mPath cfg) \<longleftrightarrow>
            (\<exists>g. gpuMemoryUtilization cfg = Some g \<and> 0 < g \<and> g \<le> 1)"
  proof
    assume m: "''--gpu-memory-utilization'' \<in> set (buildVLLMArgs toStr mPath cfg)"
    show "\<exists>g. gpuMemoryUtilization cfg = Some g \<and> 0 < g \<and> g \<le> 1"
    proof (rule ccontr)
      assume "\<not> (\<exists>g. gpuMemoryUtilization cfg = Some g \<and> 0 < g \<and> g \<le> 1)"
      then have "\<not> (truthy_num (gpuMemoryUtilization cfg) \<and> the (gpuMemoryUtilization cfg) > 0
              \<and> the (gpuMemoryUtilization cfg) \<le> 1)"
        by (cases "gpuMemoryUtilization cfg") auto
      then have "''--gpu-memory-utilization'' \<notin> set (buildVLLMArgs toStr mPath cfg)"
        by (intro buildVLLMArgs_notin [OF v(3) enum_strs_no_flag(3)]) simp_all
      with m show False by simp
    qed
  next
    assume "\<exists>g. gpuMemoryUtilization cfg = Some g \<and> 0 < g \<and> g \<le> 1"
    then obtain g where "gpuMemoryUtilization cfg = Some g" "0 < g" "g \<le> 1" by blast
    from buildVLLMArgs_has_gpu [OF this, of toStr mPath]
    obtain xs ys where "buildVLLMArgs toStr mPath cfg = xs @ [''--gpu-memory-utilization'', toStr g] @ ys"
      by blast
    then show "''--gpu-memory-utilization'' \<in> set (buildVLLMArgs toStr mPath cfg)"
      by (rule in_middle)
  qed
  have c2: "\<forall>g. gpuMemoryUtilization cfg = Some g \<and> 0 < g \<and> g \<le> 1 \<longrightarrow>
            (\<exists>xs ys. buildVLLMArgs toStr mPath cfg =
                       xs @ [''--gpu-memory-utilization'', toStr g] @ ys)"
    by (intro allI impI, elim conjE) (rule buildVLLMArgs_has_gpu)
  have d: "spawn_begin toStr now processId mId mName mPath userConfig (Inr child) s = (Inr (), s') \<longrightarrow>
            (\<exists>p ports. allocate (portManager s) = Inr (p, ports) \<and>
               launched s' = launched s @ [buildVLLMArgs toStr mPath (mergeConfig_spec p userConfig)])"
    using spawn_begin_launched [of toStr now processId mId mName mPath userConfig child s s']
    by (simp add: mergeConfig_refines)
  from buildVLLMArgs_head a1 a2 b1 b2 c1 c2 d show ?thesis
    by (intro conjI)
qed

lemma ex_toStr_values:
  "ex_toStr 8000 = ''8000''" "ex_toStr 1 = ''1''" "ex_toStr 4096 = ''4096''"
  "ex_toStr (3 / 2) = ''1.5''" "ex_toStr 2 = ''2''" "ex_toStr (1 / 2) = ''0.5''"
  "ex_toStr (9 / 10) = ''0.9''"
  by (simp_all add: ex_toStr_def show_code_def digit_char_def)

lemma ex_merged:
  "mergeConfig_spec 8000 (Some ex_userConfig) =
     \<lparr> port = 8000, host = ''127.0.0.1'', tokenizer = None, tokenizerMode = None,
       tensorParallelSize = Some 1, pipelineParallelSize = None, dtype = Some DtAuto,
       maxModelLen = Some 4096, gpuMemoryUtilization = Some (3 / 2), quantization = None,
       loadFormat = None, apiKey = None, servedModelName = Some ''m'', enforceEager = Some False,
       maxNumSeqs = None, trustRemoteCode = Some True \<rparr>"
  by (simp add: mergeConfig_spec_def ex_userConfig_def supplied_def)

lemma ex_merged2:
  "mergeConfig_spec 8000 (Some ex_userConfig2) =
     \<lparr> port = 8000, host = ''127.0.0.1'', tokenizer = None, tokenizerMode = None,
       tensorParallelSize = Some 2, pipelineParallelSize = None, dtype = Some DtFloat16,
       maxModelLen = None, gpuMemoryUtilization = Some (1 / 2), quantization = None,
       loadFormat = None, apiKey = None, servedModelName = None, enforceEager = Some False,
       maxNumSeqs = None, trustRemoteCode = Some False \<rparr>"
  by (simp add: mergeConfig_spec_def ex_userConfig2_def supplied_def)

lemma ex_args:
  "buildVLLMArgs ex_toStr ''/models/m.gguf'' (mergeConfig_spec 8000 (Some ex_userConfig)) =
     [''serve'', ''/models/m.gguf'', ''--port'', ''8000'', ''--host'', ''127.0.0.1'',
      ''--max-model-len'', ''4096'', ''--served-model-name'', ''m'', ''--trust-remote-code'']"
  by (simp add: ex_merged buildVLLMArgs_def ex_toStr_values)

lemma ex_args2:
  "buildVLLMArgs ex_toStr ''/models/m.gguf'' (mergeConfig_spec 8000 (Some ex_userConfig2)) =
     [''serve'', ''/models/m.gguf'', ''--port'', ''8000'', ''--host'', ''127.0.0.1'',
      ''--tensor-parallel-size'', ''2'', ''--dtype'', ''float16'',
      ''--gpu-memory-utilization'', ''0.5'']"
  by (simp add: ex_merged2 buildVLLMArgs_def ex_toStr_values)

lemma ex_argValues:
  "argValues ex_toStr ''/models/m.gguf'' (mergeConfig_spec 8000 (Some ex_userConfig)) =
     {''/models/m.gguf'', ''127.0.0.1'', ''m'', ''8000'', ''1'', ''4096'', ''1.5''}"
  by (auto simp: ex_merged argValues_def argNumbers_def ex_toStr_values)

lemma ex_argValues2:
  "argValues ex_toStr ''/models/m.gguf'' (mergeConfig_spec 8000 (Some ex_userConfig2)) =
     {''/models/m.gguf'', ''127.0.0.1'', ''8000'', ''2'', ''0.5''}"
  by (auto simp: ex_merged2 argValues_def argNumbers_def ex_toStr_values)

lemma ex_allocate: "allocate {} = Inr (8000, {8000})"
  by code_simp

lemma ex_spawn_fst:
  "fst (spawn_begin ex_toStr ''t0'' ''p1'' ''m1'' ''m'' ''/models/m.gguf'' (Some ex_userConfig)
          (Inr (ChildProcess (Some 4242))) pm_init) = Inr ()"
  by (simp add: spawn_begin_def pm_init_def ex_allocate Let_def)

theorem buildVLLMArgs_emits_exactly_witness:
  "{''--tensor-parallel-size'', ''--dtype'', ''--gpu-memory-utilization''} \<inter> argValues ex_toStr ''/models/m.gguf'' (mergeConfig_spec 8000 (Some ex_userConfig)) = {}
   \<and> tensorParallelSize (mergeConfig_spec 8000 (Some ex_userConfig)) = Some 1
   \<and> dtype (mergeConfig_spec 8000 (Some ex_userConfig)) = Some DtAuto
   \<and> gpuMemoryUtilization (mergeConfig_spec 8000 (Some ex_userConfig)) = Some (3 / 2)
   \<and> ''--tensor-parallel-size'' \<notin> set (buildVLLMArgs ex_toStr ''/models/m.gguf'' (mergeConfig_spec 8000 (Some ex_userConfig)))
   \<and> ''--dtype'' \<notin> set (buildVLLMArgs ex_toStr ''/models/m.gguf'' (mergeConfig_spec 8000 (Some ex_userConfig)))
   \<and> ''--gpu-memory-utilization'' \<notin> set (buildVLLMArgs ex_toStr ''/models/m.gguf'' (mergeConfig_spec 8000 (Some ex_userConfig)))
   \<and> {''--tensor-parallel-size'', ''--dtype'', ''--gpu-memory-utilization''} \<inter> argValues ex_toStr ''/models/m.gguf'' (mergeConfig_spec 8000 (Some ex_userConfig2)) = {}
   \<and> tensorParallelSize (mergeConfig_spec 8000 (Some ex_userConfig2)) = Some 2
   \<and> dtype (mergeConfig_spec 8000 (Some ex_userConfig2)) = Some DtFloat16
   \<and> gpuMemoryUtilization (mergeConfig_spec 8000 (Some ex_userConfig2)) = Some (1 / 2)
   \<and> ''--tensor-parallel-size'' \<in> set (buildVLLMArgs ex_toStr ''/models/m.gguf'' (mergeConfig_spec 8000 (Some ex_userConfig2)))
   \<and> ''--dtype'' \<in> set (buildVLLMArgs ex_toStr ''/models/m.gguf'' (mergeConfig_spec 8000 (Some ex_userConfig2)))
   \<and> ''--gpu-memory-utilization'' \<in> set (buildVLLMArgs ex_toStr ''/models/m.gguf'' (mergeConfig_spec 8000 (Some ex_userConfig2)))
   \<and> take 6 (buildVLLMArgs ex_toStr ''/models/m.gguf'' (mergeConfig_spec 8000 (Some ex_userConfig2))) =
       [''serve'', ''/models/m.gguf'', ''--port'', ''8000'', ''--host'', ''127.0.0.1'']
   \<and> fst (spawn_begin ex_toStr ''t0'' ''p1'' ''m1'' ''m'' ''/models/m.gguf'' (Some ex_userConfig)
          (Inr (ChildProcess (Some 4242))) pm_init) = Inr ()
   \<and> launched (snd (spawn_begin ex_toStr ''t0'' ''p1'' ''m1'' ''m'' ''/models/m.gguf'' (Some ex_userConfig)
          (Inr (ChildProcess (Some 4242))) pm_init)) =
       [[''serve'', ''/models/m.gguf'', ''--port'', ''8000'', ''--host'', ''127.0.0.1'',
         ''--max-model-len'', ''4096'', ''--served-model-name'', ''m'', ''--trust-remote-code'']]"
proof -
  have h: "{''--tensor-parallel-size'', ''--dtype'', ''--gpu-memory-utilization''} \<inter> argValues ex_toStr ''/models/m.gguf'' (mergeConfig_spec 8000 (Some ex_userConfig)) = {}"
    by (simp add: ex_argValues)
  have h2: "{''--tensor-parallel-size'', ''--dtype'', ''--gpu-memory-utilization''} \<inter> argValues ex_toStr ''/models/m.gguf'' (mergeConfig_spec 8000 (Some ex_userConfig2)) = {}"
    by (simp add: ex_argValues2)
  have sp: "spawn_begin ex_toStr ''t0'' ''p1'' ''m1'' ''m'' ''/models/m.gguf'' (Some ex_userConfig)
          (Inr (ChildProcess (Some 4242))) pm_init =
        (Inr (), snd (spawn_begin ex_toStr ''t0'' ''p1'' ''m1'' ''m'' ''/models/m.gguf'' (Some ex_userConfig)
          (Inr (ChildProcess (Some 4242))) pm_init))"
    using ex_spawn_fst by (simp add: prod_eq_iff)
  have l0: "launched pm_init = []" "portManager pm_init = {}"
    by (simp_all add: pm_init_def)
  note t1 = buildVLLMArgs_emits_exactly [OF h, where now = "''t0''" and processId = "''p1''"
      and mId = "''m1''" and mName = "''m''" and userConfig = "Some ex_userConfig"
      and child = "ChildProcess (Some 4242)" and s = pm_init
      and s' = "snd (spawn_begin ex_toStr ''t0'' ''p1'' ''m1'' ''m'' ''/models/m.gguf'' (Some ex_userConfig)
          (Inr (ChildProcess (Some 4242))) pm_init)"]
  note t2 = buildVLLMArgs_emits_exactly [OF h2, where now = "''t0''" and processId = "''p1''"
      and mId = "''m1''" and mName = "''m''" and userConfig = "Some ex_userConfig"
      and child = "ChildProcess (Some 4242)" and s = pm_init
      and s' = "snd (spawn_begin ex_toStr ''t0'' ''p1'' ''m1'' ''m'' ''/models/m.gguf'' (Some ex_userConfig)
          (Inr (ChildProcess (Some 4242))) pm_init)"]
  have f1a: "tensorParallelSize (mergeConfig_spec 8000 (Some ex_userConfig)) = Some 1"
    by (simp add: ex_merged)
  have f1b: "dtype (mergeConfig_spec 8000 (Some ex_userConfig)) = Some DtAuto"
    by (simp add: ex_merged)
  have f1c: "gpuMemoryUtilization (mergeConfig_spec 8000 (Some ex_userConfig)) = Some (3 / 2)"
    by (simp add: ex_merged)
  have n1: "''--tensor-parallel-size'' \<notin> set (buildVLLMArgs ex_toStr ''/models/m.gguf'' (mergeConfig_spec 8000 (Some ex_userConfig)))"
    using t1 [THEN conjunct2, THEN conjunct1] by (simp add: f1a)
  have n2: "''--dtype'' \<notin> set (buildVLLMArgs ex_toStr ''/models/m.gguf'' (mergeConfig_spec 8000 (Some ex_userConfig)))"
    using t1 [THEN conjunct2, THEN conjunct2, THEN conjunct2, THEN conjunct1] by (simp add: f1b)
  have n3: "''--gpu-memory-utilization'' \<notin> set (buildVLLMArgs ex_toStr ''/models/m.gguf'' (mergeConfig_spec 8000 (Some ex_userConfig)))"
    using t1 [THEN conjunct2, THEN conjunct2, THEN conjunct2, THEN conjunct2, THEN conjunct2, THEN conjunct1] by (simp add: f1c)
  have f2a: "tensorParallelSize (mergeConfig_spec 8000 (Some ex_userConfig2)) = Some 2"
    by (simp add: ex_merged2)
  have f2b: "dtype (mergeConfig_spec 8000 (Some ex_userConfig2)) = Some DtFloat16"
    by (simp add: ex_merged2)
  have f2c: "gpuMemoryUtilization (mergeConfig_spec 8000 (Some ex_userConfig2)) = Some (1 / 2)"
    by (simp add: ex_merged2)
  have c1: "''--tensor-parallel-size'' \<in> set (buildVLLMArgs ex_toStr ''/models/m.gguf'' (mergeConfig_spec 8000 (Some ex_userConfig2)))"
    using t2 [THEN conjunct2, THEN conjunct1] by (simp add: f2a)
  have c2: "''--dtype'' \<in> set (buildVLLMArgs ex_toStr ''/models/m.gguf'' (mergeConfig_spec 8000 (Some ex_userConfig2)))"
    using t2 [THEN conjunct2, THEN conjunct2, THEN conjunct2, THEN conjunct1] by (simp add: f2b)
  have c3: "''--gpu-memory-utilization'' \<in> set (buildVLLMArgs ex_toStr ''/models/m.gguf'' (mergeConfig_spec 8000 (Some ex_userConfig2)))"
  proof -
    have "\<exists>g. gpuMemoryUtilization (mergeConfig_spec 8000 (Some ex_userConfig2)) = Some g
            \<and> 0 < g \<and> g \<le> 1"
      by (rule exI [of _ "1 / 2"]) (simp add: f2c)
    then show ?thesis
      using t2 [THEN conjunct2, THEN conjunct2, THEN conjunct2, THEN conjunct2, THEN conjunct2,
          THEN conjunct1]
      by blast
  qed
  have c4: "take 6 (buildVLLMArgs ex_toStr ''/models/m.gguf'' (mergeConfig_spec 8000 (Some ex_userConfig2))) =
       [''serve'', ''/models/m.gguf'', ''--port'', ''8000'', ''--host'', ''127.0.0.1'']"
    using t2 [THEN conjunct1] by (simp add: ex_merged2 ex_toStr_values)
  have sp1: "fst (spawn_begin ex_toStr ''t0'' ''p1'' ''m1'' ''m'' ''/models/m.gguf'' (Some ex_userConfig)
          (Inr (ChildProcess (Some 4242))) pm_init) = Inr ()"
    by (rule ex_spawn_fst)
  have l1: "launched (snd (spawn_begin ex_toStr ''t0'' ''p1'' ''m1'' ''m'' ''/models/m.gguf'' (Some ex_userConfig)
          (Inr (ChildProcess (Some 4242))) pm_init)) =
       [[''serve'', ''/models/m.gguf'', ''--port'', ''8000'', ''--host'', ''127.0.0.1'',
         ''--max-model-len'', ''4096'', ''--served-model-name'', ''m'', ''--trust-remote-code'']]"
    using t1 [THEN conjunct2, THEN conjunct2, THEN conjunct2, THEN conjunct2, THEN conjunct2, THEN conjunct2, THEN conjunct2] sp by (simp add: l0 ex_allocate ex_args)
  show ?thesis
    by (intro conjI; fact)
qed

text \<open>
  C7 as stated fails: the memory fraction of a spawn without user configuration has its
  default value 0.9, and the vector carries the flag for it.
\<close>

theorem default_gpu_flag_emitted_counterexample:
  "gpuMemoryUtilization (getDefaultConfig 8000) = Some (9 / 10)
   \<and> mergeConfig 8000 None = getDefaultConfig 8000
   \<and> buildVLLMArgs ex_toStr ''/models/m.gguf'' (mergeConfig 8000 None) =
       [''serve'', ''/models/m.gguf'', ''--port'', ''8000'', ''--host'', ''127.0.0.1'',
        ''--gpu-memory-utilization'', ''0.9'']
   \<and> ''--gpu-memory-utilization''
        \<in> set (buildVLLMArgs ex_toStr ''/models/m.gguf'' (mergeConfig 8000 None))"
  by (simp add: buildVLLMArgs_default ex_toStr_values)
    (simp add: mergeConfig_def getDefaultConfig_def)

section \<open>Properties of the process supervisor\<close>

lemma mapGet_objects: "mapGet s k = Some m \<Longrightarrow> objects s k = Some m \<and> k \<in> set (processes s)"
  by (simp add: mapGet_def split: if_splits)

lemma updateStatus_objects:
  assumes "mapGet s k = Some m"
  shows "objects (updateStatus now k st err s) =
     (objects s)(k \<mapsto> m \<lparr> info := (info m)
        \<lparr> status := st,
          p_error := (if truthy_str err then err else p_error (info m)),
          stoppedAt := (if st = Stopped \<or> st = Error then Some now else stoppedAt (info m)) \<rparr> \<rparr>)"
  using assms
  by (simp add: updateStatus_def Let_def setObject_def emitEvent_def saveState_def)

lemma updateStatus_processes: "processes (updateStatus now k st err s) = processes s"
  by (simp add: updateStatus_def Let_def setObject_def emitEvent_def saveState_def
      split: option.splits)

lemma updateStatus_portManager:
  assumes "mapGet s k = Some m"
  shows "portManager (updateStatus now k st err s) =
     (if st = Stopped \<or> st = Error then release (p_port (info m)) (portManager s)
      else portManager s)"
  using assms
  by (simp add: updateStatus_def Let_def setObject_def emitEvent_def saveState_def)

lemma updateStatus_events:
  assumes "mapGet s k = Some m"
  shows "events (updateStatus now k st err s) = events s @ [StatusEvent k now st]"
  using assms
  by (simp add: updateStatus_def Let_def setObject_def emitEvent_def saveState_def)

lemma updateStatus_stateFile:
  assumes "mapGet s k = Some m"
  shows "stateFile (updateStatus now k st err s) =
     Some (getAllProcesses (updateStatus now k st err s))"
  using assms
  by (simp add: updateStatus_def Let_def setObject_def emitEvent_def saveState_def
      getAllProcesses_def mapValues_def)

lemma updateStatus_unknown: "mapGet s k = None \<Longrightarrow> updateStatus now k st err s = s"
  by (simp add: updateStatus_def)

lemma updateStatus_mapGet:
  assumes "mapGet s k = Some m"
  shows "mapGet (updateStatus now k st err s) k =
     Some (m \<lparr> info := (info m)
        \<lparr> status := st,
          p_error := (if truthy_str err then err else p_error (info m)),
          stoppedAt := (if st = Stopped \<or> st = Error then Some now else stoppedAt (info m)) \<rparr> \<rparr>)"
  using mapGet_objects [OF assms]
  by (simp add: mapGet_def updateStatus_processes updateStatus_objects [OF assms])

lemma mapValues_member:
  "mapGet s k = Some m \<Longrightarrow> m \<in> set (mapValues s)"
  by (force simp: mapGet_def mapValues_def List.map_filter_def split: if_splits)

lemma ex_spawned_state:
  "objects ex_spawned ''p1'' =
     Some \<lparr> info = \<lparr> p_id = ''p1'', modelId = ''m1'', modelName = ''m'',
                     modelPath = ''/models/m.gguf'', p_port = 8000, status = Starting,
                     pid = Some 4242, startedAt = Some ''t0'', stoppedAt = None,
                     config = mergeConfig 8000 None, p_error = None \<rparr>,
            process = Some (ChildProcess (Some 4242)), logs = [] \<rparr>"
  "processes ex_spawned = [''p1'']"
  "portManager ex_spawned = {8000}"
  by (simp_all add: ex_spawned_def spawn_begin_def pm_init_def ex_allocate Let_def
      setObject_def saveState_def mapSet_def)

lemma ex_spawned_mapGet:
  "mapGet ex_spawned ''p1'' =
     Some \<lparr> info = \<lparr> p_id = ''p1'', modelId = ''m1'', modelName = ''m'',
                     modelPath = ''/models/m.gguf'', p_port = 8000, status = Starting,
                     pid = Some 4242, startedAt = Some ''t0'', stoppedAt = None,
                     config = mergeConfig 8000 None, p_error = None \<rparr>,
            process = Some (ChildProcess (Some 4242)), logs = [] \<rparr>"
  by (simp add: mapGet_def ex_spawned_state)

lemma ex_exited_state_1:
  "objects ex_exited ''p1'' =
     Some \<lparr> info = \<lparr> p_id = ''p1'', modelId = ''m1'', modelName = ''m'',
                     modelPath = ''/models/m.gguf'', p_port = 8000, status = Error,
                     pid = Some 4242, startedAt = Some ''t0'', stoppedAt = Some ''t1'',
                     config = mergeConfig 8000 None,
                     p_error = Some ''Process exited with code 1'' \<rparr>,
            process = None, logs = [] \<rparr>"
  by (simp add: ex_exited_def onExit_def ex_spawned_state Let_def setObject_def
      updateStatus_objects [OF ex_spawned_mapGet] updateStatus_processes
      updateStatus_portManager [OF ex_spawned_mapGet] show_code_def digit_char_def release_def)

lemma ex_exited_state_2:
  "processes ex_exited = [''p1'']"
  by (simp add: ex_exited_def onExit_def ex_spawned_state Let_def setObject_def
      updateStatus_objects [OF ex_spawned_mapGet] updateStatus_processes
      updateStatus_portManager [OF ex_spawned_mapGet] show_code_def digit_char_def release_def)

lemma ex_exited_state_3:
  "portManager ex_exited = {}"
  by (simp add: ex_exited_def onExit_def ex_spawned_state Let_def setObject_def
      updateStatus_objects [OF ex_spawned_mapGet] updateStatus_processes
      updateStatus_portManager [OF ex_spawned_mapGet] show_code_def digit_char_def release_def)

lemmas ex_exited_state = ex_exited_state_1 ex_exited_state_2 ex_exited_state_3

lemma ex_exited_mapGet:
  "mapGet ex_exited ''p1'' =
     Some \<lparr> info = \<lparr> p_id = ''p1'', modelId = ''m1'', modelName = ''m'',
                     modelPath = ''/models/m.gguf'', p_port = 8000, status = Error,
                     pid = Some 4242, startedAt = Some ''t0'', stoppedAt = Some ''t1'',
                     config = mergeConfig 8000 None,
                     p_error = Some ''Process exited with code 1'' \<rparr>,
            process = None, logs = [] \<rparr>"
  by (simp add: mapGet_def ex_exited_state)

lemma ex_killed_state_1:
  "objects ex_killed ''p1'' =
     Some \<lparr> info = \<lparr> p_id = ''p1'', modelId = ''m1'', modelName = ''m'',
                     modelPath = ''/models/m.gguf'', p_port = 8000, status = Stopped,
                     pid = Some 4242, startedAt = Some ''t0'', stoppedAt = Some ''t2'',
                     config = mergeConfig 8000 None,
                     p_error = Some ''Process exited with code 1'' \<rparr>,
            process = None, logs = [] \<rparr>"
  by (simp add: ex_killed_def kill_def ex_exited_mapGet ex_exited_state
      updateStatus_objects [OF ex_exited_mapGet] updateStatus_processes)

lemma ex_killed_state_2:
  "processes ex_killed = [''p1'']"
  by (simp add: ex_killed_def kill_def ex_exited_mapGet ex_exited_state
      updateStatus_objects [OF ex_exited_mapGet] updateStatus_processes)

lemma ex_killed_state_3:
  "fst (kill ''t2'' ''p1'' False ex_exited) = Inr ()"
  by (simp add: ex_killed_def kill_def ex_exited_mapGet ex_exited_state
      updateStatus_objects [OF ex_exited_mapGet] updateStatus_processes)

lemmas ex_killed_state = ex_killed_state_1 ex_killed_state_2 ex_killed_state_3

lemma ex_killed_mapGet:
  "mapGet ex_killed ''p1'' =
     Some \<lparr> info = \<lparr> p_id = ''p1'', modelId = ''m1'', modelName = ''m'',
                     modelPath = ''/models/m.gguf'', p_port = 8000, status = Stopped,
                     pid = Some 4242, startedAt = Some ''t0'', stoppedAt = Some ''t2'',
                     config = mergeConfig 8000 None,
                     p_error = Some ''Process exited with code 1'' \<rparr>,
            process = None, logs = [] \<rparr>"
  by (simp add: mapGet_def ex_killed_state)

lemma ex_stopping_state_1:
  "objects ex_stopping ''p1'' =
     Some \<lparr> info = \<lparr> p_id = ''p1'', modelId = ''m1'', modelName = ''m'',
                     modelPath = ''/models/m.gguf'', p_port = 8000, status = Stopping,
                     pid = Some 4242, startedAt = Some ''t0'', stoppedAt = None,
                     config = mergeConfig 8000 None, p_error = None \<rparr>,
            process = Some (ChildProcess (Some 4242)), logs = [] \<rparr>"
  by (simp add: ex_stopping_def kill_def ex_spawned_mapGet sendSignal_def
      updateStatus_objects [OF ex_spawned_mapGet] updateStatus_processes
      updateStatus_portManager [OF ex_spawned_mapGet] ex_spawned_state
      ex_spawned_def spawn_begin_def pm_init_def ex_allocate Let_def
      setObject_def saveState_def mapSet_def updateStatus_def mapGet_def emitEvent_def)

lemma ex_stopping_state_2:
  "processes ex_stopping = [''p1'']"
  by (simp add: ex_stopping_def kill_def ex_spawned_mapGet sendSignal_def
      updateStatus_objects [OF ex_spawned_mapGet] updateStatus_processes
      updateStatus_portManager [OF ex_spawned_mapGet] ex_spawned_state
      ex_spawned_def spawn_begin_def pm_init_def ex_allocate Let_def
      setObject_def saveState_def mapSet_def updateStatus_def mapGet_def emitEvent_def)

lemma ex_stopping_state_3:
  "portManager ex_stopping = {8000}"
  by (simp add: ex_stopping_def kill_def ex_spawned_mapGet sendSignal_def
      updateStatus_objects [OF ex_spawned_mapGet] updateStatus_processes
      updateStatus_portManager [OF ex_spawned_mapGet] ex_spawned_state
      ex_spawned_def spawn_begin_def pm_init_def ex_allocate Let_def
      setObject_def saveState_def mapSet_def updateStatus_def mapGet_def emitEvent_def)

lemma ex_stopping_state_4:
  "signals ex_stopping = [(''p1'', SIGTERM)]"
  by (simp add: ex_stopping_def kill_def ex_spawned_mapGet sendSignal_def
      updateStatus_objects [OF ex_spawned_mapGet] updateStatus_processes
      updateStatus_portManager [OF ex_spawned_mapGet] ex_spawned_state
      ex_spawned_def spawn_begin_def pm_init_def ex_allocate Let_def
      setObject_def saveState_def mapSet_def updateStatus_def mapGet_def emitEvent_def)

lemmas ex_stopping_state = ex_stopping_state_1 ex_stopping_state_2 ex_stopping_state_3 ex_stopping_state_4

lemma ex_stopping_mapGet:
  "mapGet ex_stopping ''p1'' =
     Some \<lparr> info = \<lparr> p_id = ''p1'', modelId = ''m1'', modelName = ''m'',
                     modelPath = ''/models/m.gguf'', p_port = 8000, status = Stopping,
                     pid = Some 4242, startedAt = Some ''t0'', stoppedAt = None,
                     config = mergeConfig 8000 None, p_error = None \<rparr>,
            process = Some (ChildProcess (Some 4242)), logs = [] \<rparr>"
  by (simp add: mapGet_def ex_stopping_state)

lemma statusOf_updateStatus:
  "mapGet s k = Some m \<Longrightarrow> statusOf (updateStatus now k st err s) k = Some st"
  by (simp add: statusOf_def updateStatus_objects)

lemma addLog_mapGet:
  assumes "mapGet s k = Some m"
  shows "\<exists>l. mapGet (addLog now k message stream s) k = Some (m \<lparr> logs := l \<rparr>)"
  using assms mapGet_objects [OF assms]
  by (auto simp: addLog_def Let_def mapGet_def setObject_def emitEvent_def)

lemma statusOf_kill:
  assumes "mapGet s k = Some m"
  shows "fst (kill now k force s) = Inr ()"
    and "statusOf (snd (kill now k force s)) k =
           Some (if process m = None then Stopped else Stopping)"
  using assms
  by (simp_all add: kill_def statusOf_def sendSignal_def updateStatus_objects)

lemma statusOf_onExit:
  assumes "mapGet s k = Some m"
  shows "statusOf (onExit now k code s) k =
           Some (if status (info m) = Stopping \<or> status (info m) = Stopped then Stopped
                 else if code = Some 0 then Stopped else Error)"
  using assms mapGet_objects [OF assms]
  by (simp add: onExit_def statusOf_def Let_def setObject_def updateStatus_objects)

lemma statusOf_onStdoutLine:
  assumes "mapGet s k = Some m"
  shows "statusOf (onStdoutLine now k line s) k =
           Some (if str_includes line ''Uvicorn running''
                    \<or> str_includes line ''Application startup complete''
                 then Running else status (info m))"
proof -
  from addLog_mapGet [OF assms] obtain l
    where g: "mapGet (addLog now k line Stdout s) k = Some (m \<lparr> logs := l \<rparr>)"
    by blast
  have a: "statusOf (addLog now k line Stdout s) k = Some (status (info m))"
    using mapGet_objects [OF g] by (simp add: statusOf_def)
  show ?thesis
    by (simp add: onStdoutLine_def Let_def statusOf_updateStatus [OF g] a)
qed

lemma infos_cong:
  assumes "\<And>j. map_option info (f j) = map_option info (g j)"
  shows "map info (List.map_filter f ks) = map info (List.map_filter g ks)"
proof (induction ks)
  case Nil
  show ?case by simp
next
  case (Cons x ks)
  from assms [of x] Cons.IH show ?case
    by (cases "f x"; cases "g x") simp_all
qed

lemma handler_persists:
  assumes g: "mapGet s k = Some m"
    and p: "processes s' = processes (updateStatus now k st err s)"
    and pm: "portManager s' = portManager (updateStatus now k st err s)"
    and sf: "stateFile s' = stateFile (updateStatus now k st err s)"
    and ob: "\<And>j. map_option info (objects s' j) =
                  map_option info (objects (updateStatus now k st err s) j)"
  shows "stateFile s' = Some (getAllProcesses s')
       \<and> (statusOf s' k = Some Stopped \<or> statusOf s' k = Some Error \<longrightarrow>
            p_port (info m) \<notin> portManager s'
            \<and> (\<exists>m'. mapGet s' k = Some m' \<and> stoppedAt (info m') = Some now))"
proof -
  let ?u = "updateStatus now k st err s"
  have all: "getAllProcesses s' = getAllProcesses ?u"
    unfolding getAllProcesses_def mapValues_def p by (rule infos_cong) (rule ob)
  have a: "stateFile s' = Some (getAllProcesses s')"
    by (simp add: sf all updateStatus_stateFile [OF g])
  have kin: "k \<in> set (processes s')"
    using mapGet_objects [OF g] by (simp add: p updateStatus_processes)
  from ob [of k] obtain m' where m': "objects s' k = Some m'"
    and i': "info m' = (info m)
        \<lparr> status := st,
          p_error := (if truthy_str err then err else p_error (info m)),
          stoppedAt := (if st = Stopped \<or> st = Error then Some now else stoppedAt (info m)) \<rparr>"
    by (auto simp: updateStatus_objects [OF g])
  have st: "statusOf s' k = Some st"
    by (simp add: statusOf_def m' i')
  have b: "statusOf s' k = Some Stopped \<or> statusOf s' k = Some Error \<longrightarrow>
            p_port (info m) \<notin> portManager s'
            \<and> (\<exists>m'. mapGet s' k = Some m' \<and> stoppedAt (info m') = Some now)"
  proof
    assume "statusOf s' k = Some Stopped \<or> statusOf s' k = Some Error"
    with st have t: "st = Stopped \<or> st = Error" by simp
    then have "p_port (info m) \<notin> portManager s'"
      by (simp add: pm updateStatus_portManager [OF g] release_def)
    moreover have "mapGet s' k = Some m' \<and> stoppedAt (info m') = Some now"
      using t kin by (simp add: mapGet_def m' i')
    ultimately show "p_port (info m) \<notin> portManager s'
            \<and> (\<exists>m'. mapGet s' k = Some m' \<and> stoppedAt (info m') = Some now)"
      by blast
  qed
  from a b show ?thesis by (rule conjI)
qed

lemma kill_persists:
  assumes g: "mapGet s k = Some m"
  shows "stateFile (snd (kill now k force s)) = Some (getAllProcesses (snd (kill now k force s)))
       \<and> (statusOf (snd (kill now k force s)) k = Some Stopped
            \<or> statusOf (snd (kill now k force s)) k = Some Error \<longrightarrow>
            p_port (info m) \<notin> portManager (snd (kill now k force s))
            \<and> (\<exists>m'. mapGet (snd (kill now k force s)) k = Some m'
                   \<and> stoppedAt (info m') = Some now))"
proof (cases "process m = None")
  case True
  then have e: "snd (kill now k force s) = updateStatus now k Stopped None s"
    using g by (simp add: kill_def)
  show ?thesis
    unfolding e by (rule handler_persists [OF g]) simp_all
next
  case False
  then have e: "snd (kill now k force s) =
      sendSignal k (if force then SIGKILL else SIGTERM) (updateStatus now k Stopping None s)"
    using g by (auto simp: kill_def)
  show ?thesis
    unfolding e by (rule handler_persists [OF g]) (simp_all add: sendSignal_def)
qed

lemma onExit_persists:
  assumes g: "mapGet s k = Some m"
  shows "stateFile (onExit now k code s) = Some (getAllProcesses (onExit now k code s))
       \<and> (statusOf (onExit now k code s) k = Some Stopped
            \<or> statusOf (onExit now k code s) k = Some Error \<longrightarrow>
            p_port (info m) \<notin> portManager (onExit now k code s)
            \<and> (\<exists>m'. mapGet (onExit now k code s) k = Some m'
                   \<and> stoppedAt (info m') = Some now))"
proof -
  have form: "\<And>st err. \<exists>m'. objects (updateStatus now k st err s) k = Some m'
      \<and> (case objects (updateStatus now k st err s) k of
           None \<Rightarrow> updateStatus now k st err s
         | Some x \<Rightarrow> setObject k (x \<lparr> process := None \<rparr>) (updateStatus now k st err s)) =
        setObject k (m' \<lparr> process := None \<rparr>) (updateStatus now k st err s)"
    by (simp add: updateStatus_objects [OF g])
  have view: "stateFile (setObject k (m' \<lparr> process := None \<rparr>) (updateStatus now k st err s))
        = Some (getAllProcesses (setObject k (m' \<lparr> process := None \<rparr>) (updateStatus now k st err s)))
       \<and> (statusOf (setObject k (m' \<lparr> process := None \<rparr>) (updateStatus now k st err s)) k = Some Stopped
            \<or> statusOf (setObject k (m' \<lparr> process := None \<rparr>) (updateStatus now k st err s)) k = Some Error \<longrightarrow>
            p_port (info m) \<notin> portManager (setObject k (m' \<lparr> process := None \<rparr>) (updateStatus now k st err s))
            \<and> (\<exists>x. mapGet (setObject k (m' \<lparr> process := None \<rparr>) (updateStatus now k st err s)) k = Some x
                   \<and> stoppedAt (info x) = Some now))"
    if "objects (updateStatus now k st err s) k = Some m'" for st err m'
    by (rule handler_persists [OF g]) (use that in \<open>auto simp: setObject_def\<close>)
  from mapGet_objects [OF g] have o: "objects s k = Some m" by simp
  show ?thesis
  proof (cases "status (info m) \<noteq> Stopping \<and> status (info m) \<noteq> Stopped")
    case True
    let ?st = "if code = Some 0 then Stopped else Error"
    let ?err = "if code \<noteq> Some 0
                then Some (''Process exited with code '' @ show_code code) else None"
    from form [of ?st ?err] obtain m' where
      m': "objects (updateStatus now k ?st ?err s) k = Some m'" by blast
    have e: "onExit now k code s = setObject k (m' \<lparr> process := None \<rparr>) (updateStatus now k ?st ?err s)"
      using True o m' by (simp add: onExit_def Let_def)
    show ?thesis unfolding e by (rule view [OF m'])
  next
    case False
    from form [of Stopped None] obtain m' where
      m': "objects (updateStatus now k Stopped None s) k = Some m'" by blast
    have e: "onExit now k code s = setObject k (m' \<lparr> process := None \<rparr>) (updateStatus now k Stopped None s)"
      using False o m' by (auto simp: onExit_def Let_def)
    show ?thesis unfolding e by (rule view [OF m'])
  qed
qed

lemma onError_persists:
  assumes g: "mapGet s k = Some m"
  shows "stateFile (onError now k message s) = Some (getAllProcesses (onError now k message s))
       \<and> (statusOf (onError now k message s) k = Some Stopped
            \<or> statusOf (onError now k message s) k = Some Error \<longrightarrow>
            p_port (info m) \<notin> portManager (onError now k message s)
            \<and> (\<exists>m'. mapGet (onError now k message s) k = Some m'
                   \<and> stoppedAt (info m') = Some now))"
  unfolding onError_def by (rule handler_persists [OF g]) simp_all

text \<open>
  C6, as the code has it. \<open>updateStatus\<close> on a record of the map writes the requested
  status and leaves the state file holding the \<open>info\<close> of every record of the map, the
  updated one included; when the new status is \<open>stopped\<close> or \<open>error\<close> the record's
  \<open>stoppedAt\<close> is the current time and the record's port is released, so it is no longer
  in the allocator's used set. The same holds after \<open>kill\<close>, after the exit handler and
  after the error handler, which change the status through \<open>updateStatus\<close>.
\<close>

theorem updateStatus_persists_and_releases:
  assumes "mapGet s processId = Some managed"
  shows "stateFile (updateStatus now processId st err s) =
           Some (getAllProcesses (updateStatus now processId st err s))
       \<and> (\<exists>m'. mapGet (updateStatus now processId st err s) processId = Some m'
              \<and> status (info m') = st
              \<and> info m' \<in> set (getAllProcesses (updateStatus now processId st err s))
              \<and> (st = Stopped \<or> st = Error \<longrightarrow> stoppedAt (info m') = Some now))
       \<and> (st = Stopped \<or> st = Error \<longrightarrow>
              portManager (updateStatus now processId st err s) =
                release (p_port (info managed)) (portManager s)
              \<and> p_port (info managed) \<notin> portManager (updateStatus now processId st err s))
       \<and> (\<forall>s' \<in> {snd (kill now processId force s), onExit now processId code s,
                   onError now processId message s}.
              stateFile s' = Some (getAllProcesses s')
              \<and> (statusOf s' processId = Some Stopped \<or> statusOf s' processId = Some Error \<longrightarrow>
                   p_port (info managed) \<notin> portManager s'
                   \<and> (\<exists>m'. mapGet s' processId = Some m' \<and> stoppedAt (info m') = Some now)))"
proof -
  let ?s' = "updateStatus now processId st err s"
  let ?m' = "managed \<lparr> info := (info managed)
        \<lparr> status := st,
          p_error := (if truthy_str err then err else p_error (info managed)),
          stoppedAt := (if st = Stopped \<or> st = Error then Some now else stoppedAt (info managed)) \<rparr> \<rparr>"
  have g: "mapGet ?s' processId = Some ?m'"
    by (rule updateStatus_mapGet [OF assms])
  have mem: "info ?m' \<in> set (getAllProcesses ?s')"
    unfolding getAllProcesses_def set_map by (rule imageI) (rule mapValues_member [OF g])
  have a: "stateFile ?s' = Some (getAllProcesses ?s')"
    by (rule updateStatus_stateFile [OF assms])
  have b: "\<exists>m'. mapGet ?s' processId = Some m' \<and> status (info m') = st
              \<and> info m' \<in> set (getAllProcesses ?s')
              \<and> (st = Stopped \<or> st = Error \<longrightarrow> stoppedAt (info m') = Some now)"
    using g mem by (intro exI [of _ ?m']) simp
  have c: "st = Stopped \<or> st = Error \<longrightarrow>
              portManager ?s' = release (p_port (info managed)) (portManager s)
              \<and> p_port (info managed) \<notin> portManager ?s'"
    by (simp add: updateStatus_portManager [OF assms] release_def)
  have d: "\<forall>s' \<in> {snd (kill now processId force s), onExit now processId code s,
                   onError now processId message s}.
              stateFile s' = Some (getAllProcesses s')
              \<and> (statusOf s' processId = Some Stopped \<or> statusOf s' processId = Some Error \<longrightarrow>
                   p_port (info managed) \<notin> portManager s'
                   \<and> (\<exists>m'. mapGet s' processId = Some m' \<and> stoppedAt (info m') = Some now))"
    using kill_persists [OF assms, of now force] onExit_persists [OF assms, of now code]
      onError_persists [OF assms, of now message]
    by (intro ballI, elim insertE emptyE) (hypsubst, assumption)+
  from a b c d show ?thesis by (intro conjI)
qed

theorem updateStatus_persists_and_releases_witness:
  "mapGet ex_spawned ''p1'' \<noteq> None
   \<and> portManager ex_spawned = {8000}
   \<and> portManager (updateStatus ''t1'' ''p1'' Error (Some ''boom'') ex_spawned) = {}
   \<and> stateFile (updateStatus ''t1'' ''p1'' Error (Some ''boom'') ex_spawned) =
       Some [\<lparr> p_id = ''p1'', modelId = ''m1'', modelName = ''m'',
                     modelPath = ''/models/m.gguf'', p_port = 8000, status = Error,
                     pid = Some 4242, startedAt = Some ''t0'', stoppedAt = Some ''t1'',
                     config = mergeConfig 8000 None, p_error = Some ''boom'' \<rparr>]
   \<and> statusOf (onExit ''t1'' ''p1'' (Some 1) ex_spawned) ''p1'' = Some Error
   \<and> stateFile (onExit ''t1'' ''p1'' (Some 1) ex_spawned) =
       Some (getAllProcesses (onExit ''t1'' ''p1'' (Some 1) ex_spawned))
   \<and> 8000 \<notin> portManager (onExit ''t1'' ''p1'' (Some 1) ex_spawned)"
proof -
  note g = ex_spawned_mapGet
  have v: "getAllProcesses (updateStatus ''t1'' ''p1'' Error (Some ''boom'') ex_spawned) =
       [\<lparr> p_id = ''p1'', modelId = ''m1'', modelName = ''m'',
                     modelPath = ''/models/m.gguf'', p_port = 8000, status = Error,
                     pid = Some 4242, startedAt = Some ''t0'', stoppedAt = Some ''t1'',
                     config = mergeConfig 8000 None, p_error = Some ''boom'' \<rparr>]"
    by (simp add: getAllProcesses_def mapValues_def updateStatus_processes
        updateStatus_objects [OF g] ex_spawned_state List.map_filter_def)
  note t = updateStatus_persists_and_releases [OF g, where now = "''t1''" and st = Error
      and err = "Some ''boom''" and force = False and code = "Some 1" and message = "''boom''"]
  have st: "statusOf (onExit ''t1'' ''p1'' (Some 1) ex_spawned) ''p1'' = Some Error"
    by (simp add: statusOf_onExit [OF g])
  from t have a: "portManager (updateStatus ''t1'' ''p1'' Error (Some ''boom'') ex_spawned) = {}
      \<and> stateFile (updateStatus ''t1'' ''p1'' Error (Some ''boom'') ex_spawned) =
           Some (getAllProcesses (updateStatus ''t1'' ''p1'' Error (Some ''boom'') ex_spawned))"
    by (simp add: ex_spawned_state release_def)
  from t [THEN conjunct2, THEN conjunct2, THEN conjunct2] st
  have b: "stateFile (onExit ''t1'' ''p1'' (Some 1) ex_spawned) =
       Some (getAllProcesses (onExit ''t1'' ''p1'' (Some 1) ex_spawned))
     \<and> 8000 \<notin> portManager (onExit ''t1'' ''p1'' (Some 1) ex_spawned)"
    by simp
  from a b st v show ?thesis
    by (simp add: g ex_spawned_state)
qed

lemma ex_spawned_stateFile:
  "stateFile ex_spawned =
     Some [\<lparr> p_id = ''p1'', modelId = ''m1'', modelName = ''m'',
              modelPath = ''/models/m.gguf'', p_port = 8000, status = Starting,
              pid = None, startedAt = Some ''t0'', stoppedAt = None,
              config = mergeConfig 8000 None, p_error = None \<rparr>]"
  by (simp add: ex_spawned_def spawn_begin_def pm_init_def ex_allocate Let_def
      setObject_def saveState_def mapSet_def mapValues_def)

text \<open>
  C6 as stated fails: \<open>restoreState\<close> on the state file a spawn left moves the record from
  \<open>starting\<close> to \<open>stopped\<close> in memory, and the state file still says \<open>starting\<close>.
\<close>

theorem restoreState_not_persisted_counterexample:
  "map_option (map status) (stateFile ex_spawned) = Some [Starting]
   \<and> statusOf ex_reloaded ''p1'' = Some Stopped
   \<and> map status (getAllProcesses ex_reloaded) = [Stopped]
   \<and> map_option (map status) (stateFile ex_reloaded) = Some [Starting]"
  by (simp add: ex_reloaded_def restoreState_def ex_spawned_stateFile restoreOne_def Let_def
      mapSet_def pm_init_def statusOf_def getAllProcesses_def mapValues_def)

text \<open>
  C1, as the code has it. For a record of the map: \<open>updateStatus\<close> installs the status it is
  given, whatever the current one; \<open>kill\<close> sets \<open>stopped\<close> when the record has no process
  handle and \<open>stopping\<close> when it has one; the exit handler sets \<open>stopped\<close> when the status is
  \<open>stopping\<close> or \<open>stopped\<close>, and otherwise \<open>stopped\<close> on exit code 0 and \<open>error\<close> on any
  other; the error handler sets \<open>error\<close>; an output line sets \<open>running\<close> when it holds a
  readiness marker and leaves the status alone otherwise. So a \<open>stopped\<close> record without a
  handle stays \<open>stopped\<close> under \<open>kill\<close> and under the exit handler.
\<close>

theorem status_written_as_requested:
  assumes "mapGet s processId = Some managed"
  shows "statusOf (updateStatus now processId st err s) processId = Some st
       \<and> fst (kill now processId force s) = Inr ()
       \<and> statusOf (snd (kill now processId force s)) processId =
            Some (if process managed = None then Stopped else Stopping)
       \<and> statusOf (onExit now processId code s) processId =
            Some (if status (info managed) = Stopping \<or> status (info managed) = Stopped
                  then Stopped else if code = Some 0 then Stopped else Error)
       \<and> statusOf (onError now processId message s) processId = Some Error
       \<and> statusOf (onStdoutLine now processId line s) processId =
            Some (if str_includes line ''Uvicorn running''
                     \<or> str_includes line ''Application startup complete''
                  then Running else status (info managed))
       \<and> (status (info managed) = Stopped \<and> process managed = None \<longrightarrow>
            statusOf (snd (kill now processId force s)) processId = Some Stopped
            \<and> statusOf (onExit now processId code s) processId = Some Stopped)"
  using statusOf_updateStatus [OF assms] statusOf_kill [OF assms] statusOf_onExit [OF assms]
    statusOf_onStdoutLine [OF assms]
  by (simp add: onError_def)

theorem status_written_as_requested_witness:
  "mapGet ex_spawned ''p1'' \<noteq> None
   \<and> statusOf ex_spawned ''p1'' = Some Starting
   \<and> statusOf (snd (kill ''t1'' ''p1'' False ex_spawned)) ''p1'' = Some Stopping
   \<and> statusOf (onExit ''t1'' ''p1'' (Some 1) ex_spawned) ''p1'' = Some Error
   \<and> statusOf (onExit ''t1'' ''p1'' (Some 0) ex_spawned) ''p1'' = Some Stopped
   \<and> statusOf (onStdoutLine ''t1'' ''p1'' ''INFO: Uvicorn running on http://127.0.0.1:8000'' ex_spawned) ''p1''
        = Some Running
   \<and> statusOf ex_killed ''p1'' = Some Stopped
   \<and> map_option process (mapGet ex_killed ''p1'') = Some None
   \<and> statusOf (snd (kill ''t3'' ''p1'' False ex_killed)) ''p1'' = Some Stopped
   \<and> statusOf (onExit ''t3'' ''p1'' (Some 1) ex_killed) ''p1'' = Some Stopped"
  using status_written_as_requested [OF ex_spawned_mapGet, of "''t1''" Stopped None False "Some 1"
      "''boom''" "''INFO: Uvicorn running on http://127.0.0.1:8000''"]
    status_written_as_requested [OF ex_spawned_mapGet, of "''t1''" Stopped None False "Some 0"
      "''boom''" "''INFO: Uvicorn running on http://127.0.0.1:8000''"]
    status_written_as_requested [OF ex_killed_mapGet, of "''t3''" Stopped None False "Some 1"
      "''boom''" "''x''"]
  by (simp add: ex_spawned_mapGet ex_killed_mapGet statusOf_def ex_spawned_state ex_killed_state)

text \<open>
  C1 as stated fails: the record of the run is in \<open>error\<close> after its child exited with
  code 1, and the \<open>kill\<close> that follows moves it to \<open>stopped\<close>.
\<close>

theorem terminal_status_left_counterexample:
  "statusOf ex_exited ''p1'' = Some Error
   \<and> fst (kill ''t2'' ''p1'' False ex_exited) = Inr ()
   \<and> statusOf (snd (kill ''t2'' ''p1'' False ex_exited)) ''p1'' = Some Stopped"
  using ex_killed_state by (simp add: statusOf_def ex_exited_state ex_killed_def)

lemma removeProcess_unknown: "mapGet s k = None \<Longrightarrow> removeProcess k s = (Inr False, s)"
  by (simp add: removeProcess_def)

lemma removeProcess_running_or_starting:
  "mapGet s k = Some m \<Longrightarrow> status (info m) = Running \<or> status (info m) = Starting \<Longrightarrow>
     removeProcess k s = (Inl CannotRemoveRunning, s)"
  by (auto simp: removeProcess_def)

lemma removeProcess_other:
  assumes "mapGet s k = Some m" "status (info m) \<noteq> Running" "status (info m) \<noteq> Starting"
  shows "fst (removeProcess k s) = Inr True"
    and "mapGet (snd (removeProcess k s)) k = None"
    and "stateFile (snd (removeProcess k s)) = Some (getAllProcesses (snd (removeProcess k s)))"
  using assms
  by (simp_all add: removeProcess_def mapGet_def mapDelete_def saveState_def
      getAllProcesses_def mapValues_def)

lemma ex_removed_state_1: "fst (removeProcess ''p1'' ex_stopping) = Inr True"
  by (simp add: removeProcess_other(1) [OF ex_stopping_mapGet])

lemma ex_removed_state_2: "processes ex_removed = []"
  by (simp add: ex_removed_def removeProcess_def ex_stopping_mapGet mapDelete_def
      saveState_def ex_stopping_state)

lemma ex_removed_state_3: "stateFile ex_removed = Some []"
  by (simp add: ex_removed_def removeProcess_def ex_stopping_mapGet mapDelete_def
      saveState_def ex_stopping_state mapValues_def)

lemma ex_removed_state_4: "portManager ex_removed = {8000}"
  by (simp add: ex_removed_def removeProcess_def ex_stopping_mapGet mapDelete_def
      saveState_def ex_stopping_state)

lemma ex_removed_state_5: "mapGet ex_removed ''p1'' = None"
  by (simp add: mapGet_def ex_removed_state_2)

lemma ex_removed_state_6:
  "objects ex_removed ''p1'' = objects ex_stopping ''p1''"
  by (simp add: ex_removed_def removeProcess_def ex_stopping_mapGet mapDelete_def saveState_def)

lemmas ex_removed_state = ex_removed_state_1 ex_removed_state_2 ex_removed_state_3
  ex_removed_state_4 ex_removed_state_5 ex_removed_state_6

text \<open>
  C5 at a record in \<open>stopping\<close>. The record of the second run is in \<open>stopping\<close> and its
  child is alive; \<open>removeProcess\<close> does not throw but returns \<open>true\<close>, the record is gone
  from the list and from the state file, and when the child exits afterwards the port
  8000 stays in the used set.
\<close>

theorem removeProcess_stopping_not_rejected:
  "statusOf ex_stopping ''p1'' = Some Stopping
   \<and> map_option process (mapGet ex_stopping ''p1'') = Some (Some (ChildProcess (Some 4242)))
   \<and> fst (removeProcess ''p1'' ex_stopping) = Inr True
   \<and> getAllProcesses ex_removed = []
   \<and> stateFile ex_removed = Some []
   \<and> portManager ex_removed = {8000}
   \<and> portManager (onExit ''t3'' ''p1'' None ex_removed) = {8000}"
proof -
  have "portManager (onExit ''t3'' ''p1'' None ex_removed) = {8000}"
    by (simp add: onExit_def ex_removed_state ex_stopping_state Let_def
        updateStatus_unknown [OF ex_removed_state_5] setObject_def)
  then show ?thesis
    by (simp add: statusOf_def ex_stopping_state ex_stopping_mapGet ex_removed_state
        getAllProcesses_def mapValues_def)
qed

lemma restoreOne_running_or_starting:
  assumes "status i = Running \<or> status i = Starting"
  shows "mapGet (restoreOne now s i) (p_id i) =
           Some \<lparr> info = i \<lparr> status := Stopped, stoppedAt := Some now \<rparr>, process = None, logs = [] \<rparr>"
    and "portManager (restoreOne now s i) = portManager s"
  using assms by (auto simp: restoreOne_def Let_def mapSet_def mapGet_def)

lemma restoreOne_stopped:
  assumes "status i = Stopped"
  shows "mapGet (restoreOne now s i) (p_id i) = Some \<lparr> info = i, process = None, logs = [] \<rparr>"
    and "portManager (restoreOne now s i) = portManager s"
  using assms by (auto simp: restoreOne_def Let_def mapSet_def mapGet_def)

lemma restoreOne_error_or_stopping:
  assumes "status i = Error \<or> status i = Stopping"
  shows "mapGet (restoreOne now s i) (p_id i) = Some \<lparr> info = i, process = None, logs = [] \<rparr>"
    and "portManager (restoreOne now s i) =
           (if isAvailable (p_port i) (portManager s) then insert (p_port i) (portManager s)
            else portManager s)"
  using assms by (auto simp: restoreOne_def Let_def mapSet_def mapGet_def reserve_def)

lemma ex_exited_stateFile:
  "stateFile ex_exited =
     Some [\<lparr> p_id = ''p1'', modelId = ''m1'', modelName = ''m'',
                     modelPath = ''/models/m.gguf'', p_port = 8000, status = Error,
                     pid = Some 4242, startedAt = Some ''t0'', stoppedAt = Some ''t1'',
                     config = mergeConfig 8000 None,
                     p_error = Some ''Process exited with code 1'' \<rparr>]"
  by (simp add: ex_exited_def onExit_def ex_spawned_state Let_def setObject_def
      updateStatus_objects [OF ex_spawned_mapGet] updateStatus_processes
      updateStatus_stateFile [OF ex_spawned_mapGet] getAllProcesses_def mapValues_def
      show_code_def digit_char_def)

text \<open>
  C2 at a record in \<open>error\<close>. The first run ends with the record in \<open>error\<close>, its port
  released and the state file holding that record; \<open>restoreState\<close> on this file keeps the
  record in \<open>error\<close> and reserves its port, so the next \<open>allocate\<close> returns 8001.
\<close>

theorem restoreState_reserves_error_port:
  "stateFile ex_exited =
     Some [\<lparr> p_id = ''p1'', modelId = ''m1'', modelName = ''m'',
                     modelPath = ''/models/m.gguf'', p_port = 8000, status = Error,
                     pid = Some 4242, startedAt = Some ''t0'', stoppedAt = Some ''t1'',
                     config = mergeConfig 8000 None,
                     p_error = Some ''Process exited with code 1'' \<rparr>]
   \<and> portManager ex_exited = {}
   \<and> statusOf ex_restarted ''p1'' = Some Error
   \<and> portManager ex_restarted = {8000}
   \<and> allocate (portManager ex_restarted) = Inr (8001, {8000, 8001})"
proof -
  have p: "portManager ex_restarted = {8000}"
    by (simp add: ex_restarted_def restoreState_def ex_exited_stateFile restoreOne_def Let_def
        mapSet_def pm_init_def reserve_def isAvailable_def BASE_PORT_def MAX_PORT_def)
  have st: "statusOf ex_restarted ''p1'' = Some Error"
    by (simp add: ex_restarted_def restoreState_def ex_exited_stateFile restoreOne_def Let_def
        mapSet_def pm_init_def statusOf_def)
  have al: "allocate {8000} = Inr (8001, {8000, 8001})"
    by code_simp
  from p st al show ?thesis
    by (simp add: ex_exited_stateFile ex_exited_state)
qed

section \<open>Properties of the download coordinator\<close>

lemma dlGet_objects: "dlGet s k = Some m \<Longrightarrow> d_objects s k = Some m \<and> k \<in> set (downloads s)"
  by (simp add: dlGet_def split: if_splits)

lemma dlSetObject_proj [simp]:
  "downloads (dlSetObject k m s) = downloads s"
  "files (dlSetObject k m s) = files s"
  "locked (dlSetObject k m s) = locked s"
  "d_events (dlSetObject k m s) = d_events s"
  "lastProgressUpdate (dlSetObject k m s) = lastProgressUpdate s"
  "d_objects (dlSetObject k m s) = (d_objects s)(k \<mapsto> m)"
  by (simp_all add: dlSetObject_def)

lemma cleanupPartial_proj [simp]:
  "downloads (cleanupPartial p s) = downloads s"
  "d_objects (cleanupPartial p s) = d_objects s"
  "locked (cleanupPartial p s) = locked s"
  "d_events (cleanupPartial p s) = d_events s"
  "lastProgressUpdate (cleanupPartial p s) = lastProgressUpdate s"
  by (simp_all add: cleanupPartial_def)

lemma dl_updateStatus_objects:
  assumes "dlGet s k = Some m"
  shows "d_objects (dl_updateStatus now k st err s) =
     (d_objects s)(k \<mapsto> m \<lparr> d_info := (d_info m)
        \<lparr> d_status := st,
          d_error := (if truthy_str err then err else d_error (d_info m)),
          completedAt := (if st = DlCompleted \<or> st = DlError \<or> st = DlCancelled
                          then Some now else completedAt (d_info m)) \<rparr> \<rparr>)"
  using assms by (simp add: dl_updateStatus_def Let_def dlSetObject_def dl_emitEvent_def)

lemma dl_updateStatus_other:
  "downloads (dl_updateStatus now k st err s) = downloads s"
  "files (dl_updateStatus now k st err s) = files s"
  "locked (dl_updateStatus now k st err s) = locked s"
  "lastProgressUpdate (dl_updateStatus now k st err s) = lastProgressUpdate s"
  by (simp_all add: dl_updateStatus_def Let_def dlSetObject_def dl_emitEvent_def
      split: option.splits)

lemma dl_updateStatus_events:
  assumes "dlGet s k = Some m"
  shows "d_events (dl_updateStatus now k st err s) = d_events s @ [DlStatusEvent k now st err]"
  using assms by (simp add: dl_updateStatus_def Let_def dlSetObject_def dl_emitEvent_def)

lemma dl_updateStatus_unknown: "dlGet s k = None \<Longrightarrow> dl_updateStatus now k st err s = s"
  by (simp add: dl_updateStatus_def)

lemma dl_statusOf_updateStatus:
  "dlGet s k = Some m \<Longrightarrow> dl_statusOf (dl_updateStatus now k st err s) k = Some st"
  by (simp add: dl_statusOf_def dl_updateStatus_objects)

lemma cancel_downloading:
  assumes "dlGet s k = Some m" "d_status (d_info m) = DlDownloading"
  shows "cancel k s =
     (True, dlSetObject k
        (m \<lparr> abortController := map_option (\<lambda>a. True) (abortController m),
             childProcess := map_option (\<lambda>sigs. sigs @ [SIGTERM]) (childProcess m) \<rparr>) s)"
  using assms by (simp add: cancel_def)

lemma cancel_dlGet:
  assumes "dlGet s k = Some m" "d_status (d_info m) = DlDownloading"
  shows "dlGet (snd (cancel k s)) k =
     Some (m \<lparr> abortController := map_option (\<lambda>a. True) (abortController m),
               childProcess := map_option (\<lambda>sigs. sigs @ [SIGTERM]) (childProcess m) \<rparr>)"
  using dlGet_objects [OF assms(1)]
  by (simp add: cancel_downloading [OF assms] dlGet_def dlSetObject_def)

text \<open>
  C10. \<open>removeDownload\<close> returns \<open>false\<close> and changes nothing for an id that is not in the
  map. For a record of the map it returns \<open>true\<close> and the id is no longer a key; when the
  status is \<open>downloading\<close> the state is the one \<open>cancel\<close> leaves (which returns \<open>true\<close>, the
  controller aborted and SIGTERM sent to the child) with the key deleted, otherwise the
  given state with the key deleted. No status makes it refuse.
\<close>

theorem removeDownload_never_rejects:
  "(dlGet s downloadId = None \<longrightarrow> removeDownload downloadId s = (False, s))
   \<and> (\<forall>m. dlGet s downloadId = Some m \<longrightarrow>
         fst (removeDownload downloadId s) = True
         \<and> downloadId \<notin> set (downloads (snd (removeDownload downloadId s)))
         \<and> dlGet (snd (removeDownload downloadId s)) downloadId = None
         \<and> (d_status (d_info m) = DlDownloading \<longrightarrow>
              fst (cancel downloadId s) = True
              \<and> snd (removeDownload downloadId s) = dlDelete downloadId (snd (cancel downloadId s))
              \<and> d_objects (snd (removeDownload downloadId s)) downloadId =
                  Some (m \<lparr> abortController := map_option (\<lambda>a. True) (abortController m),
                            childProcess := map_option (\<lambda>sigs. sigs @ [SIGTERM]) (childProcess m) \<rparr>))
         \<and> (d_status (d_info m) \<noteq> DlDownloading \<longrightarrow>
              snd (removeDownload downloadId s) = dlDelete downloadId s))"
proof (intro conjI allI impI)
  assume "dlGet s downloadId = None"
  then show "removeDownload downloadId s = (False, s)"
    by (simp add: removeDownload_def)
next
  fix m assume g: "dlGet s downloadId = Some m"
  show "fst (removeDownload downloadId s) = True"
    using g by (simp add: removeDownload_def Let_def)
  show n: "downloadId \<notin> set (downloads (snd (removeDownload downloadId s)))"
    using g by (simp add: removeDownload_def Let_def dlDelete_def)
  show "dlGet (snd (removeDownload downloadId s)) downloadId = None"
    using n by (simp add: dlGet_def)
  show "snd (removeDownload downloadId s) = dlDelete downloadId s"
    if "d_status (d_info m) \<noteq> DlDownloading"
    using g that by (simp add: removeDownload_def Let_def)
  show "fst (cancel downloadId s) = True" if "d_status (d_info m) = DlDownloading"
    using cancel_downloading [OF g that] by simp
  show "snd (removeDownload downloadId s) = dlDelete downloadId (snd (cancel downloadId s))"
    if "d_status (d_info m) = DlDownloading"
    using g that by (simp add: removeDownload_def Let_def)
  show "d_objects (snd (removeDownload downloadId s)) downloadId =
          Some (m \<lparr> abortController := map_option (\<lambda>a. True) (abortController m),
                    childProcess := map_option (\<lambda>sigs. sigs @ [SIGTERM]) (childProcess m) \<rparr>)"
    if "d_status (d_info m) = DlDownloading"
    using g that
    by (simp add: removeDownload_def Let_def cancel_downloading [OF g that] dlDelete_def
        dlSetObject_def)
qed

lemma ex_url_state_1:
  "d_objects ex_url ''d1'' =
     Some \<lparr> d_info = \<lparr> d_id = ''d1'', d_name = ''m'', filename = ''x.gguf'',
                       source = UrlSource ''https://h/x.gguf'', d_status = DlDownloading,
                       progress = \<lparr> downloaded = 0, total = 0, percent = 0,
                                    speed = None, eta = None \<rparr>,
                       d_startedAt = 1000, completedAt = None, d_error = None \<rparr>,
            abortController = Some False, childProcess = None,
            startTime = 1000, lastUpdate = 1000 \<rparr>"
  by (simp add: ex_url_def downloadFromUrl_def dm_init_def Let_def newDownload_def
      dl_updateStatus_def dlGet_def dlSet_def dlSetObject_def dl_emitEvent_def)

lemma ex_url_state_2: "downloads ex_url = [''d1'']"
  by (simp add: ex_url_def downloadFromUrl_def dm_init_def Let_def newDownload_def
      dl_updateStatus_def dlGet_def dlSet_def dlSetObject_def dl_emitEvent_def)

lemma ex_url_state_3: "d_events ex_url = [DlStatusEvent ''d1'' 1000 DlDownloading None]"
  by (simp add: ex_url_def downloadFromUrl_def dm_init_def Let_def newDownload_def
      dl_updateStatus_def dlGet_def dlSet_def dlSetObject_def dl_emitEvent_def)

lemmas ex_url_state = ex_url_state_1 ex_url_state_2 ex_url_state_3

lemma ex_url_dlGet:
  "dlGet ex_url ''d1'' =
     Some \<lparr> d_info = \<lparr> d_id = ''d1'', d_name = ''m'', filename = ''x.gguf'',
                       source = UrlSource ''https://h/x.gguf'', d_status = DlDownloading,
                       progress = \<lparr> downloaded = 0, total = 0, percent = 0,
                                    speed = None, eta = None \<rparr>,
                       d_startedAt = 1000, completedAt = None, d_error = None \<rparr>,
            abortController = Some False, childProcess = None,
            startTime = 1000, lastUpdate = 1000 \<rparr>"
  by (simp add: dlGet_def ex_url_state)

lemma ex_hf_state_1:
  "d_objects ex_hf ''d2'' =
     Some \<lparr> d_info = \<lparr> d_id = ''d2'', d_name = ''m'', filename = ''m.gguf'',
                       source = HuggingFaceSource ''org/repo'' ''m.gguf'' None,
                       d_status = DlDownloading,
                       progress = \<lparr> downloaded = 0, total = 0, percent = 0,
                                    speed = None, eta = None \<rparr>,
                       d_startedAt = 1000, completedAt = None, d_error = None \<rparr>,
            abortController = None, childProcess = Some [],
            startTime = 1000, lastUpdate = 1000 \<rparr>"
  by (simp add: ex_hf_def downloadFromHuggingFace_def dm_init_def Let_def newDownload_def
      dl_updateStatus_def dlGet_def dlSet_def dlSetObject_def dl_emitEvent_def)

lemma ex_hf_state_2: "downloads ex_hf = [''d2'']"
  by (simp add: ex_hf_def downloadFromHuggingFace_def dm_init_def Let_def newDownload_def
      dl_updateStatus_def dlGet_def dlSet_def dlSetObject_def dl_emitEvent_def)

lemma ex_hf_state_3: "lastProgressUpdate ex_hf ''d2'' = 1000"
  by (simp add: ex_hf_def downloadFromHuggingFace_def dm_init_def Let_def newDownload_def
      dl_updateStatus_def dlGet_def dlSet_def dlSetObject_def dl_emitEvent_def)

lemma ex_hf_state_4: "files ex_hf = {}"
  by (simp add: ex_hf_def downloadFromHuggingFace_def dm_init_def Let_def newDownload_def
      dl_updateStatus_def dlGet_def dlSet_def dlSetObject_def dl_emitEvent_def)

lemmas ex_hf_state = ex_hf_state_1 ex_hf_state_2 ex_hf_state_3 ex_hf_state_4

lemma ex_hf_dlGet:
  "dlGet ex_hf ''d2'' =
     Some \<lparr> d_info = \<lparr> d_id = ''d2'', d_name = ''m'', filename = ''m.gguf'',
                       source = HuggingFaceSource ''org/repo'' ''m.gguf'' None,
                       d_status = DlDownloading,
                       progress = \<lparr> downloaded = 0, total = 0, percent = 0,
                                    speed = None, eta = None \<rparr>,
                       d_startedAt = 1000, completedAt = None, d_error = None \<rparr>,
            abortController = None, childProcess = Some [],
            startTime = 1000, lastUpdate = 1000 \<rparr>"
  by (simp add: dlGet_def ex_hf_state)

lemma ex_hf_cancelled_dlGet:
  "fst (cancel ''d2'' ex_hf) = True"
  "dlGet ex_hf_cancelled ''d2'' =
     Some \<lparr> d_info = \<lparr> d_id = ''d2'', d_name = ''m'', filename = ''m.gguf'',
                       source = HuggingFaceSource ''org/repo'' ''m.gguf'' None,
                       d_status = DlDownloading,
                       progress = \<lparr> downloaded = 0, total = 0, percent = 0,
                                    speed = None, eta = None \<rparr>,
                       d_startedAt = 1000, completedAt = None, d_error = None \<rparr>,
            abortController = None, childProcess = Some [SIGTERM],
            startTime = 1000, lastUpdate = 1000 \<rparr>"
  using cancel_dlGet [OF ex_hf_dlGet] cancel_downloading [OF ex_hf_dlGet]
  by (simp_all add: ex_hf_cancelled_def)

lemma ex_hf_closed:
  "hfOnClose ''d2'' (Some 1) ''models/m.gguf'' ''models/m.gguf'' 0 ''Terminated'' ex_hf_cancelled =
     (Inl \<lparr> err_name = ''Error'',
            err_message = ''hf download failed with code 1: Terminated'' \<rparr>,
      dlSetObject ''d2''
        (\<lparr> d_info = \<lparr> d_id = ''d2'', d_name = ''m'', filename = ''m.gguf'',
                       source = HuggingFaceSource ''org/repo'' ''m.gguf'' None,
                       d_status = DlDownloading,
                       progress = \<lparr> downloaded = 0, total = 0, percent = 0,
                                    speed = None, eta = None \<rparr>,
                       d_startedAt = 1000, completedAt = None, d_error = None \<rparr>,
            abortController = None, childProcess = None,
            startTime = 1000, lastUpdate = 1000 \<rparr>) ex_hf_cancelled)"
  using dlGet_objects [OF ex_hf_cancelled_dlGet(2)]
  by (simp add: hfOnClose_def Let_def show_code_def digit_char_def)

lemma ex_hf_settled_dlGet:
  "dlGet ex_hf_settled ''d2'' =
     Some \<lparr> d_info = \<lparr> d_id = ''d2'', d_name = ''m'', filename = ''m.gguf'',
                       source = HuggingFaceSource ''org/repo'' ''m.gguf'' None,
                       d_status = DlError,
                       progress = \<lparr> downloaded = 0, total = 0, percent = 0,
                                    speed = None, eta = None \<rparr>,
                       d_startedAt = 1000, completedAt = Some 2000,
                       d_error = Some ''hf download failed with code 1: Terminated'' \<rparr>,
            abortController = None, childProcess = None,
            startTime = 1000, lastUpdate = 1000 \<rparr>"
proof -
  let ?m = "\<lparr> d_info = \<lparr> d_id = ''d2'', d_name = ''m'', filename = ''m.gguf'',
                       source = HuggingFaceSource ''org/repo'' ''m.gguf'' None,
                       d_status = DlDownloading,
                       progress = \<lparr> downloaded = 0, total = 0, percent = 0,
                                    speed = None, eta = None \<rparr>,
                       d_startedAt = 1000, completedAt = None, d_error = None \<rparr>,
            abortController = None, childProcess = None,
            startTime = 1000, lastUpdate = 1000 \<rparr>"
  let ?s = "dlSetObject ''d2'' ?m ex_hf_cancelled"
  have k: "''d2'' \<in> set (downloads ex_hf_cancelled)"
    using dlGet_objects [OF ex_hf_cancelled_dlGet(2)] by simp
  have c: "dlGet (cleanupPartial ''models/m.gguf'' ?s) ''d2'' = Some ?m"
    using k by (simp add: dlGet_def)
  show ?thesis
    unfolding ex_hf_settled_def ex_hf_closed
    by (simp add: downloadFromHuggingFace_catch_def Let_def
        dlGet_def dl_updateStatus_objects [OF c] dl_updateStatus_other k)
qed

theorem removeDownload_never_rejects_witness:
  "dlGet ex_url ''zz'' = None
   \<and> removeDownload ''zz'' ex_url = (False, ex_url)
   \<and> dlGet ex_url ''d1'' \<noteq> None
   \<and> dl_statusOf ex_url ''d1'' = Some DlDownloading
   \<and> fst (removeDownload ''d1'' ex_url) = True
   \<and> fst (cancel ''d1'' ex_url) = True
   \<and> dlGet (snd (removeDownload ''d1'' ex_url)) ''d1'' = None
   \<and> map_option abortController (d_objects (snd (removeDownload ''d1'' ex_url)) ''d1'') = Some (Some True)
   \<and> dl_statusOf ex_hf_settled ''d2'' = Some DlError
   \<and> fst (removeDownload ''d2'' ex_hf_settled) = True
   \<and> dlGet (snd (removeDownload ''d2'' ex_hf_settled)) ''d2'' = None"
proof -
  have z: "dlGet ex_url ''zz'' = None"
    by (simp add: dlGet_def ex_url_state)
  have a: "removeDownload ''zz'' ex_url = (False, ex_url)"
    using removeDownload_never_rejects [of ex_url "''zz''"] z by blast
  have b: "fst (removeDownload ''d1'' ex_url) = True
      \<and> dlGet (snd (removeDownload ''d1'' ex_url)) ''d1'' = None
      \<and> fst (cancel ''d1'' ex_url) = True
      \<and> map_option abortController (d_objects (snd (removeDownload ''d1'' ex_url)) ''d1'')
          = Some (Some True)"
  proof -
    from removeDownload_never_rejects [of ex_url "''d1''"] ex_url_dlGet
    have "fst (removeDownload ''d1'' ex_url) = True"
      "dlGet (snd (removeDownload ''d1'' ex_url)) ''d1'' = None"
      "fst (cancel ''d1'' ex_url) = True"
      "d_objects (snd (removeDownload ''d1'' ex_url)) ''d1'' =
         Some ((the (dlGet ex_url ''d1''))
           \<lparr> abortController := map_option (\<lambda>a. True) (abortController (the (dlGet ex_url ''d1''))),
             childProcess := map_option (\<lambda>sigs. sigs @ [SIGTERM])
                               (childProcess (the (dlGet ex_url ''d1''))) \<rparr>)"
      by auto
    then show ?thesis by (simp add: ex_url_dlGet)
  qed
  have c: "fst (removeDownload ''d2'' ex_hf_settled) = True
      \<and> dlGet (snd (removeDownload ''d2'' ex_hf_settled)) ''d2'' = None"
    using removeDownload_never_rejects [of ex_hf_settled "''d2''"] ex_hf_settled_dlGet
    by blast
  have d: "dl_statusOf ex_url ''d1'' = Some DlDownloading"
      "dl_statusOf ex_hf_settled ''d2'' = Some DlError"
    using dlGet_objects [OF ex_hf_settled_dlGet] by (simp_all add: dl_statusOf_def ex_url_state)
  from z a b c d show ?thesis
    by (simp add: ex_url_dlGet)
qed

lemma cleanupPartial_dlGet [simp]: "dlGet (cleanupPartial p s) k = dlGet s k"
  by (simp add: dlGet_def)

lemma cleanupPartial_files: "p \<notin> locked s \<Longrightarrow> p \<notin> files (cleanupPartial p s)"
  by (simp add: cleanupPartial_def)

lemma dl_errorOf_updateStatus:
  "dlGet s k = Some m \<Longrightarrow> msg \<noteq> [] \<Longrightarrow>
     dl_errorOf (dl_updateStatus now k st (Some msg) s) k = Some msg"
  by (simp add: dl_errorOf_def dl_updateStatus_objects)

lemma catch_status:
  assumes "dlGet s k = Some m"
  shows "dl_statusOf (downloadFromUrl_catch now k p e s) k =
           Some (if err_name e = ''AbortError'' then DlCancelled else DlError)"
    and "dl_statusOf (downloadFromS3_catch now k p e s) k =
           Some (if err_name e = ''AbortError'' then DlCancelled else DlError)"
    and "dl_statusOf (downloadFromHuggingFace_catch now k p e s) k =
           Some (if err_message e = ''Download cancelled'' then DlCancelled else DlError)"
proof -
  have g: "dlGet (cleanupPartial p s) k = Some m"
    using assms by simp
  show "dl_statusOf (downloadFromUrl_catch now k p e s) k =
           Some (if err_name e = ''AbortError'' then DlCancelled else DlError)"
    by (simp add: downloadFromUrl_catch_def Let_def dl_statusOf_updateStatus [OF g])
  show "dl_statusOf (downloadFromS3_catch now k p e s) k =
           Some (if err_name e = ''AbortError'' then DlCancelled else DlError)"
    by (simp add: downloadFromS3_catch_def Let_def dl_statusOf_updateStatus [OF g])
  show "dl_statusOf (downloadFromHuggingFace_catch now k p e s) k =
           Some (if err_message e = ''Download cancelled'' then DlCancelled else DlError)"
    by (simp add: downloadFromHuggingFace_catch_def Let_def dl_statusOf_updateStatus [OF g])
qed

lemma catch_files:
  assumes "p \<notin> locked s"
  shows "p \<notin> files (downloadFromUrl_catch now k p e s)"
    and "p \<notin> files (downloadFromS3_catch now k p e s)"
    and "p \<notin> files (downloadFromHuggingFace_catch now k p e s)"
  using cleanupPartial_files [OF assms]
  by (simp_all add: downloadFromUrl_catch_def downloadFromS3_catch_def
      downloadFromHuggingFace_catch_def Let_def dl_updateStatus_other)

lemma catch_error:
  assumes "dlGet s k = Some m" "err_message e \<noteq> []"
  shows "err_name e \<noteq> ''AbortError'' \<Longrightarrow>
           dl_errorOf (downloadFromUrl_catch now k p e s) k = Some (err_message e)"
    and "err_name e \<noteq> ''AbortError'' \<Longrightarrow>
           dl_errorOf (downloadFromS3_catch now k p e s) k = Some (err_message e)"
    and "err_message e \<noteq> ''Download cancelled'' \<Longrightarrow>
           dl_errorOf (downloadFromHuggingFace_catch now k p e s) k = Some (err_message e)"
proof -
  have g: "dlGet (cleanupPartial p s) k = Some m"
    using assms by simp
  show "err_name e \<noteq> ''AbortError'' \<Longrightarrow>
           dl_errorOf (downloadFromUrl_catch now k p e s) k = Some (err_message e)"
    by (simp add: downloadFromUrl_catch_def Let_def dl_errorOf_updateStatus [OF g assms(2)])
  show "err_name e \<noteq> ''AbortError'' \<Longrightarrow>
           dl_errorOf (downloadFromS3_catch now k p e s) k = Some (err_message e)"
    by (simp add: downloadFromS3_catch_def Let_def dl_errorOf_updateStatus [OF g assms(2)])
  show "err_message e \<noteq> ''Download cancelled'' \<Longrightarrow>
           dl_errorOf (downloadFromHuggingFace_catch now k p e s) k = Some (err_message e)"
    by (simp add: downloadFromHuggingFace_catch_def Let_def dl_errorOf_updateStatus [OF g assms(2)])
qed

lemma hfOnClose_null:
  "fst (hfOnClose k None p dp sz errText s) =
     Inl \<lparr> err_name = ''Error'', err_message = ''Download cancelled'' \<rparr>"
  by (simp add: hfOnClose_def Let_def)

lemma cancel_locked [simp]: "locked (snd (cancel k s)) = locked s"
  by (simp add: cancel_def split: option.splits)

text \<open>
  What \<open>cancel\<close> and the three \<open>catch\<close> handlers do on a record in \<open>downloading\<close>: the
  handlers delete the destination file unless its unlink fails, and they write \<open>cancelled\<close>
  for the rejection they recognise as the abort and \<open>error\<close>, with the message, for any
  other one.
\<close>

lemma cancel_and_catch_handlers:
  assumes "dlGet s downloadId = Some m" and "d_status (d_info m) = DlDownloading"
  shows "fst (cancel downloadId s) = True
       \<and> dl_statusOf (snd (cancel downloadId s)) downloadId = Some DlDownloading
       \<and> d_objects (snd (cancel downloadId s)) downloadId =
            Some (m \<lparr> abortController := map_option (\<lambda>a. True) (abortController m),
                      childProcess := map_option (\<lambda>sigs. sigs @ [SIGTERM]) (childProcess m) \<rparr>)
       \<and> fst (hfOnClose downloadId None destPath downloadedPath fileSize errText
                 (snd (cancel downloadId s))) =
            Inl \<lparr> err_name = ''Error'', err_message = ''Download cancelled'' \<rparr>
       \<and> (\<forall>s' \<in> {s, snd (cancel downloadId s)}.
            dl_statusOf (downloadFromUrl_catch now downloadId destPath e s') downloadId =
              Some (if err_name e = ''AbortError'' then DlCancelled else DlError)
          \<and> dl_statusOf (downloadFromS3_catch now downloadId destPath e s') downloadId =
              Some (if err_name e = ''AbortError'' then DlCancelled else DlError)
          \<and> dl_statusOf (downloadFromHuggingFace_catch now downloadId destPath e s') downloadId =
              Some (if err_message e = ''Download cancelled'' then DlCancelled else DlError)
          \<and> (err_message e \<noteq> [] \<and> err_name e \<noteq> ''AbortError'' \<longrightarrow>
               dl_errorOf (downloadFromUrl_catch now downloadId destPath e s') downloadId =
                 Some (err_message e)
               \<and> dl_errorOf (downloadFromS3_catch now downloadId destPath e s') downloadId =
                 Some (err_message e))
          \<and> (err_message e \<noteq> [] \<and> err_message e \<noteq> ''Download cancelled'' \<longrightarrow>
               dl_errorOf (downloadFromHuggingFace_catch now downloadId destPath e s') downloadId =
                 Some (err_message e))
          \<and> (destPath \<notin> locked s' \<longrightarrow>
               destPath \<notin> files (downloadFromUrl_catch now downloadId destPath e s')
               \<and> destPath \<notin> files (downloadFromS3_catch now downloadId destPath e s')
               \<and> destPath \<notin> files (downloadFromHuggingFace_catch now downloadId destPath e s')))"
proof -
  let ?c = "snd (cancel downloadId s)"
  let ?m' = "m \<lparr> abortController := map_option (\<lambda>a. True) (abortController m),
                 childProcess := map_option (\<lambda>sigs. sigs @ [SIGTERM]) (childProcess m) \<rparr>"
  have g': "dlGet ?c downloadId = Some ?m'"
    by (rule cancel_dlGet [OF assms])
  have a: "fst (cancel downloadId s) = True"
    by (simp add: cancel_downloading [OF assms])
  have b: "dl_statusOf ?c downloadId = Some DlDownloading"
    using dlGet_objects [OF g'] assms(2) by (simp add: dl_statusOf_def)
  have c: "d_objects ?c downloadId = Some ?m'"
    using dlGet_objects [OF g'] by simp
  have h: "
            dl_statusOf (downloadFromUrl_catch now downloadId destPath e s') downloadId =
              Some (if err_name e = ''AbortError'' then DlCancelled else DlError)
          \<and> dl_statusOf (downloadFromS3_catch now downloadId destPath e s') downloadId =
              Some (if err_name e = ''AbortError'' then DlCancelled else DlError)
          \<and> dl_statusOf (downloadFromHuggingFace_catch now downloadId destPath e s') downloadId =
              Some (if err_message e = ''Download cancelled'' then DlCancelled else DlError)
          \<and> (err_message e \<noteq> [] \<and> err_name e \<noteq> ''AbortError'' \<longrightarrow>
               dl_errorOf (downloadFromUrl_catch now downloadId destPath e s') downloadId =
                 Some (err_message e)
               \<and> dl_errorOf (downloadFromS3_catch now downloadId destPath e s') downloadId =
                 Some (err_message e))
          \<and> (err_message e \<noteq> [] \<and> err_message e \<noteq> ''Download cancelled'' \<longrightarrow>
               dl_errorOf (downloadFromHuggingFace_catch now downloadId destPath e s') downloadId =
                 Some (err_message e))
          \<and> (destPath \<notin> locked s' \<longrightarrow>
               destPath \<notin> files (downloadFromUrl_catch now downloadId destPath e s')
               \<and> destPath \<notin> files (downloadFromS3_catch now downloadId destPath e s')
               \<and> destPath \<notin> files (downloadFromHuggingFace_catch now downloadId destPath e s'))"
    if g: "dlGet s' downloadId = Some m'" for s' m'
    using catch_status [OF g, where now = now and p = destPath and e = e]
      catch_error [OF g, where now = now and p = destPath and e = e]
      catch_files [where now = now and p = destPath and e = e and s = s' and k = downloadId]
    by auto
  from a b c hfOnClose_null h [OF assms(1)] h [OF g'] show ?thesis
    by blast
qed

lemma ex_url_locked: "locked ex_url = {}"
  by (simp add: ex_url_def downloadFromUrl_def dm_init_def Let_def newDownload_def
      dl_updateStatus_def dlGet_def dlSet_def dlSetObject_def dl_emitEvent_def)

lemma ex_url_files: "files ex_url = {}" "locked ex_url = {}"
  by (simp_all add: ex_url_def downloadFromUrl_def dm_init_def Let_def newDownload_def
      dl_updateStatus_def dlGet_def dlSet_def dlSetObject_def dl_emitEvent_def)

lemma ex_url_started_state:
  "d_objects ex_url_started ''d1'' =
     Some \<lparr> d_info = \<lparr> d_id = ''d1'', d_name = ''m'', filename = ''x.gguf'',
                       source = UrlSource ''https://h/x.gguf'', d_status = DlDownloading,
                       progress = \<lparr> downloaded = 0, total = 100, percent = 0,
                                    speed = None, eta = None \<rparr>,
                       d_startedAt = 1000, completedAt = None, d_error = None \<rparr>,
            abortController = Some False, childProcess = None,
            startTime = 1000, lastUpdate = 1000 \<rparr>"
  "downloads ex_url_started = [''d1'']"
  "d_events ex_url_started = [DlStatusEvent ''d1'' 1000 DlDownloading None]"
  "files ex_url_started = {''models/x.gguf''}"
  "locked ex_url_started = {}"
  by (simp_all add: ex_url_started_def performUrlDownload_start_def ex_response_def
      ex_url_dlGet ex_url_state ex_url_files Let_def)

lemma ex_url_read_state:
  "d_objects ex_url_read ''d1'' =
     Some \<lparr> d_info = \<lparr> d_id = ''d1'', d_name = ''m'', filename = ''x.gguf'',
                       source = UrlSource ''https://h/x.gguf'', d_status = DlDownloading,
                       progress = \<lparr> downloaded = 10, total = 100, percent = 10,
                                    speed = Some 200, eta = Some (9 / 20) \<rparr>,
                       d_startedAt = 1000, completedAt = None, d_error = None \<rparr>,
            abortController = Some False, childProcess = None,
            startTime = 1000, lastUpdate = 1000 \<rparr>"
  "downloads ex_url_read = [''d1'']"
  "d_events ex_url_read = [DlStatusEvent ''d1'' 1000 DlDownloading None]"
  "files ex_url_read = {''models/x.gguf''}"
  "locked ex_url_read = {}"
  by (simp_all add: ex_url_read_def updateProgress_def dlGet_def ex_url_started_state Let_def)

lemma ex_url_read_dlGet:
  "dlGet ex_url_read ''d1'' =
     Some \<lparr> d_info = \<lparr> d_id = ''d1'', d_name = ''m'', filename = ''x.gguf'',
                       source = UrlSource ''https://h/x.gguf'', d_status = DlDownloading,
                       progress = \<lparr> downloaded = 10, total = 100, percent = 10,
                                    speed = Some 200, eta = Some (9 / 20) \<rparr>,
                       d_startedAt = 1000, completedAt = None, d_error = None \<rparr>,
            abortController = Some False, childProcess = None,
            startTime = 1000, lastUpdate = 1000 \<rparr>"
  by (simp add: dlGet_def ex_url_read_state)

lemma ex_url_cancelled_state:
  "fst (cancel ''d1'' ex_url_read) = True"
  "map_option abortController (d_objects (snd (cancel ''d1'' ex_url_read)) ''d1'') = Some (Some True)"
  "dl_statusOf (snd (cancel ''d1'' ex_url_read)) ''d1'' = Some DlDownloading"
  "dl_statusOf ex_url_cancelled ''d1'' = Some DlError"
  "dl_errorOf ex_url_cancelled ''d1'' = Some ''Premature close''"
  "files ex_url_cancelled = {}"
proof -
  note c = cancel_downloading [OF ex_url_read_dlGet, simplified]
  have g: "dlGet (snd (cancel ''d1'' ex_url_read)) ''d1'' \<noteq> None"
    using cancel_dlGet [OF ex_url_read_dlGet] by simp
  then obtain m where m: "dlGet (snd (cancel ''d1'' ex_url_read)) ''d1'' = Some m"
    by blast
  show "fst (cancel ''d1'' ex_url_read) = True"
    by (simp add: c)
  show "map_option abortController (d_objects (snd (cancel ''d1'' ex_url_read)) ''d1'') = Some (Some True)"
    by (simp add: c)
  show "dl_statusOf (snd (cancel ''d1'' ex_url_read)) ''d1'' = Some DlDownloading"
    by (simp add: c dl_statusOf_def)
  show "dl_statusOf ex_url_cancelled ''d1'' = Some DlError"
    unfolding ex_url_cancelled_def using catch_status(1) [OF m] by simp
  show "dl_errorOf ex_url_cancelled ''d1'' = Some ''Premature close''"
    unfolding ex_url_cancelled_def using catch_error(1) [OF m] by simp
  show "files ex_url_cancelled = {}"
    by (simp add: ex_url_cancelled_def downloadFromUrl_catch_def Let_def dl_updateStatus_other
        cleanupPartial_def c ex_url_read_state)
qed

text \<open>
  C4 fails in the code. The repository download of the run is cancelled while it is in
  \<open>downloading\<close> (\<open>cancel\<close> returns \<open>true\<close>); its \<open>hf\<close> process then closes with exit code
  1, the promise is rejected with the failure message, and the record ends in \<open>error\<close> with
  that message, not in \<open>cancelled\<close>. The URL download of the run is cancelled after its
  first chunk; the rejection of \<open>pipeline\<close> is not named \<open>AbortError\<close>, and the record ends
  in \<open>error\<close> as well, the partial file deleted.
\<close>

theorem cancel_then_rejection_ends_in_error:
  "dl_statusOf ex_hf ''d2'' = Some DlDownloading
   \<and> fst (cancel ''d2'' ex_hf) = True
   \<and> fst (hfOnClose ''d2'' (Some 1) ''models/m.gguf'' ''models/m.gguf'' 0 ''Terminated''
            ex_hf_cancelled) =
       Inl \<lparr> err_name = ''Error'',
              err_message = ''hf download failed with code 1: Terminated'' \<rparr>
   \<and> dl_statusOf ex_hf_settled ''d2'' = Some DlError
   \<and> dl_errorOf ex_hf_settled ''d2'' = Some ''hf download failed with code 1: Terminated''
   \<and> dl_statusOf ex_url_read ''d1'' = Some DlDownloading
   \<and> fst (cancel ''d1'' ex_url_read) = True
   \<and> map_option abortController (d_objects (snd (cancel ''d1'' ex_url_read)) ''d1'') =
       Some (Some True)
   \<and> dl_statusOf ex_url_cancelled ''d1'' = Some DlError
   \<and> dl_errorOf ex_url_cancelled ''d1'' = Some ''Premature close''
   \<and> ''models/x.gguf'' \<in> files ex_url_read
   \<and> ''models/x.gguf'' \<notin> files ex_url_cancelled"
proof -
  have a: "dl_statusOf ex_hf ''d2'' = Some DlDownloading"
    by (simp add: dl_statusOf_def ex_hf_state)
  have b: "dl_statusOf ex_hf_settled ''d2'' = Some DlError"
    "dl_errorOf ex_hf_settled ''d2'' = Some ''hf download failed with code 1: Terminated''"
    using dlGet_objects [OF ex_hf_settled_dlGet] by (simp_all add: dl_statusOf_def dl_errorOf_def)
  have c: "dl_statusOf ex_url_read ''d1'' = Some DlDownloading"
    by (simp add: dl_statusOf_def ex_url_read_state)
  show ?thesis
    by (simp add: a b c ex_hf_cancelled_dlGet(1) ex_hf_closed ex_url_cancelled_state
        ex_url_read_state)
qed

lemma ex_hf_partial_dlGet:
  "dlGet ex_hf_partial ''d2'' = dlGet ex_hf ''d2''"
  "files ex_hf_partial = {''models/m.gguf''}"
  "locked ex_hf_partial = {}"
  by (simp_all add: ex_hf_partial_def dlGet_def ex_hf_def downloadFromHuggingFace_def
      dm_init_def Let_def newDownload_def dl_updateStatus_def dlSet_def dlSetObject_def
      dl_emitEvent_def)

lemma cancel_and_catch_handlers_example:
  "dlGet ex_hf_partial ''d2'' \<noteq> None
   \<and> dl_statusOf ex_hf_partial ''d2'' = Some DlDownloading
   \<and> ''models/m.gguf'' \<in> files ex_hf_partial
   \<and> ''models/m.gguf'' \<notin> locked ex_hf_partial
   \<and> fst (cancel ''d2'' ex_hf_partial) = True
   \<and> dl_statusOf (snd (cancel ''d2'' ex_hf_partial)) ''d2'' = Some DlDownloading
   \<and> dl_statusOf (downloadFromHuggingFace_catch 2000 ''d2'' ''models/m.gguf''
         \<lparr> err_name = ''Error'', err_message = ''Download cancelled'' \<rparr>
         (snd (cancel ''d2'' ex_hf_partial))) ''d2'' = Some DlCancelled
   \<and> ''models/m.gguf'' \<notin> files (downloadFromHuggingFace_catch 2000 ''d2'' ''models/m.gguf''
         \<lparr> err_name = ''Error'', err_message = ''Download cancelled'' \<rparr>
         (snd (cancel ''d2'' ex_hf_partial)))
   \<and> dlGet ex_url ''d1'' \<noteq> None
   \<and> dl_statusOf (downloadFromUrl_catch 2000 ''d1'' ''models/x.gguf''
         \<lparr> err_name = ''TypeError'', err_message = ''fetch failed'' \<rparr> ex_url) ''d1'' = Some DlError
   \<and> dl_errorOf (downloadFromUrl_catch 2000 ''d1'' ''models/x.gguf''
         \<lparr> err_name = ''TypeError'', err_message = ''fetch failed'' \<rparr> ex_url) ''d1''
        = Some ''fetch failed''"
proof -
  have g: "dlGet ex_hf_partial ''d2'' =
     Some \<lparr> d_info = \<lparr> d_id = ''d2'', d_name = ''m'', filename = ''m.gguf'',
                       source = HuggingFaceSource ''org/repo'' ''m.gguf'' None,
                       d_status = DlDownloading,
                       progress = \<lparr> downloaded = 0, total = 0, percent = 0,
                                    speed = None, eta = None \<rparr>,
                       d_startedAt = 1000, completedAt = None, d_error = None \<rparr>,
            abortController = None, childProcess = Some [],
            startTime = 1000, lastUpdate = 1000 \<rparr>"
    by (simp add: ex_hf_partial_dlGet ex_hf_dlGet)
  have st: "dl_statusOf ex_hf_partial ''d2'' = Some DlDownloading"
    using dlGet_objects [OF g] by (simp add: dl_statusOf_def)
  from cancel_and_catch_handlers [OF g, where now = 2000
      and destPath = "''models/m.gguf''"
      and e = "\<lparr> err_name = ''Error'', err_message = ''Download cancelled'' \<rparr>"]
  have a: "fst (cancel ''d2'' ex_hf_partial) = True
   \<and> dl_statusOf (snd (cancel ''d2'' ex_hf_partial)) ''d2'' = Some DlDownloading
   \<and> dl_statusOf (downloadFromHuggingFace_catch 2000 ''d2'' ''models/m.gguf''
         \<lparr> err_name = ''Error'', err_message = ''Download cancelled'' \<rparr>
         (snd (cancel ''d2'' ex_hf_partial))) ''d2'' = Some DlCancelled
   \<and> ''models/m.gguf'' \<notin> files (downloadFromHuggingFace_catch 2000 ''d2'' ''models/m.gguf''
         \<lparr> err_name = ''Error'', err_message = ''Download cancelled'' \<rparr>
         (snd (cancel ''d2'' ex_hf_partial)))"
    by (simp add: ex_hf_partial_dlGet)
  from cancel_and_catch_handlers [OF ex_url_dlGet, where now = 2000
      and destPath = "''models/x.gguf''"
      and e = "\<lparr> err_name = ''TypeError'', err_message = ''fetch failed'' \<rparr>"]
  have b: "dl_statusOf (downloadFromUrl_catch 2000 ''d1'' ''models/x.gguf''
         \<lparr> err_name = ''TypeError'', err_message = ''fetch failed'' \<rparr> ex_url) ''d1'' = Some DlError
   \<and> dl_errorOf (downloadFromUrl_catch 2000 ''d1'' ''models/x.gguf''
         \<lparr> err_name = ''TypeError'', err_message = ''fetch failed'' \<rparr> ex_url) ''d1''
        = Some ''fetch failed''"
    by simp
  from g st a b show ?thesis
    by (simp add: ex_hf_partial_dlGet ex_url_dlGet)
qed

lemma updateProgress_dlGet:
  assumes "dlGet s k = Some m"
  shows "\<exists>p. dlGet (updateProgress now k dl tot s) k =
            Some (m \<lparr> d_info := (d_info m) \<lparr> progress := p \<rparr>,
                      lastUpdate := (if now - lastUpdate m \<ge> 100 then now else lastUpdate m) \<rparr>)
          \<and> downloaded p = dl \<and> total p = tot
          \<and> percent p = (if tot > 0 then dl / tot * 100 else 0)
          \<and> d_events (updateProgress now k dl tot s) =
              d_events s @ (if now - lastUpdate m \<ge> 100 then [DlProgressEvent k now p] else [])"
proof -
  let ?elapsed = "(of_int now - of_int (startTime m)) / (1000 :: real)"
  let ?spd = "if ?elapsed > 0 then dl / ?elapsed else 0"
  let ?p = "\<lparr> downloaded = dl, total = tot,
              percent = (if tot > 0 then (dl / tot) * 100 else 0),
              speed = Some ?spd,
              eta = Some (if ?spd > 0 then (tot - dl) / ?spd else 0) \<rparr>"
  have u: "updateProgress now k dl tot s =
      (if now - lastUpdate m \<ge> 100
       then dl_emitEvent (DlProgressEvent k now ?p)
              (dlSetObject k (m \<lparr> d_info := (d_info m) \<lparr> progress := ?p \<rparr>, lastUpdate := now \<rparr>) s)
       else dlSetObject k (m \<lparr> d_info := (d_info m) \<lparr> progress := ?p \<rparr> \<rparr>) s)"
    using assms unfolding updateProgress_def Let_def by simp
  have k: "k \<in> set (downloads s)"
    using dlGet_objects [OF assms] by simp
  have "dlGet (updateProgress now k dl tot s) k =
            Some (m \<lparr> d_info := (d_info m) \<lparr> progress := ?p \<rparr>,
                      lastUpdate := (if now - lastUpdate m \<ge> 100 then now else lastUpdate m) \<rparr>)
          \<and> downloaded ?p = dl \<and> total ?p = tot
          \<and> percent ?p = (if tot > 0 then dl / tot * 100 else 0)
          \<and> d_events (updateProgress now k dl tot s) =
              d_events s @ (if now - lastUpdate m \<ge> 100 then [DlProgressEvent k now ?p] else [])"
    unfolding u using k by (simp add: dlGet_def dl_emitEvent_def)
  then show ?thesis by (rule exI [of _ ?p])
qed

lemma progressTimes_append:
  "progressTimes k (xs @ ys) = progressTimes k xs @ progressTimes k ys"
  by (induction k xs rule: progressTimes.induct) simp_all

lemma readChunks_events:
  "dlGet s k = Some m \<Longrightarrow>
     \<exists>new. d_events (readChunks k cl d chunks s) = d_events s @ new
          \<and> spaced (lastUpdate m) (progressTimes k new)"
proof (induction chunks arbitrary: s m d)
  case Nil
  then show ?case by simp
next
  case (Cons c chunks)
  obtain now len where c: "c = (now, len)" by (cases c)
  let ?s1 = "updateProgress now k (d + len) cl s"
  let ?t = "if now - lastUpdate m \<ge> 100 then now else lastUpdate m"
  from updateProgress_dlGet [OF Cons.prems, of now "d + len" cl] obtain p where
    g1: "dlGet ?s1 k = Some (m \<lparr> d_info := (d_info m) \<lparr> progress := p \<rparr>, lastUpdate := ?t \<rparr>)"
    and e1: "d_events ?s1 = d_events s @ (if now - lastUpdate m \<ge> 100 then [DlProgressEvent k now p] else [])"
    by blast
  from Cons.IH [OF g1, of "d + len"] obtain new1 where
    n1: "d_events (readChunks k cl (d + len) chunks ?s1) = d_events ?s1 @ new1"
    and sp: "spaced ?t (progressTimes k new1)"
    by auto
  let ?new = "(if now - lastUpdate m \<ge> 100 then [DlProgressEvent k now p] else []) @ new1"
  have "d_events (readChunks k cl d (c # chunks) s) = d_events s @ ?new"
    using c n1 e1 by simp
  moreover have "spaced (lastUpdate m) (progressTimes k ?new)"
    using sp by (cases "now - lastUpdate m \<ge> 100") (simp_all add: progressTimes_append)
  ultimately show ?case by blast
qed

lemma hfOnData_skip:
  "now - lastProgressUpdate s k < 100 \<or> parsed = None \<Longrightarrow> hfOnData now k parsed s = s"
  by (auto simp: hfOnData_def split: option.splits)

lemma hfOnData_update:
  assumes "d_objects s k = Some m" "now - lastProgressUpdate s k \<ge> 100"
  shows "progressOf (hfOnData now k (Some (pct, dl, tot)) s) k =
           Some \<lparr> downloaded = dl, total = tot, percent = pct, speed = None, eta = None \<rparr>"
    and "d_events (hfOnData now k (Some (pct, dl, tot)) s) =
           d_events s @ [DlProgressEvent k now
              \<lparr> downloaded = dl, total = tot, percent = pct, speed = None, eta = None \<rparr>]"
    and "lastProgressUpdate (hfOnData now k (Some (pct, dl, tot)) s) k = now"
  using assms by (simp_all add: hfOnData_def progressOf_def Let_def dl_emitEvent_def)

lemma hfOnData_events':
  "\<exists>new. d_events (hfOnData now k parsed s) = d_events s @ new
        \<and> (\<forall>ts. spaced (lastProgressUpdate (hfOnData now k parsed s) k) ts \<longrightarrow>
               spaced (lastProgressUpdate s k) (progressTimes k new @ ts))"
  by (auto simp: hfOnData_def Let_def dl_emitEvent_def split: option.splits)

lemma hfChunks_events:
  "\<exists>new. d_events (hfChunks k outputs s) = d_events s @ new
        \<and> spaced (lastProgressUpdate s k) (progressTimes k new)"
proof (induction outputs arbitrary: s)
  case Nil
  then show ?case by simp
next
  case (Cons c outputs)
  obtain now parsed where c: "c = (now, parsed)" by (cases c)
  let ?s1 = "hfOnData now k parsed s"
  from hfOnData_events' [of now k parsed s] obtain new0 where
    e0: "d_events ?s1 = d_events s @ new0"
    and sp0: "\<And>ts. spaced (lastProgressUpdate ?s1 k) ts \<Longrightarrow>
               spaced (lastProgressUpdate s k) (progressTimes k new0 @ ts)"
    by blast
  from Cons.IH [of ?s1] obtain new1 where
    e1: "d_events (hfChunks k outputs ?s1) = d_events ?s1 @ new1"
    and sp1: "spaced (lastProgressUpdate ?s1 k) (progressTimes k new1)"
    by blast
  have "d_events (hfChunks k (c # outputs) s) = d_events s @ (new0 @ new1)"
    using c e0 e1 by simp
  moreover have "spaced (lastProgressUpdate s k) (progressTimes k (new0 @ new1))"
    using sp0 [OF sp1] by (simp add: progressTimes_append)
  ultimately show ?case by blast
qed

lemma readChunks_snoc:
  "readChunks k cl d (chunks @ [(now, len)]) s =
     updateProgress now k (d + sum_list (map snd chunks) + len) cl (readChunks k cl d chunks s)"
proof (induction chunks arbitrary: d s)
  case Nil
  show ?case by simp
next
  case (Cons c chunks)
  obtain t l where c: "c = (t, l)" by (cases c)
  show ?case
    unfolding c using Cons.IH [of "d + l" "updateProgress t k (d + l) cl s"]
    by (simp add: add.assoc)
qed

lemma updateProgress_keeps_key:
  "dlGet s k = Some m \<Longrightarrow> \<exists>m'. dlGet (updateProgress now k dl tot s) k = Some m'"
  using updateProgress_dlGet [of s k m now dl tot] by blast

lemma readChunks_keeps_key:
  "dlGet s k = Some m \<Longrightarrow> \<exists>m'. dlGet (readChunks k cl d chunks s) k = Some m'"
proof (induction chunks arbitrary: d s m)
  case Nil
  then show ?case by simp
next
  case (Cons c chunks)
  obtain t l where c: "c = (t, l)" by (cases c)
  from updateProgress_keeps_key [OF Cons.prems, of t "d + l" cl] obtain m1 where
    "dlGet (updateProgress t k (d + l) cl s) k = Some m1" by blast
  from Cons.IH [OF this, of "d + l"] show ?case
    unfolding c by simp
qed

text \<open>
  The read loop of a URL or S3 transfer writes every chunk into the record: after each
  chunk the record holds the bytes read so far and the total.
\<close>

lemma readChunks_progress:
  assumes "dlGet s k = Some m"
  shows "\<exists>p. progressOf (readChunks k cl d (chunks @ [(now, len)]) s) k = Some p
           \<and> downloaded p = d + sum_list (map snd chunks) + len \<and> total p = cl"
proof -
  from readChunks_keeps_key [OF assms, of cl d chunks] obtain m1 where
    g: "dlGet (readChunks k cl d chunks s) k = Some m1" by blast
  from updateProgress_dlGet [OF g, of now "d + sum_list (map snd chunks) + len" cl]
  obtain p where
    "dlGet (updateProgress now k (d + sum_list (map snd chunks) + len) cl
              (readChunks k cl d chunks s)) k =
       Some (m1 \<lparr> d_info := (d_info m1) \<lparr> progress := p \<rparr>,
                  lastUpdate := (if now - lastUpdate m1 \<ge> 100 then now else lastUpdate m1) \<rparr>)"
    and p: "downloaded p = d + sum_list (map snd chunks) + len" "total p = cl"
    by blast
  from dlGet_objects [OF this(1)] p show ?thesis
    unfolding readChunks_snoc by (simp add: progressOf_def)
qed

text \<open>
  \<open>updateProgress\<close> writes the counts it is given into the record on every call, and the
  progress events it emits for a record over any sequence of chunks start at least 100 ms
  after the record was created and follow each other at least 100 ms apart. The output
  handler of a repository transfer emits its progress events with the same spacing; a chunk
  that does not match the progress pattern, or that comes less than 100 ms after the last
  update, leaves the whole state as it was.
\<close>

lemma updateProgress_and_throttle:
  assumes "dlGet s downloadId = Some m"
  shows "(\<exists>p. progressOf (updateProgress now downloadId dl tot s) downloadId = Some p
             \<and> downloaded p = dl \<and> total p = tot
             \<and> percent p = (if tot > 0 then dl / tot * 100 else 0))
       \<and> (\<exists>new. d_events (readChunks downloadId contentLength d0 chunks s) = d_events s @ new
             \<and> spaced (lastUpdate m) (progressTimes downloadId new))
       \<and> (\<exists>new. d_events (hfChunks downloadId outputs s) = d_events s @ new
             \<and> spaced (lastProgressUpdate s downloadId) (progressTimes downloadId new))
       \<and> (now - lastProgressUpdate s downloadId < 100 \<or> parsed = None \<longrightarrow>
             hfOnData now downloadId parsed s = s)
       \<and> (now - lastProgressUpdate s downloadId \<ge> 100 \<longrightarrow>
             progressOf (hfOnData now downloadId (Some (pct, dl, tot)) s) downloadId =
               Some \<lparr> downloaded = dl, total = tot, percent = pct, speed = None, eta = None \<rparr>
             \<and> d_events (hfOnData now downloadId (Some (pct, dl, tot)) s) =
                 d_events s @ [DlProgressEvent downloadId now
                   \<lparr> downloaded = dl, total = tot, percent = pct, speed = None, eta = None \<rparr>])"
proof -
  from updateProgress_dlGet [OF assms, of now dl tot] obtain p where
    g: "dlGet (updateProgress now downloadId dl tot s) downloadId =
            Some (m \<lparr> d_info := (d_info m) \<lparr> progress := p \<rparr>,
                      lastUpdate := (if now - lastUpdate m \<ge> 100 then now else lastUpdate m) \<rparr>)"
    and p: "downloaded p = dl" "total p = tot" "percent p = (if tot > 0 then dl / tot * 100 else 0)"
    by blast
  have a: "\<exists>p. progressOf (updateProgress now downloadId dl tot s) downloadId = Some p
             \<and> downloaded p = dl \<and> total p = tot
             \<and> percent p = (if tot > 0 then dl / tot * 100 else 0)"
    using dlGet_objects [OF g] p by (simp add: progressOf_def)
  note b = readChunks_events [OF assms, of contentLength d0 chunks]
  note c = hfChunks_events [of downloadId outputs s]
  note d = hfOnData_skip [of now s downloadId parsed]
  note e = hfOnData_update [OF conjunct1 [OF dlGet_objects [OF assms]], of now pct dl tot]
  from a b c d e show ?thesis by blast
qed

lemma ex_url_chunks:
  "progressTimes ''d1''
     (d_events (readChunks ''d1'' 100 0 [(1050, 10), (1120, 10), (1300, 5)] ex_url)) = [1120, 1300]"
  "map_option downloaded
     (progressOf (readChunks ''d1'' 100 0 [(1050, 10), (1120, 10), (1300, 5)] ex_url) ''d1'') = Some 25"
  by (simp_all add: updateProgress_def Let_def dlGet_def dl_emitEvent_def ex_url_state
      progressOf_def)

lemma updateProgress_and_throttle_example:
  "dlGet ex_url ''d1'' \<noteq> None
   \<and> map_option downloaded (progressOf (updateProgress 1050 ''d1'' 10 100 ex_url) ''d1'') = Some 10
   \<and> progressTimes ''d1''
        (d_events (readChunks ''d1'' 100 0 [(1050, 10), (1120, 10), (1300, 5)] ex_url)) = [1120, 1300]
   \<and> spaced 1000 [1120, 1300]
   \<and> dlGet ex_hf ''d2'' \<noteq> None
   \<and> 1050 - lastProgressUpdate ex_hf ''d2'' < 100
   \<and> hfOnData 1050 ''d2'' (Some (45, 100, 200)) ex_hf = ex_hf
   \<and> 1200 - lastProgressUpdate ex_hf ''d2'' \<ge> 100
   \<and> progressOf (hfOnData 1200 ''d2'' (Some (45, 100, 200)) ex_hf) ''d2'' =
        Some \<lparr> downloaded = 100, total = 200, percent = 45, speed = None, eta = None \<rparr>"
proof -
  note u = updateProgress_and_throttle [OF ex_url_dlGet, where now = 1050 and dl = 10
      and tot = 100 and contentLength = 100 and ?d0.0 = 0
      and chunks = "[(1050, 10), (1120, 10), (1300, 5)]" and outputs = "[]"
      and parsed = None and pct = 0]
  note h1 = updateProgress_and_throttle [OF ex_hf_dlGet, where now = 1050 and dl = 100
      and tot = 200 and contentLength = 0 and ?d0.0 = 0 and chunks = "[]" and outputs = "[]"
      and parsed = "Some (45, 100, 200)" and pct = 45]
  note h2 = updateProgress_and_throttle [OF ex_hf_dlGet, where now = 1200 and dl = 100
      and tot = 200 and contentLength = 0 and ?d0.0 = 0 and chunks = "[]" and outputs = "[]"
      and parsed = "Some (45, 100, 200)" and pct = 45]
  from u have a: "map_option downloaded (progressOf (updateProgress 1050 ''d1'' 10 100 ex_url) ''d1'') = Some 10"
    by auto
  from u have "\<exists>new. d_events (readChunks ''d1'' 100 0 [(1050, 10), (1120, 10), (1300, 5)] ex_url) =
            d_events ex_url @ new \<and> spaced 1000 (progressTimes ''d1'' new)"
    by simp
  then have b: "spaced 1000 (progressTimes ''d1''
        (d_events (readChunks ''d1'' 100 0 [(1050, 10), (1120, 10), (1300, 5)] ex_url)))"
    by (auto simp: ex_url_state progressTimes_append)
  from h1 have c: "hfOnData 1050 ''d2'' (Some (45, 100, 200)) ex_hf = ex_hf"
    by (simp add: ex_hf_state)
  from h2 have d: "progressOf (hfOnData 1200 ''d2'' (Some (45, 100, 200)) ex_hf) ''d2'' =
        Some \<lparr> downloaded = 100, total = 200, percent = 45, speed = None, eta = None \<rparr>"
    by (simp add: ex_hf_state)
  from a b c d ex_url_chunks show ?thesis
    by (simp add: ex_url_dlGet ex_hf_dlGet ex_hf_state)
qed

lemma ex_hf_read_state:
  "d_objects ex_hf_read ''d2'' =
     Some \<lparr> d_info = \<lparr> d_id = ''d2'', d_name = ''m'', filename = ''m.gguf'',
                       source = HuggingFaceSource ''org/repo'' ''m.gguf'' None,
                       d_status = DlDownloading,
                       progress = \<lparr> downloaded = 198, total = 200, percent = 99,
                                    speed = None, eta = None \<rparr>,
                       d_startedAt = 1000, completedAt = None, d_error = None \<rparr>,
            abortController = None, childProcess = Some [],
            startTime = 1000, lastUpdate = 1000 \<rparr>"
  "downloads ex_hf_read = [''d2'']"
  "lastProgressUpdate ex_hf_read ''d2'' = 1200"
  "progressTimes ''d2'' (d_events ex_hf_read) = [1200]"
  by (simp_all add: ex_hf_read_def hfOnData_def Let_def dl_emitEvent_def ex_hf_state
      ex_hf_def downloadFromHuggingFace_def dm_init_def newDownload_def
      dl_updateStatus_def dlGet_def dlSet_def dlSetObject_def)

lemma ex_hf_completed_state:
  "dl_statusOf ex_hf_completed ''d2'' = Some DlCompleted"
  "progressOf ex_hf_completed ''d2'' =
     Some \<lparr> downloaded = 198, total = 200, percent = 99, speed = None, eta = None \<rparr>"
  by (simp_all add: ex_hf_completed_def hfOnClose_def Let_def ex_hf_read_state download_then_def
      dl_updateStatus_def dlGet_def dl_emitEvent_def dl_statusOf_def progressOf_def)

text \<open>
  C8 fails in the code for a repository transfer. An output chunk that reports 45 percent,
  100 of 200 bytes, 50 ms after the download started leaves the record's progress at its
  initial value and emits nothing. When the chunk reporting 99 percent is recorded and the
  one reporting 100 percent follows 50 ms later, the record stays at 99 percent, also once
  the download is \<open>completed\<close>. The read loop of the URL transfer records its first chunk,
  which comes 50 ms after the start, and emits no event for it.
\<close>

theorem hf_chunk_inside_window_not_recorded:
  "dl_statusOf ex_hf ''d2'' = Some DlDownloading
   \<and> progressOf (hfOnData 1050 ''d2'' (Some (45, 100, 200)) ex_hf) ''d2'' =
        Some \<lparr> downloaded = 0, total = 0, percent = 0, speed = None, eta = None \<rparr>
   \<and> d_events (hfOnData 1050 ''d2'' (Some (45, 100, 200)) ex_hf) = d_events ex_hf
   \<and> progressOf ex_hf_read ''d2'' =
        Some \<lparr> downloaded = 198, total = 200, percent = 99, speed = None, eta = None \<rparr>
   \<and> progressTimes ''d2'' (d_events ex_hf_read) = [1200]
   \<and> dl_statusOf ex_hf_completed ''d2'' = Some DlCompleted
   \<and> progressOf ex_hf_completed ''d2'' =
        Some \<lparr> downloaded = 198, total = 200, percent = 99, speed = None, eta = None \<rparr>
   \<and> map_option downloaded (progressOf ex_url_started ''d1'') = Some 0
   \<and> map_option downloaded (progressOf ex_url_read ''d1'') = Some 10
   \<and> map_option total (progressOf ex_url_read ''d1'') = Some 100
   \<and> progressTimes ''d1'' (d_events ex_url_read) = []"
proof -
  have a: "dl_statusOf ex_hf ''d2'' = Some DlDownloading"
    by (simp add: dl_statusOf_def ex_hf_state)
  have b: "hfOnData 1050 ''d2'' (Some (45, 100, 200)) ex_hf = ex_hf"
    by (simp add: hfOnData_def ex_hf_state)
  have c: "progressOf ex_hf ''d2'' =
        Some \<lparr> downloaded = 0, total = 0, percent = 0, speed = None, eta = None \<rparr>"
    "progressOf ex_hf_read ''d2'' =
        Some \<lparr> downloaded = 198, total = 200, percent = 99, speed = None, eta = None \<rparr>"
    by (simp_all add: progressOf_def ex_hf_state ex_hf_read_state)
  have d: "map_option downloaded (progressOf ex_url_started ''d1'') = Some 0"
    "map_option downloaded (progressOf ex_url_read ''d1'') = Some 10"
    "map_option total (progressOf ex_url_read ''d1'') = Some 100"
    "progressTimes ''d1'' (d_events ex_url_read) = []"
    by (simp_all add: progressOf_def ex_url_started_state ex_url_read_state)
  show ?thesis
    by (simp add: a b c d ex_hf_read_state ex_hf_completed_state)
qed

end
